theory Spec2Isabelle
  imports Main "HOL-Library.Char_ord" "HOL-Library.List_Lexorder" "HOL-Library.Multiset"
begin

section \<open>Errors\<close>

text \<open>
  \<open>Policy.Load\<close> and the \<open>Parse\<close> methods return Go \<open>error\<close> values. The model keeps
  one constructor per place an error is produced: a template text that does not compile
  (\<open>template.New(..).Parse\<close>), a template that fails while it executes
  (\<open>tmpl.Execute\<close>), and the two \<open>errors.New\<close> of the pre-flight check of \<open>Load\<close>.
\<close>

datatype error = TemplateInvalid | RenderError | ReportToMissing | ReportToMismatch

section \<open>The template engine\<close>

text \<open>
  The package renders every directive through Go's \<open>text/template\<close>. The engine is
  modelled for the fragment of the template language in which the five templates of the
  package are written: literal text, \<open>{{if P}} .. {{else}} .. {{end}}\<close>,
  \<open>{{range $x := P}} .. {{else}} .. {{end}}\<close> and \<open>{{P}}\<close>, where a pipeline \<open>P\<close> is one
  command made of the operands \<open>.Field\<close>, \<open>$x\<close>, a decimal integer, a parenthesised
  command, and the functions \<open>not\<close>, \<open>len\<close> and \<open>gt\<close>. Template text outside the
  fragment is reported as \<open>TemplateInvalid\<close>.
\<close>

subsection \<open>Values handed to a template\<close>

datatype tvalue = VBool bool | VInt int | VString string | VStrings "string list"

text \<open>The dot of a template: the struct passed to \<open>Execute\<close>, or the element of a \<open>range\<close>.\<close>

datatype tdata = Struct "(string \<times> tvalue) list" | Elem tvalue

subsection \<open>Syntax trees\<close>

datatype operand =
    FieldNode string
  | VariableNode string
  | NumberNode nat
  | IdentifierNode string
  | PipeNode "operand list"

type_synonym command = "operand list"

datatype node =
    TextNode string
  | ActionNode command
  | IfNode command "node list" "node list"
  | RangeNode string command "node list" "node list"

type_synonym template = "node list"

subsection \<open>Lexing\<close>

datatype token =
    TField string
  | TVariable string
  | TNumber nat
  | TIdent string
  | TLeftParen
  | TRightParen
  | TDeclare

definition isSpace :: "char \<Rightarrow> bool" where
  "isSpace c = (c = CHR '' '' \<or> c = CHR 0x09 \<or> c = CHR 0x0D \<or> c = CHR 0x0A)"

definition isDigit :: "char \<Rightarrow> bool" where
  "isDigit c = (CHR ''0'' \<le> c \<and> c \<le> CHR ''9'')"

definition isAlphaNumeric :: "char \<Rightarrow> bool" where
  "isAlphaNumeric c =
     (c = CHR ''_'' \<or> (CHR ''a'' \<le> c \<and> c \<le> CHR ''z'') \<or> (CHR ''A'' \<le> c \<and> c \<le> CHR ''Z'')
      \<or> isDigit c)"

text \<open>What may follow a field, a variable or an identifier inside an action.\<close>

definition atTerminator :: "string \<Rightarrow> bool" where
  "atTerminator s =
     (case s of
        [] \<Rightarrow> True
      | c # _ \<Rightarrow> isSpace c \<or> c \<in> set ''.,|:)('')"

definition digit_value :: "char \<Rightarrow> nat" where
  "digit_value c = of_char c - 48"

definition number_value :: "string \<Rightarrow> nat" where
  "number_value ds = foldl (\<lambda>n c. 10 * n + digit_value c) 0 ds"

text \<open>
  A number of the fragment is \<open>0\<close> or a decimal numeral without a leading zero, of at
  most 18 digits (so that it fits Go's \<open>int\<close>).
\<close>

definition number_ok :: "string \<Rightarrow> bool" where
  "number_ok ds =
     (list_all isDigit ds \<and> length ds \<le> 18 \<and>
      (case ds of [] \<Rightarrow> False | d # ds' \<Rightarrow> if d = CHR ''0'' then ds' = [] else True))"

text \<open>\<open>lexInsideAction\<close>: the tokens between \<open>{{\<close> and \<open>}}\<close>.\<close>

function lexInsideAction :: "string \<Rightarrow> error + token list" where
  "lexInsideAction [] = Inr []"
| "lexInsideAction (c # cs) =
     (if isSpace c then lexInsideAction cs
      else if c = CHR ''('' then map_sum id (Cons TLeftParen) (lexInsideAction cs)
      else if c = CHR '')'' then map_sum id (Cons TRightParen) (lexInsideAction cs)
      else if c = CHR '':'' then
        (case cs of
           d # cs' \<Rightarrow> if d = CHR ''='' then map_sum id (Cons TDeclare) (lexInsideAction cs')
                      else Inl TemplateInvalid
         | [] \<Rightarrow> Inl TemplateInvalid)
      else if c = CHR ''.'' \<or> c = CHR ''$'' then
        (let name = takeWhile isAlphaNumeric cs; rest = dropWhile isAlphaNumeric cs in
         if name = [] then Inl TemplateInvalid
         else if c = CHR ''.'' \<and> isDigit (hd name) then Inl TemplateInvalid
         else if atTerminator rest
         then map_sum id (Cons (if c = CHR ''.'' then TField name else TVariable name))
                (lexInsideAction rest)
         else Inl TemplateInvalid)
      else if isDigit c then
        (let word = c # takeWhile isAlphaNumeric cs; rest = dropWhile isAlphaNumeric cs in
         if number_ok word
         then map_sum id (Cons (TNumber (number_value word))) (lexInsideAction rest)
         else Inl TemplateInvalid)
      else if isAlphaNumeric c then
        (let word = c # takeWhile isAlphaNumeric cs; rest = dropWhile isAlphaNumeric cs in
         if atTerminator rest
         then map_sum id (Cons (TIdent word)) (lexInsideAction rest)
         else Inl TemplateInvalid)
      else Inl TemplateInvalid)"
  by pat_completeness auto
termination
  by (relation "measure length") (auto simp: length_dropWhile_le less_Suc_eq_le)

subsection \<open>Parsing\<close>

text \<open>The functions of the fragment.\<close>

definition builtin :: "string \<Rightarrow> bool" where
  "builtin f = (f \<in> set [''not'', ''len'', ''gt''])"

text \<open>
  A command is the sequence of operands up to the end of the action. Parentheses nest:
  \<open>cur\<close> holds the operands of the innermost open command in reverse, \<open>stack\<close> those
  of the enclosing ones. A variable must have been declared by an enclosing \<open>range\<close>,
  a function must be known, and a command is never empty.
\<close>

fun parseCommand :: "string list \<Rightarrow> operand list \<Rightarrow> operand list list \<Rightarrow> token list
    \<Rightarrow> error + command" where
  "parseCommand vars cur stack [] =
     (if stack = [] \<and> cur \<noteq> [] then Inr (rev cur) else Inl TemplateInvalid)"
| "parseCommand vars cur stack (TField f # ts) = parseCommand vars (FieldNode f # cur) stack ts"
| "parseCommand vars cur stack (TVariable x # ts) =
     (if x \<in> set vars then parseCommand vars (VariableNode x # cur) stack ts
      else Inl TemplateInvalid)"
| "parseCommand vars cur stack (TNumber n # ts) = parseCommand vars (NumberNode n # cur) stack ts"
| "parseCommand vars cur stack (TIdent f # ts) =
     (if builtin f then parseCommand vars (IdentifierNode f # cur) stack ts else Inl TemplateInvalid)"
| "parseCommand vars cur stack (TLeftParen # ts) = parseCommand vars [] (cur # stack) ts"
| "parseCommand vars cur stack (TRightParen # ts) =
     (case stack of
        [] \<Rightarrow> Inl TemplateInvalid
      | outer # stack' \<Rightarrow>
          if cur = [] then Inl TemplateInvalid
          else parseCommand vars (PipeNode (rev cur) # outer) stack' ts)"
| "parseCommand vars cur stack (TDeclare # ts) = Inl TemplateInvalid"

datatype action = APrint command | AIf command | AElse | AEnd | ARange string command

definition parseAction :: "string list \<Rightarrow> token list \<Rightarrow> error + action" where
  "parseAction vars ts =
     (case ts of
        TIdent k # rest \<Rightarrow>
          if k = ''if'' then map_sum id AIf (parseCommand vars [] [] rest)
          else if k = ''else'' then (if rest = [] then Inr AElse else Inl TemplateInvalid)
          else if k = ''end'' then (if rest = [] then Inr AEnd else Inl TemplateInvalid)
          else if k = ''range'' then
            (case rest of
               TVariable x # TDeclare # rest' \<Rightarrow>
                 map_sum id (ARange x) (parseCommand (x # vars) [] [] rest')
             | _ \<Rightarrow> Inl TemplateInvalid)
          else map_sum id APrint (parseCommand vars [] [] ts)
      | _ \<Rightarrow> map_sum id APrint (parseCommand vars [] [] ts))"

text \<open>
  The blocks that are open while the node list is built. A frame keeps the action that
  opened the block, the nodes of the enclosing list read so far (in reverse), and the
  first branch once \<open>{{else}}\<close> has been seen.
\<close>

datatype opener = OIf command | ORange string command

type_synonym frame = "opener \<times> node list \<times> node list option"

fun scope :: "frame list \<Rightarrow> string list" where
  "scope [] = []"
| "scope ((ORange x c, outer, first) # st) = x # scope st"
| "scope ((OIf c, outer, first) # st) = scope st"

definition close_block :: "opener \<Rightarrow> node list \<Rightarrow> node list \<Rightarrow> node" where
  "close_block opn t e = (case opn of OIf c \<Rightarrow> IfNode c t e | ORange x c \<Rightarrow> RangeNode x c t e)"

fun parseActionStep :: "node list \<Rightarrow> frame list \<Rightarrow> action \<Rightarrow> error + node list \<times> frame list" where
  "parseActionStep nodes st (APrint c) = Inr (ActionNode c # nodes, st)"
| "parseActionStep nodes st (AIf c) = Inr ([], (OIf c, nodes, None) # st)"
| "parseActionStep nodes st (ARange x c) = Inr ([], (ORange x c, nodes, None) # st)"
| "parseActionStep nodes st AElse =
     (case st of
        (opn, outer, None) # st' \<Rightarrow> Inr ([], (opn, outer, Some (rev nodes)) # st')
      | _ \<Rightarrow> Inl TemplateInvalid)"
| "parseActionStep nodes st AEnd =
     (case st of
        [] \<Rightarrow> Inl TemplateInvalid
      | (opn, outer, None) # st' \<Rightarrow> Inr (close_block opn (rev nodes) [] # outer, st')
      | (opn, outer, Some t) # st' \<Rightarrow> Inr (close_block opn t (rev nodes) # outer, st'))"

text \<open>Literal text becomes a node unless it is empty.\<close>

definition emitText :: "string \<Rightarrow> node list \<Rightarrow> node list" where
  "emitText cur nodes = (if cur = [] then nodes else TextNode (rev cur) # nodes)"

text \<open>
  The parser runs over the template text: literal text up to the next \<open>{{\<close>, then the
  action up to the next \<open>}}\<close>, which is lexed, parsed and applied to the open blocks.
  \<open>nodes\<close> is the node list under construction and \<open>cur\<close> the text or action being
  read, both in reverse. At the end of the text no action and no block may be open.
\<close>

fun parseText :: "node list \<Rightarrow> frame list \<Rightarrow> bool \<Rightarrow> string \<Rightarrow> string \<Rightarrow> error + template" where
  "parseText nodes st inside cur (c # d # cs) =
     (if \<not> inside \<and> c = CHR ''{'' \<and> d = CHR ''{''
      then parseText (emitText cur nodes) st True [] cs
      else if inside \<and> c = CHR ''}'' \<and> d = CHR ''}''
      then (case lexInsideAction (rev cur) of
              Inl e \<Rightarrow> Inl e
            | Inr ts \<Rightarrow>
               (case parseAction (scope st) ts of
                  Inl e \<Rightarrow> Inl e
                | Inr a \<Rightarrow>
                   (case parseActionStep nodes st a of
                      Inl e \<Rightarrow> Inl e
                    | Inr (nodes', st') \<Rightarrow> parseText nodes' st' False [] cs)))
      else parseText nodes st inside (c # cur) (d # cs))"
| "parseText nodes st inside cur cs =
     (if inside then Inl TemplateInvalid
      else if st = [] then Inr (rev (emitText (rev cs @ cur) nodes))
      else Inl TemplateInvalid)"

text \<open>\<open>template.New(name).Parse(text)\<close>; the name plays no part.\<close>

definition template_Parse :: "string \<Rightarrow> error + template" where
  "template_Parse text = parseText [] [] False [] text"

subsection \<open>Execution\<close>

text \<open>\<open>strings.Join\<close>.\<close>

fun Join :: "string list \<Rightarrow> string \<Rightarrow> string" where
  "Join [] sep = []"
| "Join [x] sep = x"
| "Join (x # y # ys) sep = x @ sep @ Join (y # ys) sep"

function show_nat :: "nat \<Rightarrow> string" where
  "show_nat n =
     (if n < 10 then [char_of (48 + n)] else show_nat (n div 10) @ [char_of (48 + n mod 10)])"
  by pat_completeness auto
termination
  by (relation "measure id") auto

definition show_int :: "int \<Rightarrow> string" where
  "show_int i = (if i < 0 then CHR ''-'' # show_nat (nat (- i)) else show_nat (nat i))"

text \<open>What \<open>{{P}}\<close> writes for the value of \<open>P\<close> (\<open>fmt.Fprint\<close>).\<close>

fun printValue :: "tvalue \<Rightarrow> string" where
  "printValue (VBool b) = (if b then ''true'' else ''false'')"
| "printValue (VInt i) = show_int i"
| "printValue (VString s) = s"
| "printValue (VStrings l) = ''['' @ Join l '' '' @ '']''"

text \<open>The truth of a value: the empty values are false.\<close>

fun truth :: "tvalue \<Rightarrow> bool" where
  "truth (VBool b) = b"
| "truth (VInt i) = (i \<noteq> 0)"
| "truth (VString s) = (s \<noteq> [])"
| "truth (VStrings l) = (l \<noteq> [])"

definition call :: "string \<Rightarrow> tvalue list \<Rightarrow> error + tvalue" where
  "call f args =
     (if f = ''not'' then
        (case args of [v] \<Rightarrow> Inr (VBool (\<not> truth v)) | _ \<Rightarrow> Inl RenderError)
      else if f = ''len'' then
        (case args of
           [VString s] \<Rightarrow> Inr (VInt (int (length s)))
         | [VStrings l] \<Rightarrow> Inr (VInt (int (length l)))
         | _ \<Rightarrow> Inl RenderError)
      else if f = ''gt'' then
        (case args of
           [VInt a, VInt b] \<Rightarrow> Inr (VBool (b < a))
         | [VString a, VString b] \<Rightarrow> Inr (VBool (b < a))
         | _ \<Rightarrow> Inl RenderError)
      else Inl RenderError)"

text \<open>The first error of a list of results, or all the values.\<close>

fun collect :: "(error + 'a) list \<Rightarrow> error + 'a list" where
  "collect [] = Inr []"
| "collect (r # rs) =
     (case r of Inl e \<Rightarrow> Inl e | Inr v \<Rightarrow> map_sum id (Cons v) (collect rs))"

text \<open>
  Only a function takes arguments; a field that the dot does not have and a variable
  without a value fail the execution.
\<close>

fun evalOperand :: "tdata \<Rightarrow> (string \<times> tvalue) list \<Rightarrow> operand \<Rightarrow> error + tvalue"
  and evalCommand :: "tdata \<Rightarrow> (string \<times> tvalue) list \<Rightarrow> operand list \<Rightarrow> error + tvalue" where
  "evalOperand dot vars (FieldNode f) =
     (case dot of
        Struct fs \<Rightarrow> (case map_of fs f of Some v \<Rightarrow> Inr v | None \<Rightarrow> Inl RenderError)
      | Elem v \<Rightarrow> Inl RenderError)"
| "evalOperand dot vars (VariableNode x) =
     (case map_of vars x of Some v \<Rightarrow> Inr v | None \<Rightarrow> Inl RenderError)"
| "evalOperand dot vars (NumberNode n) = Inr (VInt (int n))"
| "evalOperand dot vars (IdentifierNode f) = call f []"
| "evalOperand dot vars (PipeNode c) = evalCommand dot vars c"
| "evalCommand dot vars [] = Inl RenderError"
| "evalCommand dot vars (IdentifierNode f # args) =
     (case collect (map (evalOperand dot vars) args) of
        Inl e \<Rightarrow> Inl e
      | Inr vs \<Rightarrow> call f vs)"
| "evalCommand dot vars [x] = evalOperand dot vars x"
| "evalCommand dot vars (x # y # zs) = Inl RenderError"

fun execNode :: "tdata \<Rightarrow> (string \<times> tvalue) list \<Rightarrow> node \<Rightarrow> error + string"
  and execList :: "tdata \<Rightarrow> (string \<times> tvalue) list \<Rightarrow> node list \<Rightarrow> error + string" where
  "execNode dot vars (TextNode s) = Inr s"
| "execNode dot vars (ActionNode c) = map_sum id printValue (evalCommand dot vars c)"
| "execNode dot vars (IfNode c t e) =
     (case evalCommand dot vars c of
        Inl err \<Rightarrow> Inl err
      | Inr v \<Rightarrow> if truth v then execList dot vars t else execList dot vars e)"
| "execNode dot vars (RangeNode x c body els) =
     (case evalCommand dot vars c of
        Inl err \<Rightarrow> Inl err
      | Inr (VStrings l) \<Rightarrow>
          if l = [] then execList dot ((x, VStrings []) # vars) els
          else map_sum id concat
                 (collect (map (\<lambda>s. execList (Elem (VString s)) ((x, VString s) # vars) body) l))
      | Inr _ \<Rightarrow> Inl RenderError)"
| "execList dot vars [] = Inr []"
| "execList dot vars (n # ns) =
     (case execNode dot vars n of
        Inl e \<Rightarrow> Inl e
      | Inr s \<Rightarrow> map_sum id (append s) (execList dot vars ns))"

text \<open>\<open>tmpl.Execute(&buf, data)\<close> followed by \<open>buf.String()\<close>.\<close>

definition Execute :: "template \<Rightarrow> tdata \<Rightarrow> error + string" where
  "Execute tmpl data = execList data [] tmpl"

section \<open>Option values and their templates\<close>

subsection \<open>The default template texts\<close>

text \<open>The five constants, line by line as the package concatenates them.\<close>

definition TemplateTextSourceOption :: string where
  "TemplateTextSourceOption =
     ''{{ if not .Allow }}'none'{{ else }}'' @
     ''{{ if .AllowSelf }}'self'{{ end }}'' @
     ''{{ range $v := .Values }} {{$v}}{{ end }}'' @
     ''{{ if .UnsafeEval }} 'unsafe-eval'{{ end }}'' @
     ''{{ if .WasmUnsafeEval }} 'wasm-unsafe-eval'{{ end }}'' @
     ''{{ if .UnsafeHashes }} 'unsafe-hashes'{{ end }}'' @
     ''{{ if .UnsafeInline }} 'unsafe-inline'{{ end }}'' @
     ''{{ if gt (len .NonceBase64Value) 0 }}{{ .NonceBase64Value}}{{ end }}'' @
     ''{{ if gt (len .HashAlgorithmBase64Value) 0 }}{{ .HashAlgorithmBase64Value}}{{ end }}'' @
     ''{{ if .StrictDynamic }} 'strict-dynamic'{{ end }}'' @
     ''{{ if .ReportSample }} 'report-sample'{{ end }}'' @
     ''{{ end }}''"

definition TemplateTextSandbox :: string where
  "TemplateTextSandbox =
     ''{{ if .AllowDownloads }}allow-downloads{{ end }}'' @
     ''{{ if .AllowForms }} allow-forms{{ end }}'' @
     ''{{ if .AllowModals }} allow-modals{{ end }}'' @
     ''{{ if .AllowOrientationLock }} allow-orientation-lock{{ end }}'' @
     ''{{ if .AllowPointerLock }} allow-pointer-lock{{ end }}'' @
     ''{{ if .AllowPopups }} allow-popups{{ end }}'' @
     ''{{ if .AllowPopupsToEscapeSandbox }} allow-popups-to-escape-sandbox{{ end }}'' @
     ''{{ if .AllowPresentation }} allow-presentation{{ end }}'' @
     ''{{ if .AllowSameOrigin }} allow-same-origin{{ end }}'' @
     ''{{ if .AllowScripts }} allow-scripts{{ end }}'' @
     ''{{ if .AllowTopNavigation }} allow-top-navigation{{ end }}'' @
     ''{{ if .AllowTopNavigationByUserActivation }} allow-top-navigation-by-user-activation{{ end }}'' @
     ''{{ if .AllowTopNavigationToCustomProtocols }} allow-top-navigation-to-custom-protocols{{ end }}''"

definition TemplateTextFrameAncestorOptions :: string where
  "TemplateTextFrameAncestorOptions =
     ''{{ if not .Allow }}'none'{{ else }}'' @
     ''{{ if .AllowSelf }}'self'{{ end }}'' @
     ''{{ range $v := .HostSources }} {{$v}}{{ end }}'' @
     ''{{ range $v := .SchemeSources }} {{$v}}{{ end }}'' @
     ''{{ end }}''"

definition TemplateTextUnquotedOptions :: string where
  "TemplateTextUnquotedOptions = ''{{ range $v := .Values }}{{$v}} {{ end }}''"

definition TemplateTextUnquotedOption :: string where
  "TemplateTextUnquotedOption = ''{{ .Value }}''"

subsection \<open>The option structs\<close>

text \<open>
  Each Go struct is a record. \<open>FrameAncestorOptions\<close> and \<open>UnquotedOptions\<close> repeat the
  field names \<open>Allow\<close>, \<open>AllowSelf\<close> and \<open>Values\<close> of \<open>CSPSourceOptions\<close>; their record
  fields carry a prefix, and the \<open>Parse\<close> functions below hand every field to the
  template under its Go name.
\<close>

record CSPSourceOptions =
  Allow :: bool
  AllowSelf :: bool
  Values :: "string list"
  UnsafeEval :: bool
  WasmUnsafeEval :: bool
  UnsafeHashes :: bool
  UnsafeInline :: bool
  NonceBase64Value :: string
  HashAlgorithmBase64Value :: string
  StrictDynamic :: bool
  ReportSample :: bool

record UnquotedOption =
  Value :: string

record UnquotedOptions =
  UO_Values :: "string list"

record SandboxOptions =
  AllowDownloads :: bool
  AllowForms :: bool
  AllowModals :: bool
  AllowOrientationLock :: bool
  AllowPointerLock :: bool
  AllowPopups :: bool
  AllowPopupsToEscapeSandbox :: bool
  AllowPresentation :: bool
  AllowSameOrigin :: bool
  AllowScripts :: bool
  AllowTopNavigation :: bool
  AllowTopNavigationByUserActivation :: bool
  AllowTopNavigationToCustomProtocols :: bool

record FrameAncestorOptions =
  FA_Allow :: bool
  FA_AllowSelf :: bool
  HostSources :: "string list"
  SchemeSources :: "string list"

subsection \<open>The \<open>Parse\<close> methods\<close>

text \<open>
  Every \<open>Parse\<close> executes the template on the receiver and returns the buffer, or the
  error of \<open>Execute\<close>.
\<close>

definition CSPSourceOptions_Parse :: "CSPSourceOptions \<Rightarrow> template \<Rightarrow> error + string" where
  "CSPSourceOptions_Parse cso tmpl =
     Execute tmpl (Struct
       [(''Allow'', VBool (Allow cso)),
        (''AllowSelf'', VBool (AllowSelf cso)),
        (''Values'', VStrings (Values cso)),
        (''UnsafeEval'', VBool (UnsafeEval cso)),
        (''WasmUnsafeEval'', VBool (WasmUnsafeEval cso)),
        (''UnsafeHashes'', VBool (UnsafeHashes cso)),
        (''UnsafeInline'', VBool (UnsafeInline cso)),
        (''NonceBase64Value'', VString (NonceBase64Value cso)),
        (''HashAlgorithmBase64Value'', VString (HashAlgorithmBase64Value cso)),
        (''StrictDynamic'', VBool (StrictDynamic cso)),
        (''ReportSample'', VBool (ReportSample cso))])"

definition UnquotedOption_Parse :: "UnquotedOption \<Rightarrow> template \<Rightarrow> error + string" where
  "UnquotedOption_Parse uv tmpl = Execute tmpl (Struct [(''Value'', VString (Value uv))])"

definition UnquotedOptions_Parse :: "UnquotedOptions \<Rightarrow> template \<Rightarrow> error + string" where
  "UnquotedOptions_Parse uvs tmpl = Execute tmpl (Struct [(''Values'', VStrings (UO_Values uvs))])"

definition SandboxOptions_Parse :: "SandboxOptions \<Rightarrow> template \<Rightarrow> error + string" where
  "SandboxOptions_Parse so tmpl =
     Execute tmpl (Struct
       [(''AllowDownloads'', VBool (AllowDownloads so)),
        (''AllowForms'', VBool (AllowForms so)),
        (''AllowModals'', VBool (AllowModals so)),
        (''AllowOrientationLock'', VBool (AllowOrientationLock so)),
        (''AllowPointerLock'', VBool (AllowPointerLock so)),
        (''AllowPopups'', VBool (AllowPopups so)),
        (''AllowPopupsToEscapeSandbox'', VBool (AllowPopupsToEscapeSandbox so)),
        (''AllowPresentation'', VBool (AllowPresentation so)),
        (''AllowSameOrigin'', VBool (AllowSameOrigin so)),
        (''AllowScripts'', VBool (AllowScripts so)),
        (''AllowTopNavigation'', VBool (AllowTopNavigation so)),
        (''AllowTopNavigationByUserActivation'', VBool (AllowTopNavigationByUserActivation so)),
        (''AllowTopNavigationToCustomProtocols'',
           VBool (AllowTopNavigationToCustomProtocols so))])"

definition FrameAncestorOptions_Parse :: "FrameAncestorOptions \<Rightarrow> template \<Rightarrow> error + string" where
  "FrameAncestorOptions_Parse fao tmpl =
     Execute tmpl (Struct
       [(''Allow'', VBool (FA_Allow fao)),
        (''AllowSelf'', VBool (FA_AllowSelf fao)),
        (''HostSources'', VStrings (HostSources fao)),
        (''SchemeSources'', VStrings (SchemeSources fao))])"

section \<open>Go maps\<close>

text \<open>
  A \<open>map[string]string\<close> that the code ranges over is an association list with distinct
  keys: \<open>assign\<close> is \<open>m[k] = v\<close> and \<open>index\<close> is \<open>m[k]\<close>, the empty string for a key
  that is absent.
\<close>

type_synonym gomap = "(string \<times> string) list"

fun assign :: "string \<Rightarrow> string \<Rightarrow> gomap \<Rightarrow> gomap" where
  "assign k v [] = [(k, v)]"
| "assign k v ((k', v') # m) = (if k' = k then (k, v) # m else (k', v') # assign k v m)"

definition index :: "gomap \<Rightarrow> string \<Rightarrow> string" where
  "index m k = (case map_of m k of None \<Rightarrow> [] | Some v \<Rightarrow> v)"

text \<open>
  Go leaves the order of \<open>range\<close> over a map unspecified. The model takes the order
  from a list of choices that the caller of the model supplies: each choice picks the
  next entry among those not yet visited. Every choice list yields an order that visits
  each entry once, and every such order comes from some choice list.
\<close>

function rangeOrder :: "nat list \<Rightarrow> 'a list \<Rightarrow> 'a list" where
  "rangeOrder cs [] = []"
| "rangeOrder [] (x # xs) = x # xs"
| "rangeOrder (c # cs) (x # xs) =
     (let i = c mod length (x # xs)
      in ((x # xs) ! i) # rangeOrder cs (take i (x # xs) @ drop (Suc i) (x # xs)))"
  by pat_completeness auto
termination
  by (relation "measure (\<lambda>(cs, xs). length xs)") auto

text \<open>The four \<open>range\<close> loops of \<open>Load\<close> over maps.\<close>

record orders =
  fetchOrder :: "nat list"
  nonFetchOrder :: "nat list"
  staticOrder :: "nat list"
  dynamicOrder :: "nat list"

section \<open>The policy\<close>

text \<open>
  \<open>Policy\<close> with its exported configuration. The template pointers, the two directive
  maps and the two unused strings of the Go struct are assigned inside \<open>Load\<close> before
  they are read (\<open>Load\<close> has a value receiver), so they are locals of the model. The
  one-field struct \<open>Policy.ReportTo\<close> is the field \<open>ReportTo_ReportTo\<close>.
\<close>

record CSP_struct =
  DefaultSrc :: CSPSourceOptions
  ChildSrc :: CSPSourceOptions
  ConnectSrc :: CSPSourceOptions
  FontSrc :: CSPSourceOptions
  FrameSrc :: CSPSourceOptions
  ImgSrc :: CSPSourceOptions
  ManifestSrc :: CSPSourceOptions
  MediaSrc :: CSPSourceOptions
  ObjectSrc :: CSPSourceOptions
  PrefetchSrc :: CSPSourceOptions
  ScriptSrc :: CSPSourceOptions
  ScriptSrcElem :: CSPSourceOptions
  ScriptSrcAttr :: CSPSourceOptions
  StyleSrc :: CSPSourceOptions
  StyleSrcElem :: CSPSourceOptions
  StyleSrcAttr :: CSPSourceOptions
  WorkerSrc :: CSPSourceOptions
  BaseURI :: CSPSourceOptions
  Sandbox :: SandboxOptions
  FormAction :: CSPSourceOptions
  FrameAncestors :: FrameAncestorOptions
  ReportURI :: UnquotedOptions
  ReportTo :: UnquotedOption
  UpgradeInsecureRequests :: bool

record Policy =
  SourceOptionTemplateText :: string
  SandboxOptionTemplateText :: string
  FrameAncestorOptionsTemplateText :: string
  UnquotedOptionsTextTemplateText :: string
  UnquotedOptionTextTemplateText :: string
  CSP :: CSP_struct
  ReportTo_ReportTo :: string

record templates =
  SourceOptionTemplate :: template
  SandboxOptionTemplate :: template
  FrameAncestorOptionsTemplate :: template
  UnquotedOptionsTemplate :: template
  UnquotedOptionTemplate :: template

section \<open>\<open>Policy.Load\<close>\<close>

subsection \<open>Default templates (csp.go 121-141)\<close>

definition defaultTemplates :: "Policy \<Rightarrow> Policy" where
  "defaultTemplates pol = pol
     \<lparr> SourceOptionTemplateText :=
         (if length (SourceOptionTemplateText pol) = 0 then TemplateTextSourceOption
          else SourceOptionTemplateText pol),
       SandboxOptionTemplateText :=
         (if length (SandboxOptionTemplateText pol) = 0 then TemplateTextSandbox
          else SandboxOptionTemplateText pol),
       FrameAncestorOptionsTemplateText :=
         (if length (FrameAncestorOptionsTemplateText pol) = 0
          then TemplateTextFrameAncestorOptions
          else FrameAncestorOptionsTemplateText pol),
       UnquotedOptionsTextTemplateText :=
         (if length (UnquotedOptionsTextTemplateText pol) = 0 then TemplateTextUnquotedOptions
          else UnquotedOptionsTextTemplateText pol),
       UnquotedOptionTextTemplateText :=
         (if length (UnquotedOptionTextTemplateText pol) = 0 then TemplateTextUnquotedOption
          else UnquotedOptionTextTemplateText pol) \<rparr>"

subsection \<open>Parsing the five texts (csp.go 143-168)\<close>

definition parseTemplates :: "Policy \<Rightarrow> error + templates" where
  "parseTemplates pol =
     (case template_Parse (SourceOptionTemplateText pol) of
        Inl e \<Rightarrow> Inl e
      | Inr so \<Rightarrow>
     (case template_Parse (SandboxOptionTemplateText pol) of
        Inl e \<Rightarrow> Inl e
      | Inr sb \<Rightarrow>
     (case template_Parse (FrameAncestorOptionsTemplateText pol) of
        Inl e \<Rightarrow> Inl e
      | Inr fa \<Rightarrow>
     (case template_Parse (UnquotedOptionsTextTemplateText pol) of
        Inl e \<Rightarrow> Inl e
      | Inr uos \<Rightarrow>
     (case template_Parse (UnquotedOptionTextTemplateText pol) of
        Inl e \<Rightarrow> Inl e
      | Inr uo \<Rightarrow>
          Inr \<lparr> SourceOptionTemplate = so, SandboxOptionTemplate = sb,
                FrameAncestorOptionsTemplate = fa, UnquotedOptionsTemplate = uos,
                UnquotedOptionTemplate = uo \<rparr>)))))"

subsection \<open>Pre-flight compound checks (csp.go 170-184)\<close>

text \<open>\<open>strings.HasPrefix\<close> and \<open>strings.Contains\<close>.\<close>

fun HasPrefix :: "string \<Rightarrow> string \<Rightarrow> bool" where
  "HasPrefix s [] = True"
| "HasPrefix [] (p # ps) = False"
| "HasPrefix (c # s) (p # ps) = (c = p \<and> HasPrefix s ps)"

fun Contains :: "string \<Rightarrow> string \<Rightarrow> bool" where
  "Contains [] substr = (substr = [])"
| "Contains (c # s) substr = (if HasPrefix (c # s) substr then True else Contains s substr)"

definition compoundChecks :: "Policy \<Rightarrow> error + unit" where
  "compoundChecks pol =
     (if length (Value (ReportTo (CSP pol))) \<noteq> 0 then
        (if length (ReportTo_ReportTo pol) = 0 then Inl ReportToMissing
         else if Contains (ReportTo_ReportTo pol) (Value (ReportTo (CSP pol))) then Inr ()
         else Inl ReportToMismatch)
      else Inr ())"

subsection \<open>Rendering the directives (csp.go 186-291)\<close>

definition sourceOptFetchDirectives :: "Policy \<Rightarrow> (string \<times> CSPSourceOptions) list" where
  "sourceOptFetchDirectives pol =
     [(''child-src'', ChildSrc (CSP pol)),
      (''connect-src'', ConnectSrc (CSP pol)),
      (''font-src'', FontSrc (CSP pol)),
      (''frame-src'', FrameSrc (CSP pol)),
      (''img-src'', ImgSrc (CSP pol)),
      (''manifest-src'', ManifestSrc (CSP pol)),
      (''media-src'', MediaSrc (CSP pol)),
      (''object-src'', ObjectSrc (CSP pol)),
      (''prefetch-src'', PrefetchSrc (CSP pol)),
      (''script-src'', ScriptSrc (CSP pol)),
      (''script-src-elem'', ScriptSrcElem (CSP pol)),
      (''script-src-attr'', ScriptSrcAttr (CSP pol)),
      (''style-src'', StyleSrc (CSP pol)),
      (''style-src-elem'', StyleSrcElem (CSP pol)),
      (''style-src-attr'', StyleSrcAttr (CSP pol)),
      (''worker-src'', WorkerSrc (CSP pol))]"

definition sourceOptNonFetchDirectives :: "Policy \<Rightarrow> (string \<times> CSPSourceOptions) list" where
  "sourceOptNonFetchDirectives pol =
     [(''base-uri'', BaseURI (CSP pol)),
      (''form-action'', FormAction (CSP pol))]"

text \<open>
  The loop over the fetch directives, on the pair of the static and the dynamic map:
  a directive whose text equals the text stored for \<open>default-src\<close> is skipped, one with
  a nonce or a hash goes to the dynamic map, any other to the static map.
\<close>

fun fetchLoop :: "template \<Rightarrow> (string \<times> CSPSourceOptions) list \<Rightarrow> gomap \<times> gomap
    \<Rightarrow> error + gomap \<times> gomap" where
  "fetchLoop tmpl [] (static, dynamic) = Inr (static, dynamic)"
| "fetchLoop tmpl ((k, v) # kvs) (static, dynamic) =
     (case CSPSourceOptions_Parse v tmpl of
        Inl e \<Rightarrow> Inl e
      | Inr policyDirectiveText \<Rightarrow>
          if index static ''default-src'' = policyDirectiveText
          then fetchLoop tmpl kvs (static, dynamic)
          else if length (NonceBase64Value v) > 0 \<or> length (HashAlgorithmBase64Value v) > 0
          then fetchLoop tmpl kvs (static, assign k policyDirectiveText dynamic)
          else fetchLoop tmpl kvs (assign k policyDirectiveText static, dynamic))"

text \<open>The loop over \<open>base-uri\<close> and \<open>form-action\<close>: no comparison with \<open>default-src\<close>.\<close>

fun nonFetchLoop :: "template \<Rightarrow> (string \<times> CSPSourceOptions) list \<Rightarrow> gomap \<times> gomap
    \<Rightarrow> error + gomap \<times> gomap" where
  "nonFetchLoop tmpl [] (static, dynamic) = Inr (static, dynamic)"
| "nonFetchLoop tmpl ((k, v) # kvs) (static, dynamic) =
     (if length (NonceBase64Value v) > 0 \<or> length (HashAlgorithmBase64Value v) > 0
      then (case CSPSourceOptions_Parse v tmpl of
              Inl e \<Rightarrow> Inl e
            | Inr text \<Rightarrow> nonFetchLoop tmpl kvs (static, assign k text dynamic))
      else (case CSPSourceOptions_Parse v tmpl of
              Inl e \<Rightarrow> Inl e
            | Inr text \<Rightarrow> nonFetchLoop tmpl kvs (assign k text static, dynamic)))"

text \<open>
  \<open>cspStaticDirectives\<close> and \<open>cspDynamicDirectives\<close> as they stand before the
  flattening.
\<close>

definition loadDirectives :: "orders \<Rightarrow> templates \<Rightarrow> Policy \<Rightarrow> error + gomap \<times> gomap" where
  "loadDirectives ord t pol =
     (case CSPSourceOptions_Parse (DefaultSrc (CSP pol)) (SourceOptionTemplate t) of
        Inl e \<Rightarrow> Inl e
      | Inr defaultSrc \<Rightarrow>
     (case fetchLoop (SourceOptionTemplate t)
             (rangeOrder (fetchOrder ord) (sourceOptFetchDirectives pol))
             (assign ''default-src'' defaultSrc [], []) of
        Inl e \<Rightarrow> Inl e
      | Inr sd \<Rightarrow>
     (case nonFetchLoop (SourceOptionTemplate t)
             (rangeOrder (nonFetchOrder ord) (sourceOptNonFetchDirectives pol)) sd of
        Inl e \<Rightarrow> Inl e
      | Inr (static, dynamic) \<Rightarrow>
     (case SandboxOptions_Parse (Sandbox (CSP pol)) (SandboxOptionTemplate t) of
        Inl e \<Rightarrow> Inl e
      | Inr sandbox \<Rightarrow>
     (case FrameAncestorOptions_Parse (FrameAncestors (CSP pol))
             (FrameAncestorOptionsTemplate t) of
        Inl e \<Rightarrow> Inl e
      | Inr frameAncestors \<Rightarrow>
     (case UnquotedOptions_Parse (ReportURI (CSP pol)) (UnquotedOptionsTemplate t) of
        Inl e \<Rightarrow> Inl e
      | Inr reportURI \<Rightarrow>
     (case UnquotedOption_Parse (ReportTo (CSP pol)) (UnquotedOptionTemplate t) of
        Inl e \<Rightarrow> Inl e
      | Inr reportTo \<Rightarrow>
          (let static = assign ''sandbox'' sandbox static;
               static = assign ''frame-ancestors'' frameAncestors static;
               static = assign ''report-uri'' reportURI static;
               static = assign ''report-to'' reportTo static;
               static = assign ''upgrade-insecure-requests'' [] static;
               static = (if UpgradeInsecureRequests (CSP pol)
                         then assign ''upgrade-insecure-requests'' ''upgrade-insecure-requests''
                                static
                         else static)
           in Inr (static, dynamic)))))))))"

subsection \<open>Flattening (csp.go 293-308)\<close>

text \<open>\<open>fmt.Sprintf("%s %s;", k, v)\<close>.\<close>

definition Sprintf :: "string \<Rightarrow> string \<Rightarrow> string" where
  "Sprintf k v = k @ '' '' @ v @ '';''"

fun flattenLoop :: "(string \<times> string) list \<Rightarrow> string list \<Rightarrow> string list" where
  "flattenLoop [] activeCSPs = activeCSPs"
| "flattenLoop ((k, v) # kvs) activeCSPs =
     (if length v = 0 then flattenLoop kvs activeCSPs
      else flattenLoop kvs (activeCSPs @ [Sprintf k v]))"

definition activeCSPs :: "orders \<Rightarrow> gomap \<Rightarrow> gomap \<Rightarrow> string list" where
  "activeCSPs ord static dynamic =
     flattenLoop (rangeOrder (dynamicOrder ord) dynamic)
       (flattenLoop (rangeOrder (staticOrder ord) static) [])"

subsection \<open>The header table (csp.go 308-316)\<close>

definition cspTable :: "Policy \<Rightarrow> string \<Rightarrow> (string \<rightharpoonup> string)" where
  "cspTable pol resultantCSP =
     (let table = Map.empty(''Content-Security-Policy'' \<mapsto> resultantCSP)
      in if length (ReportTo_ReportTo pol) > 0
         then table(''Report-To'' \<mapsto> ReportTo_ReportTo pol)
         else table)"

definition Load :: "orders \<Rightarrow> Policy \<Rightarrow> error + (string \<rightharpoonup> string)" where
  "Load ord pol0 =
     (let pol = defaultTemplates pol0 in
      case parseTemplates pol of
        Inl e \<Rightarrow> Inl e
      | Inr t \<Rightarrow>
     (case compoundChecks pol of
        Inl e \<Rightarrow> Inl e
      | Inr u \<Rightarrow>
     (case loadDirectives ord t pol of
        Inl e \<Rightarrow> Inl e
      | Inr (static, dynamic) \<Rightarrow>
          Inr (cspTable pol (Join (activeCSPs ord static dynamic) '' '')))))"

section \<open>Notions used by the statements\<close>

text \<open>
  Rendering an option value through a template text: the text is compiled as \<open>Load\<close>
  compiles it, and the value's \<open>Parse\<close> runs on the result.
\<close>

definition renderSourceOption :: "string \<Rightarrow> CSPSourceOptions \<Rightarrow> error + string" where
  "renderSourceOption text cso =
     (case template_Parse text of Inl e \<Rightarrow> Inl e | Inr tmpl \<Rightarrow> CSPSourceOptions_Parse cso tmpl)"

definition renderSandbox :: "string \<Rightarrow> SandboxOptions \<Rightarrow> error + string" where
  "renderSandbox text so =
     (case template_Parse text of Inl e \<Rightarrow> Inl e | Inr tmpl \<Rightarrow> SandboxOptions_Parse so tmpl)"

definition renderFrameAncestors :: "string \<Rightarrow> FrameAncestorOptions \<Rightarrow> error + string" where
  "renderFrameAncestors text fao =
     (case template_Parse text of
        Inl e \<Rightarrow> Inl e
      | Inr tmpl \<Rightarrow> FrameAncestorOptions_Parse fao tmpl)"

definition renderUnquotedOptions :: "string \<Rightarrow> UnquotedOptions \<Rightarrow> error + string" where
  "renderUnquotedOptions text uvs =
     (case template_Parse text of Inl e \<Rightarrow> Inl e | Inr tmpl \<Rightarrow> UnquotedOptions_Parse uvs tmpl)"

definition renderUnquotedOption :: "string \<Rightarrow> UnquotedOption \<Rightarrow> error + string" where
  "renderUnquotedOption text uv =
     (case template_Parse text of Inl e \<Rightarrow> Inl e | Inr tmpl \<Rightarrow> UnquotedOption_Parse uv tmpl)"

text \<open>A token between single quotes, such as \<open>'none'\<close>.\<close>

definition quoted :: "string \<Rightarrow> string" where
  "quoted s = CHR 0x27 # s @ [CHR 0x27]"

text \<open>
  The condition under which the two loops of \<open>Load\<close> put a directive into the dynamic
  map.
\<close>

definition isDynamic :: "CSPSourceOptions \<Rightarrow> bool" where
  "isDynamic v = (length (NonceBase64Value v) > 0 \<or> length (HashAlgorithmBase64Value v) > 0)"

text \<open>
  The fragments of the header value are the elements of \<open>activeCSPs\<close>, joined by single
  spaces. A fragment belongs to the directive whose name, followed by a space, it
  starts with.
\<close>

definition fragmentFor :: "string \<Rightarrow> string \<Rightarrow> bool" where
  "fragmentFor k f = HasPrefix f (k @ '' '')"

definition hasFragment :: "string \<Rightarrow> string list \<Rightarrow> bool" where
  "hasFragment k active = list_ex (fragmentFor k) active"

text \<open>The keys of a Go map.\<close>

definition keys :: "gomap \<Rightarrow> string set" where
  "keys m = fst ` set m"

text \<open>The directives that \<open>Load\<close> stores in the static map after the two loops.\<close>

definition otherNames :: "string set" where
  "otherNames = {''sandbox'', ''frame-ancestors'', ''report-uri'', ''report-to'',
     ''upgrade-insecure-requests''}"

text \<open>
  What \<open>Load\<close> has computed when it reaches the flattening: the static and the dynamic
  map, and then the fragments in \<open>activeCSPs\<close>. \<open>Load\<close> returns the fragments joined
  by single spaces (lemma \<open>Load_fragments\<close>).
\<close>

definition directiveMaps :: "orders \<Rightarrow> Policy \<Rightarrow> error + gomap \<times> gomap" where
  "directiveMaps ord pol0 =
     (let pol = defaultTemplates pol0 in
      case parseTemplates pol of
        Inl e \<Rightarrow> Inl e
      | Inr t \<Rightarrow>
     (case compoundChecks pol of
        Inl e \<Rightarrow> Inl e
      | Inr u \<Rightarrow> loadDirectives ord t pol))"

definition fragments :: "orders \<Rightarrow> Policy \<Rightarrow> error + string list" where
  "fragments ord pol =
     (case directiveMaps ord pol of
        Inl e \<Rightarrow> Inl e
      | Inr (static, dynamic) \<Rightarrow> Inr (activeCSPs ord static dynamic))"

text \<open>A source-option value rendered with the source-option template of the policy.\<close>

definition renderedSourceOption :: "Policy \<Rightarrow> CSPSourceOptions \<Rightarrow> error + string" where
  "renderedSourceOption pol v =
     renderSourceOption (SourceOptionTemplateText (defaultTemplates pol)) v"

text \<open>
  The template text that the claim on defaulting speaks of: the text the caller supplied
  when it is not empty, the built-in text of the kind otherwise.
\<close>

definition templateTextInUse :: "string \<Rightarrow> string \<Rightarrow> string" where
  "templateTextInUse supplied dflt = (if supplied = [] then dflt else supplied)"

subsection \<open>Zero values and the preset\<close>

definition zero_CSPSourceOptions :: CSPSourceOptions where
  "zero_CSPSourceOptions =
     \<lparr> Allow = False, AllowSelf = False, Values = [], UnsafeEval = False,
       WasmUnsafeEval = False, UnsafeHashes = False, UnsafeInline = False,
       NonceBase64Value = [], HashAlgorithmBase64Value = [], StrictDynamic = False,
       ReportSample = False \<rparr>"

definition zero_SandboxOptions :: SandboxOptions where
  "zero_SandboxOptions =
     \<lparr> AllowDownloads = False, AllowForms = False, AllowModals = False,
       AllowOrientationLock = False, AllowPointerLock = False, AllowPopups = False,
       AllowPopupsToEscapeSandbox = False, AllowPresentation = False,
       AllowSameOrigin = False, AllowScripts = False, AllowTopNavigation = False,
       AllowTopNavigationByUserActivation = False,
       AllowTopNavigationToCustomProtocols = False \<rparr>"

definition zero_FrameAncestorOptions :: FrameAncestorOptions where
  "zero_FrameAncestorOptions =
     \<lparr> FA_Allow = False, FA_AllowSelf = False, HostSources = [], SchemeSources = [] \<rparr>"

definition zero_CSP :: CSP_struct where
  "zero_CSP =
     \<lparr> DefaultSrc = zero_CSPSourceOptions, ChildSrc = zero_CSPSourceOptions,
       ConnectSrc = zero_CSPSourceOptions, FontSrc = zero_CSPSourceOptions,
       FrameSrc = zero_CSPSourceOptions, ImgSrc = zero_CSPSourceOptions,
       ManifestSrc = zero_CSPSourceOptions, MediaSrc = zero_CSPSourceOptions,
       ObjectSrc = zero_CSPSourceOptions, PrefetchSrc = zero_CSPSourceOptions,
       ScriptSrc = zero_CSPSourceOptions, ScriptSrcElem = zero_CSPSourceOptions,
       ScriptSrcAttr = zero_CSPSourceOptions, StyleSrc = zero_CSPSourceOptions,
       StyleSrcElem = zero_CSPSourceOptions, StyleSrcAttr = zero_CSPSourceOptions,
       WorkerSrc = zero_CSPSourceOptions, BaseURI = zero_CSPSourceOptions,
       Sandbox = zero_SandboxOptions, FormAction = zero_CSPSourceOptions,
       FrameAncestors = zero_FrameAncestorOptions,
       ReportURI = \<lparr> UO_Values = [] \<rparr>, ReportTo = \<lparr> Value = [] \<rparr>,
       UpgradeInsecureRequests = False \<rparr>"

definition zero_Policy :: Policy where
  "zero_Policy =
     \<lparr> SourceOptionTemplateText = [], SandboxOptionTemplateText = [],
       FrameAncestorOptionsTemplateText = [], UnquotedOptionsTextTemplateText = [],
       UnquotedOptionTextTemplateText = [], CSP = zero_CSP, ReportTo_ReportTo = [] \<rparr>"

text \<open>\<open>SecurityOptionsReactJS\<close> of preset.go.\<close>

definition SecurityOptionsReactJS :: Policy where
  \<open>SecurityOptionsReactJS = zero_Policy
     \<lparr> CSP := zero_CSP
         \<lparr> DefaultSrc := zero_CSPSourceOptions \<lparr> Allow := False \<rparr>,
           ScriptSrc := zero_CSPSourceOptions \<lparr> Allow := True, AllowSelf := True \<rparr>,
           StyleSrcAttr :=
             zero_CSPSourceOptions \<lparr> Allow := True, AllowSelf := True, UnsafeInline := True \<rparr>,
           BaseURI := zero_CSPSourceOptions \<lparr> Allow := False \<rparr>,
           FormAction := zero_CSPSourceOptions \<lparr> Allow := True, AllowSelf := True \<rparr>,
           ReportTo := \<lparr> Value = ''default'' \<rparr> \<rparr>,
       ReportTo_ReportTo :=
         ''{"group":"default","max_age": 86400, "endpoints": [{"url":"/_/csp-reports" }]}'' \<rparr>\<close>

subsection \<open>Example policies\<close>

text \<open>\<open>default-src\<close> allowed with nothing in it: its text is empty.\<close>

definition policyDefaultAllowOnly :: Policy where
  "policyDefaultAllowOnly =
     zero_Policy \<lparr> CSP := zero_CSP \<lparr> DefaultSrc := zero_CSPSourceOptions \<lparr> Allow := True \<rparr> \<rparr> \<rparr>"

text \<open>\<open>script-src\<close> configured as \<open>default-src\<close>, both allowed with nothing in them.\<close>

definition policySameAllowOnly :: Policy where
  "policySameAllowOnly =
     zero_Policy \<lparr> CSP := zero_CSP
       \<lparr> DefaultSrc := zero_CSPSourceOptions \<lparr> Allow := True \<rparr>,
         ScriptSrc := zero_CSPSourceOptions \<lparr> Allow := True \<rparr> \<rparr> \<rparr>"

text \<open>\<open>default-src\<close> and \<open>script-src\<close> with the same nonce.\<close>

definition policySharedNonce :: Policy where
  "policySharedNonce =
     zero_Policy \<lparr> CSP := zero_CSP
       \<lparr> DefaultSrc := zero_CSPSourceOptions
           \<lparr> Allow := True, AllowSelf := True, NonceBase64Value := quoted ''nonce-abc'' \<rparr>,
         ScriptSrc := zero_CSPSourceOptions
           \<lparr> Allow := True, AllowSelf := True, NonceBase64Value := quoted ''nonce-abc'' \<rparr> \<rparr> \<rparr>"

text \<open>A nonce on \<open>script-src\<close> and a hash on \<open>form-action\<close>; everything else is zero.\<close>

definition policyScriptNonce :: Policy where
  "policyScriptNonce =
     zero_Policy \<lparr> CSP := zero_CSP
       \<lparr> ScriptSrc := zero_CSPSourceOptions
           \<lparr> Allow := True, AllowSelf := True, NonceBase64Value := quoted ''nonce-abc'' \<rparr>,
         FormAction := zero_CSPSourceOptions
           \<lparr> Allow := True, HashAlgorithmBase64Value := quoted ''sha256-xyz'' \<rparr> \<rparr> \<rparr>"

text \<open>The preset without a \<open>Report-To\<close> payload, and with a payload for another group.\<close>

definition policyReportToMissing :: Policy where
  "policyReportToMissing = SecurityOptionsReactJS \<lparr> ReportTo_ReportTo := [] \<rparr>"

definition policyReportToOther :: Policy where
  \<open>policyReportToOther =
     SecurityOptionsReactJS \<lparr> ReportTo_ReportTo := ''{"group":"other","max_age": 86400}'' \<rparr>\<close>

text \<open>A payload without any \<open>report-to\<close> directive.\<close>

definition policyPayloadOnly :: Policy where
  \<open>policyPayloadOnly = zero_Policy \<lparr> ReportTo_ReportTo := ''{"group":"default"}'' \<rparr>\<close>

text \<open>The order in which every \<open>range\<close> visits the entries as they were inserted.\<close>

definition insertionOrder :: orders where
  "insertionOrder = \<lparr> fetchOrder = [], nonFetchOrder = [], staticOrder = [], dynamicOrder = [] \<rparr>"

text \<open>
  A policy with template texts of its own for the source options and the sandbox, and
  \<open>Allow\<close> set on \<open>script-src\<close>; everything else is zero.
\<close>

definition customTextSourceOption :: string where
  "customTextSourceOption = ''{{ if .Allow }}*{{ else }}'none'{{ end }}''"

definition customTextSandbox :: string where
  "customTextSandbox = ''{{ if .AllowForms }}allow-forms{{ else }}allow-scripts{{ end }}''"

definition policyCustomTemplates :: Policy where
  "policyCustomTemplates =
     zero_Policy
       \<lparr> SourceOptionTemplateText := customTextSourceOption,
         SandboxOptionTemplateText := customTextSandbox,
         CSP := zero_CSP \<lparr> ScriptSrc := zero_CSPSourceOptions \<lparr> Allow := True \<rparr> \<rparr> \<rparr>"

subsection \<open>The default templates, parsed\<close>

text \<open>The syntax trees that \<open>template_Parse\<close> yields for the five default texts.\<close>

definition TemplateSourceOption :: template where
  "TemplateSourceOption =
     [IfNode [IdentifierNode ''not'', FieldNode ''Allow''] [TextNode (quoted ''none'')]
       [IfNode [FieldNode ''AllowSelf''] [TextNode (quoted ''self'')] [],
        RangeNode ''v'' [FieldNode ''Values''] [TextNode '' '', ActionNode [VariableNode ''v'']] [],
        IfNode [FieldNode ''UnsafeEval''] [TextNode ('' '' @ quoted ''unsafe-eval'')] [],
        IfNode [FieldNode ''WasmUnsafeEval''] [TextNode ('' '' @ quoted ''wasm-unsafe-eval'')] [],
        IfNode [FieldNode ''UnsafeHashes''] [TextNode ('' '' @ quoted ''unsafe-hashes'')] [],
        IfNode [FieldNode ''UnsafeInline''] [TextNode ('' '' @ quoted ''unsafe-inline'')] [],
        IfNode [IdentifierNode ''gt'', PipeNode [IdentifierNode ''len'', FieldNode ''NonceBase64Value''],
                NumberNode 0]
          [ActionNode [FieldNode ''NonceBase64Value'']] [],
        IfNode [IdentifierNode ''gt'', PipeNode [IdentifierNode ''len'', FieldNode ''HashAlgorithmBase64Value''],
                NumberNode 0]
          [ActionNode [FieldNode ''HashAlgorithmBase64Value'']] [],
        IfNode [FieldNode ''StrictDynamic''] [TextNode ('' '' @ quoted ''strict-dynamic'')] [],
        IfNode [FieldNode ''ReportSample''] [TextNode ('' '' @ quoted ''report-sample'')] []]]"

definition TemplateSandbox :: template where
  "TemplateSandbox =
     [IfNode [FieldNode ''AllowDownloads''] [TextNode ''allow-downloads''] [],
      IfNode [FieldNode ''AllowForms''] [TextNode '' allow-forms''] [],
      IfNode [FieldNode ''AllowModals''] [TextNode '' allow-modals''] [],
      IfNode [FieldNode ''AllowOrientationLock''] [TextNode '' allow-orientation-lock''] [],
      IfNode [FieldNode ''AllowPointerLock''] [TextNode '' allow-pointer-lock''] [],
      IfNode [FieldNode ''AllowPopups''] [TextNode '' allow-popups''] [],
      IfNode [FieldNode ''AllowPopupsToEscapeSandbox''] [TextNode '' allow-popups-to-escape-sandbox''] [],
      IfNode [FieldNode ''AllowPresentation''] [TextNode '' allow-presentation''] [],
      IfNode [FieldNode ''AllowSameOrigin''] [TextNode '' allow-same-origin''] [],
      IfNode [FieldNode ''AllowScripts''] [TextNode '' allow-scripts''] [],
      IfNode [FieldNode ''AllowTopNavigation''] [TextNode '' allow-top-navigation''] [],
      IfNode [FieldNode ''AllowTopNavigationByUserActivation''] [TextNode '' allow-top-navigation-by-user-activation''] [],
      IfNode [FieldNode ''AllowTopNavigationToCustomProtocols''] [TextNode '' allow-top-navigation-to-custom-protocols''] []]"

definition TemplateFrameAncestorOptions :: template where
  "TemplateFrameAncestorOptions =
     [IfNode [IdentifierNode ''not'', FieldNode ''Allow''] [TextNode (quoted ''none'')]
       [IfNode [FieldNode ''AllowSelf''] [TextNode (quoted ''self'')] [],
        RangeNode ''v'' [FieldNode ''HostSources''] [TextNode '' '', ActionNode [VariableNode ''v'']] [],
        RangeNode ''v'' [FieldNode ''SchemeSources''] [TextNode '' '', ActionNode [VariableNode ''v'']] []]]"

definition TemplateUnquotedOptions :: template where
  "TemplateUnquotedOptions =
     [RangeNode ''v'' [FieldNode ''Values''] [ActionNode [VariableNode ''v''], TextNode '' ''] []]"

definition TemplateUnquotedOption :: template where
  "TemplateUnquotedOption =
     [ActionNode [FieldNode ''Value'']]"

text \<open>The syntax trees of the two template texts of \<open>policyCustomTemplates\<close>.\<close>

definition customSourceOption :: template where
  "customSourceOption =
     [IfNode [FieldNode ''Allow''] [TextNode ''*''] [TextNode (quoted ''none'')]]"

definition customSandbox :: template where
  "customSandbox =
     [IfNode [FieldNode ''AllowForms''] [TextNode ''allow-forms''] [TextNode ''allow-scripts'']]"

subsection \<open>The text of an option value under its default template\<close>

text \<open>
  What the default source-option template writes for \<open>Allow = true\<close>: before the nonce
  and the hash value, \<open>'self'\<close>, every value after one space and the four unsafe
  keywords, each after one space; behind them \<open>'strict-dynamic'\<close> and
  \<open>'report-sample'\<close>, each after one space.
\<close>

definition sourceOptionHead :: "CSPSourceOptions \<Rightarrow> string" where
  "sourceOptionHead cso =
     (if AllowSelf cso then quoted ''self'' else []) @
     concat (map (\<lambda>v. '' '' @ v) (Values cso)) @
     (if UnsafeEval cso then '' '' @ quoted ''unsafe-eval'' else []) @
     (if WasmUnsafeEval cso then '' '' @ quoted ''wasm-unsafe-eval'' else []) @
     (if UnsafeHashes cso then '' '' @ quoted ''unsafe-hashes'' else []) @
     (if UnsafeInline cso then '' '' @ quoted ''unsafe-inline'' else [])"

definition sourceOptionTail :: "CSPSourceOptions \<Rightarrow> string" where
  "sourceOptionTail cso =
     (if StrictDynamic cso then '' '' @ quoted ''strict-dynamic'' else []) @
     (if ReportSample cso then '' '' @ quoted ''report-sample'' else [])"

definition sourceOptionText :: "CSPSourceOptions \<Rightarrow> string" where
  "sourceOptionText cso =
     (if Allow cso
      then sourceOptionHead cso @ NonceBase64Value cso @ HashAlgorithmBase64Value cso @
           sourceOptionTail cso
      else quoted ''none'')"

definition sandboxText :: "SandboxOptions \<Rightarrow> string" where
  "sandboxText so =
     (if AllowDownloads so then ''allow-downloads'' else []) @
     (if AllowForms so then '' allow-forms'' else []) @
     (if AllowModals so then '' allow-modals'' else []) @
     (if AllowOrientationLock so then '' allow-orientation-lock'' else []) @
     (if AllowPointerLock so then '' allow-pointer-lock'' else []) @
     (if AllowPopups so then '' allow-popups'' else []) @
     (if AllowPopupsToEscapeSandbox so then '' allow-popups-to-escape-sandbox'' else []) @
     (if AllowPresentation so then '' allow-presentation'' else []) @
     (if AllowSameOrigin so then '' allow-same-origin'' else []) @
     (if AllowScripts so then '' allow-scripts'' else []) @
     (if AllowTopNavigation so then '' allow-top-navigation'' else []) @
     (if AllowTopNavigationByUserActivation so
      then '' allow-top-navigation-by-user-activation'' else []) @
     (if AllowTopNavigationToCustomProtocols so
      then '' allow-top-navigation-to-custom-protocols'' else [])"

definition frameAncestorsText :: "FrameAncestorOptions \<Rightarrow> string" where
  "frameAncestorsText fao =
     (if FA_Allow fao
      then (if FA_AllowSelf fao then quoted ''self'' else []) @
           concat (map (\<lambda>v. '' '' @ v) (HostSources fao)) @
           concat (map (\<lambda>v. '' '' @ v) (SchemeSources fao))
      else quoted ''none'')"

definition unquotedOptionsText :: "UnquotedOptions \<Rightarrow> string" where
  "unquotedOptionsText uvs = concat (map (\<lambda>v. v @ '' '') (UO_Values uvs))"

section \<open>The default templates compile\<close>

text \<open>
  The classes of the characters that occur in the actions of the default templates.
\<close>

lemma isAlphaNumeric_chars [simp]:
  "isAlphaNumeric (CHR ''a'')" "isAlphaNumeric (CHR ''b'')" "isAlphaNumeric (CHR ''c'')"
  "isAlphaNumeric (CHR ''d'')" "isAlphaNumeric (CHR ''e'')" "isAlphaNumeric (CHR ''f'')"
  "isAlphaNumeric (CHR ''g'')" "isAlphaNumeric (CHR ''h'')" "isAlphaNumeric (CHR ''i'')"
  "isAlphaNumeric (CHR ''j'')" "isAlphaNumeric (CHR ''k'')" "isAlphaNumeric (CHR ''l'')"
  "isAlphaNumeric (CHR ''m'')" "isAlphaNumeric (CHR ''n'')" "isAlphaNumeric (CHR ''o'')"
  "isAlphaNumeric (CHR ''p'')" "isAlphaNumeric (CHR ''q'')" "isAlphaNumeric (CHR ''r'')"
  "isAlphaNumeric (CHR ''s'')" "isAlphaNumeric (CHR ''t'')" "isAlphaNumeric (CHR ''u'')"
  "isAlphaNumeric (CHR ''v'')" "isAlphaNumeric (CHR ''w'')" "isAlphaNumeric (CHR ''x'')"
  "isAlphaNumeric (CHR ''y'')" "isAlphaNumeric (CHR ''z'')" "isAlphaNumeric (CHR ''A'')"
  "isAlphaNumeric (CHR ''B'')" "isAlphaNumeric (CHR ''C'')" "isAlphaNumeric (CHR ''D'')"
  "isAlphaNumeric (CHR ''E'')" "isAlphaNumeric (CHR ''F'')" "isAlphaNumeric (CHR ''G'')"
  "isAlphaNumeric (CHR ''H'')" "isAlphaNumeric (CHR ''I'')" "isAlphaNumeric (CHR ''J'')"
  "isAlphaNumeric (CHR ''K'')" "isAlphaNumeric (CHR ''L'')" "isAlphaNumeric (CHR ''M'')"
  "isAlphaNumeric (CHR ''N'')" "isAlphaNumeric (CHR ''O'')" "isAlphaNumeric (CHR ''P'')"
  "isAlphaNumeric (CHR ''Q'')" "isAlphaNumeric (CHR ''R'')" "isAlphaNumeric (CHR ''S'')"
  "isAlphaNumeric (CHR ''T'')" "isAlphaNumeric (CHR ''U'')" "isAlphaNumeric (CHR ''V'')"
  "isAlphaNumeric (CHR ''W'')" "isAlphaNumeric (CHR ''X'')" "isAlphaNumeric (CHR ''Y'')"
  "isAlphaNumeric (CHR ''Z'')" "isAlphaNumeric (CHR ''0'')" "isAlphaNumeric (CHR ''1'')"
  "isAlphaNumeric (CHR ''2'')" "isAlphaNumeric (CHR ''3'')" "isAlphaNumeric (CHR ''4'')"
  "isAlphaNumeric (CHR ''5'')" "isAlphaNumeric (CHR ''6'')" "isAlphaNumeric (CHR ''7'')"
  "isAlphaNumeric (CHR ''8'')" "isAlphaNumeric (CHR ''9'')" "isAlphaNumeric (CHR ''_'')"
  "\<not> isAlphaNumeric (CHR '' '')" "\<not> isAlphaNumeric (CHR ''.'')"
  "\<not> isAlphaNumeric (CHR ''$'')" "\<not> isAlphaNumeric (CHR ''('')"
  "\<not> isAlphaNumeric (CHR '')'')" "\<not> isAlphaNumeric (CHR '':'')"
  "\<not> isAlphaNumeric (CHR ''='')" "\<not> isAlphaNumeric (CHR ''}'')"
  "\<not> isAlphaNumeric (CHR ''{'')" "\<not> isAlphaNumeric (CHR ''-'')"
  "\<not> isAlphaNumeric (CHR 0x27)"
  by (simp_all add: isAlphaNumeric_def isDigit_def)

lemma isDigit_chars [simp]:
  "isDigit (CHR ''0'')" "isDigit (CHR ''1'')" "isDigit (CHR ''2'')" "isDigit (CHR ''3'')"
  "isDigit (CHR ''4'')" "isDigit (CHR ''5'')" "isDigit (CHR ''6'')" "isDigit (CHR ''7'')"
  "isDigit (CHR ''8'')" "isDigit (CHR ''9'')" "\<not> isDigit (CHR ''a'')"
  "\<not> isDigit (CHR ''b'')" "\<not> isDigit (CHR ''c'')" "\<not> isDigit (CHR ''d'')"
  "\<not> isDigit (CHR ''e'')" "\<not> isDigit (CHR ''f'')" "\<not> isDigit (CHR ''g'')"
  "\<not> isDigit (CHR ''h'')" "\<not> isDigit (CHR ''i'')" "\<not> isDigit (CHR ''j'')"
  "\<not> isDigit (CHR ''k'')" "\<not> isDigit (CHR ''l'')" "\<not> isDigit (CHR ''m'')"
  "\<not> isDigit (CHR ''n'')" "\<not> isDigit (CHR ''o'')" "\<not> isDigit (CHR ''p'')"
  "\<not> isDigit (CHR ''q'')" "\<not> isDigit (CHR ''r'')" "\<not> isDigit (CHR ''s'')"
  "\<not> isDigit (CHR ''t'')" "\<not> isDigit (CHR ''u'')" "\<not> isDigit (CHR ''v'')"
  "\<not> isDigit (CHR ''w'')" "\<not> isDigit (CHR ''x'')" "\<not> isDigit (CHR ''y'')"
  "\<not> isDigit (CHR ''z'')" "\<not> isDigit (CHR ''A'')" "\<not> isDigit (CHR ''B'')"
  "\<not> isDigit (CHR ''C'')" "\<not> isDigit (CHR ''D'')" "\<not> isDigit (CHR ''E'')"
  "\<not> isDigit (CHR ''F'')" "\<not> isDigit (CHR ''G'')" "\<not> isDigit (CHR ''H'')"
  "\<not> isDigit (CHR ''I'')" "\<not> isDigit (CHR ''J'')" "\<not> isDigit (CHR ''K'')"
  "\<not> isDigit (CHR ''L'')" "\<not> isDigit (CHR ''M'')" "\<not> isDigit (CHR ''N'')"
  "\<not> isDigit (CHR ''O'')" "\<not> isDigit (CHR ''P'')" "\<not> isDigit (CHR ''Q'')"
  "\<not> isDigit (CHR ''R'')" "\<not> isDigit (CHR ''S'')" "\<not> isDigit (CHR ''T'')"
  "\<not> isDigit (CHR ''U'')" "\<not> isDigit (CHR ''V'')" "\<not> isDigit (CHR ''W'')"
  "\<not> isDigit (CHR ''X'')" "\<not> isDigit (CHR ''Y'')" "\<not> isDigit (CHR ''Z'')"
  "\<not> isDigit (CHR ''_'')" "\<not> isDigit (CHR '' '')" "\<not> isDigit (CHR ''.'')"
  "\<not> isDigit (CHR ''$'')" "\<not> isDigit (CHR ''('')" "\<not> isDigit (CHR '')'')"
  "\<not> isDigit (CHR '':'')" "\<not> isDigit (CHR ''='')" "\<not> isDigit (CHR ''}'')"
  "\<not> isDigit (CHR ''{'')" "\<not> isDigit (CHR ''-'')" "\<not> isDigit (CHR 0x27)"
  by (simp_all add: isDigit_def)

lemma isSpace_chars [simp]:
  "isSpace (CHR '' '')" "\<not> isSpace (CHR ''a'')" "\<not> isSpace (CHR ''b'')"
  "\<not> isSpace (CHR ''c'')" "\<not> isSpace (CHR ''d'')" "\<not> isSpace (CHR ''e'')"
  "\<not> isSpace (CHR ''f'')" "\<not> isSpace (CHR ''g'')" "\<not> isSpace (CHR ''h'')"
  "\<not> isSpace (CHR ''i'')" "\<not> isSpace (CHR ''j'')" "\<not> isSpace (CHR ''k'')"
  "\<not> isSpace (CHR ''l'')" "\<not> isSpace (CHR ''m'')" "\<not> isSpace (CHR ''n'')"
  "\<not> isSpace (CHR ''o'')" "\<not> isSpace (CHR ''p'')" "\<not> isSpace (CHR ''q'')"
  "\<not> isSpace (CHR ''r'')" "\<not> isSpace (CHR ''s'')" "\<not> isSpace (CHR ''t'')"
  "\<not> isSpace (CHR ''u'')" "\<not> isSpace (CHR ''v'')" "\<not> isSpace (CHR ''w'')"
  "\<not> isSpace (CHR ''x'')" "\<not> isSpace (CHR ''y'')" "\<not> isSpace (CHR ''z'')"
  "\<not> isSpace (CHR ''A'')" "\<not> isSpace (CHR ''B'')" "\<not> isSpace (CHR ''C'')"
  "\<not> isSpace (CHR ''D'')" "\<not> isSpace (CHR ''E'')" "\<not> isSpace (CHR ''F'')"
  "\<not> isSpace (CHR ''G'')" "\<not> isSpace (CHR ''H'')" "\<not> isSpace (CHR ''I'')"
  "\<not> isSpace (CHR ''J'')" "\<not> isSpace (CHR ''K'')" "\<not> isSpace (CHR ''L'')"
  "\<not> isSpace (CHR ''M'')" "\<not> isSpace (CHR ''N'')" "\<not> isSpace (CHR ''O'')"
  "\<not> isSpace (CHR ''P'')" "\<not> isSpace (CHR ''Q'')" "\<not> isSpace (CHR ''R'')"
  "\<not> isSpace (CHR ''S'')" "\<not> isSpace (CHR ''T'')" "\<not> isSpace (CHR ''U'')"
  "\<not> isSpace (CHR ''V'')" "\<not> isSpace (CHR ''W'')" "\<not> isSpace (CHR ''X'')"
  "\<not> isSpace (CHR ''Y'')" "\<not> isSpace (CHR ''Z'')" "\<not> isSpace (CHR ''0'')"
  "\<not> isSpace (CHR ''1'')" "\<not> isSpace (CHR ''2'')" "\<not> isSpace (CHR ''3'')"
  "\<not> isSpace (CHR ''4'')" "\<not> isSpace (CHR ''5'')" "\<not> isSpace (CHR ''6'')"
  "\<not> isSpace (CHR ''7'')" "\<not> isSpace (CHR ''8'')" "\<not> isSpace (CHR ''9'')"
  "\<not> isSpace (CHR ''_'')" "\<not> isSpace (CHR ''.'')" "\<not> isSpace (CHR ''$'')"
  "\<not> isSpace (CHR ''('')" "\<not> isSpace (CHR '')'')" "\<not> isSpace (CHR '':'')"
  "\<not> isSpace (CHR ''='')" "\<not> isSpace (CHR ''}'')" "\<not> isSpace (CHR ''{'')"
  "\<not> isSpace (CHR ''-'')" "\<not> isSpace (CHR 0x27)"
  by (simp_all add: isSpace_def)

lemmas parser_defs = atTerminator_def number_ok_def number_value_def digit_value_def
  parseAction_def builtin_def close_block_def emitText_def quoted_def

text \<open>
  Each source line of a template text takes the parser from one state between actions
  to the next, whatever follows the line.
\<close>

lemma parse_so_1:
  "parseText nodes st False []
     (''{{ if not .Allow }}'none'{{ else }}'' @ t)
   = parseText []
       ((OIf [IdentifierNode ''not'', FieldNode ''Allow''], nodes,
         Some [TextNode (quoted ''none'')]) # st)
       False [] t"
  by (simp add: parser_defs)

lemma parse_so_2:
  "parseText nodes st False []
     (''{{ if .AllowSelf }}'self'{{ end }}'' @ t)
   = parseText
       (IfNode [FieldNode ''AllowSelf''] [TextNode (quoted ''self'')] [] # nodes)
       st False [] t"
  by (simp add: parser_defs)

lemma parse_so_3:
  "parseText nodes st False []
     (''{{ range $v := .Values }} {{$v}}{{ end }}'' @ t)
   = parseText
       (RangeNode ''v'' [FieldNode ''Values''] [TextNode '' '', ActionNode [VariableNode ''v'']] [] # nodes)
       st False [] t"
  by (simp add: parser_defs)

lemma parse_so_4:
  "parseText nodes st False []
     (''{{ if .UnsafeEval }} 'unsafe-eval'{{ end }}'' @ t)
   = parseText
       (IfNode [FieldNode ''UnsafeEval''] [TextNode ('' '' @ quoted ''unsafe-eval'')] [] # nodes)
       st False [] t"
  by (simp add: parser_defs)

lemma parse_so_5:
  "parseText nodes st False []
     (''{{ if .WasmUnsafeEval }} 'wasm-unsafe-eval'{{ end }}'' @ t)
   = parseText
       (IfNode [FieldNode ''WasmUnsafeEval''] [TextNode ('' '' @ quoted ''wasm-unsafe-eval'')] [] # nodes)
       st False [] t"
  by (simp add: parser_defs)

lemma parse_so_6:
  "parseText nodes st False []
     (''{{ if .UnsafeHashes }} 'unsafe-hashes'{{ end }}'' @ t)
   = parseText
       (IfNode [FieldNode ''UnsafeHashes''] [TextNode ('' '' @ quoted ''unsafe-hashes'')] [] # nodes)
       st False [] t"
  by (simp add: parser_defs)

lemma parse_so_7:
  "parseText nodes st False []
     (''{{ if .UnsafeInline }} 'unsafe-inline'{{ end }}'' @ t)
   = parseText
       (IfNode [FieldNode ''UnsafeInline''] [TextNode ('' '' @ quoted ''unsafe-inline'')] [] # nodes)
       st False [] t"
  by (simp add: parser_defs)

lemma parse_so_8:
  "parseText nodes st False []
     (''{{ if gt (len .NonceBase64Value) 0 }}{{ .NonceBase64Value}}{{ end }}'' @ t)
   = parseText
       (IfNode [IdentifierNode ''gt'', PipeNode [IdentifierNode ''len'', FieldNode ''NonceBase64Value''],
                NumberNode 0]
          [ActionNode [FieldNode ''NonceBase64Value'']] [] # nodes)
       st False [] t"
  by (simp add: parser_defs)

lemma parse_so_9:
  "parseText nodes st False []
     (''{{ if gt (len .HashAlgorithmBase64Value) 0 }}{{ .HashAlgorithmBase64Value}}{{ end }}'' @ t)
   = parseText
       (IfNode [IdentifierNode ''gt'', PipeNode [IdentifierNode ''len'', FieldNode ''HashAlgorithmBase64Value''],
                NumberNode 0]
          [ActionNode [FieldNode ''HashAlgorithmBase64Value'']] [] # nodes)
       st False [] t"
  by (simp add: parser_defs)

lemma parse_so_10:
  "parseText nodes st False []
     (''{{ if .StrictDynamic }} 'strict-dynamic'{{ end }}'' @ t)
   = parseText
       (IfNode [FieldNode ''StrictDynamic''] [TextNode ('' '' @ quoted ''strict-dynamic'')] [] # nodes)
       st False [] t"
  by (simp add: parser_defs)

lemma parse_so_11:
  "parseText nodes st False []
     (''{{ if .ReportSample }} 'report-sample'{{ end }}'' @ t)
   = parseText
       (IfNode [FieldNode ''ReportSample''] [TextNode ('' '' @ quoted ''report-sample'')] [] # nodes)
       st False [] t"
  by (simp add: parser_defs)

lemma parse_so_12:
  "parseText nodes [(opn, outer, Some first)] False []
     ''{{ end }}''
   = Inr (rev (close_block opn first (rev nodes) # outer))"
  by (simp add: parser_defs)

lemma parse_sb_1:
  "parseText nodes st False []
     (''{{ if .AllowDownloads }}allow-downloads{{ end }}'' @ t)
   = parseText
       (IfNode [FieldNode ''AllowDownloads''] [TextNode ''allow-downloads''] [] # nodes)
       st False [] t"
  by (simp add: parser_defs)

lemma parse_sb_2:
  "parseText nodes st False []
     (''{{ if .AllowForms }} allow-forms{{ end }}'' @ t)
   = parseText
       (IfNode [FieldNode ''AllowForms''] [TextNode '' allow-forms''] [] # nodes)
       st False [] t"
  by (simp add: parser_defs)

lemma parse_sb_3:
  "parseText nodes st False []
     (''{{ if .AllowModals }} allow-modals{{ end }}'' @ t)
   = parseText
       (IfNode [FieldNode ''AllowModals''] [TextNode '' allow-modals''] [] # nodes)
       st False [] t"
  by (simp add: parser_defs)

lemma parse_sb_4:
  "parseText nodes st False []
     (''{{ if .AllowOrientationLock }} allow-orientation-lock{{ end }}'' @ t)
   = parseText
       (IfNode [FieldNode ''AllowOrientationLock''] [TextNode '' allow-orientation-lock''] [] # nodes)
       st False [] t"
  by (simp add: parser_defs)

lemma parse_sb_5:
  "parseText nodes st False []
     (''{{ if .AllowPointerLock }} allow-pointer-lock{{ end }}'' @ t)
   = parseText
       (IfNode [FieldNode ''AllowPointerLock''] [TextNode '' allow-pointer-lock''] [] # nodes)
       st False [] t"
  by (simp add: parser_defs)

lemma parse_sb_6:
  "parseText nodes st False []
     (''{{ if .AllowPopups }} allow-popups{{ end }}'' @ t)
   = parseText
       (IfNode [FieldNode ''AllowPopups''] [TextNode '' allow-popups''] [] # nodes)
       st False [] t"
  by (simp add: parser_defs)

lemma parse_sb_7:
  "parseText nodes st False []
     (''{{ if .AllowPopupsToEscapeSandbox }} allow-popups-to-escape-sandbox{{ end }}'' @ t)
   = parseText
       (IfNode [FieldNode ''AllowPopupsToEscapeSandbox''] [TextNode '' allow-popups-to-escape-sandbox''] [] # nodes)
       st False [] t"
  by (simp add: parser_defs)

lemma parse_sb_8:
  "parseText nodes st False []
     (''{{ if .AllowPresentation }} allow-presentation{{ end }}'' @ t)
   = parseText
       (IfNode [FieldNode ''AllowPresentation''] [TextNode '' allow-presentation''] [] # nodes)
       st False [] t"
  by (simp add: parser_defs)

lemma parse_sb_9:
  "parseText nodes st False []
     (''{{ if .AllowSameOrigin }} allow-same-origin{{ end }}'' @ t)
   = parseText
       (IfNode [FieldNode ''AllowSameOrigin''] [TextNode '' allow-same-origin''] [] # nodes)
       st False [] t"
  by (simp add: parser_defs)

lemma parse_sb_10:
  "parseText nodes st False []
     (''{{ if .AllowScripts }} allow-scripts{{ end }}'' @ t)
   = parseText
       (IfNode [FieldNode ''AllowScripts''] [TextNode '' allow-scripts''] [] # nodes)
       st False [] t"
  by (simp add: parser_defs)

lemma parse_sb_11:
  "parseText nodes st False []
     (''{{ if .AllowTopNavigation }} allow-top-navigation{{ end }}'' @ t)
   = parseText
       (IfNode [FieldNode ''AllowTopNavigation''] [TextNode '' allow-top-navigation''] [] # nodes)
       st False [] t"
  by (simp add: parser_defs)

lemma parse_sb_12:
  "parseText nodes st False []
     (''{{ if .AllowTopNavigationByUserActivation }} allow-top-navigation-by-user-activation{{ end }}'' @ t)
   = parseText
       (IfNode [FieldNode ''AllowTopNavigationByUserActivation''] [TextNode '' allow-top-navigation-by-user-activation''] [] # nodes)
       st False [] t"
  by (simp add: parser_defs)

lemma parse_sb_13:
  "parseText nodes [] False []
     ''{{ if .AllowTopNavigationToCustomProtocols }} allow-top-navigation-to-custom-protocols{{ end }}''
   = Inr (rev (IfNode [FieldNode ''AllowTopNavigationToCustomProtocols''] [TextNode '' allow-top-navigation-to-custom-protocols''] [] # nodes))"
  by (simp add: parser_defs)

lemma parse_fa_3:
  "parseText nodes st False []
     (''{{ range $v := .HostSources }} {{$v}}{{ end }}'' @ t)
   = parseText
       (RangeNode ''v'' [FieldNode ''HostSources''] [TextNode '' '', ActionNode [VariableNode ''v'']] [] # nodes)
       st False [] t"
  by (simp add: parser_defs)

lemma parse_fa_4:
  "parseText nodes st False []
     (''{{ range $v := .SchemeSources }} {{$v}}{{ end }}'' @ t)
   = parseText
       (RangeNode ''v'' [FieldNode ''SchemeSources''] [TextNode '' '', ActionNode [VariableNode ''v'']] [] # nodes)
       st False [] t"
  by (simp add: parser_defs)

lemma template_Parse_SourceOption:
  "template_Parse TemplateTextSourceOption = Inr TemplateSourceOption"
  unfolding template_Parse_def TemplateTextSourceOption_def
  by (simp only: parse_so_1 parse_so_2 parse_so_3 parse_so_4 parse_so_5 parse_so_6
      parse_so_7 parse_so_8 parse_so_9 parse_so_10 parse_so_11 parse_so_12)
     (simp add: TemplateSourceOption_def close_block_def)

lemma template_Parse_Sandbox:
  "template_Parse TemplateTextSandbox = Inr TemplateSandbox"
  unfolding template_Parse_def TemplateTextSandbox_def
  by (simp only: parse_sb_1 parse_sb_2 parse_sb_3 parse_sb_4 parse_sb_5 parse_sb_6
      parse_sb_7 parse_sb_8 parse_sb_9 parse_sb_10 parse_sb_11 parse_sb_12 parse_sb_13)
     (simp add: TemplateSandbox_def close_block_def)

lemma template_Parse_FrameAncestorOptions:
  "template_Parse TemplateTextFrameAncestorOptions = Inr TemplateFrameAncestorOptions"
  unfolding template_Parse_def TemplateTextFrameAncestorOptions_def
  by (simp only: parse_so_1 parse_so_2 parse_fa_3 parse_fa_4 parse_so_12)
     (simp add: TemplateFrameAncestorOptions_def close_block_def)

lemma template_Parse_UnquotedOptions:
  "template_Parse TemplateTextUnquotedOptions = Inr TemplateUnquotedOptions"
  by (simp add: template_Parse_def TemplateTextUnquotedOptions_def TemplateUnquotedOptions_def parser_defs)

lemma template_Parse_UnquotedOption:
  "template_Parse TemplateTextUnquotedOption = Inr TemplateUnquotedOption"
  by (simp add: template_Parse_def TemplateTextUnquotedOption_def TemplateUnquotedOption_def parser_defs)

section \<open>Rendering under the default templates\<close>

lemma collect_map_Inr: "collect (map (\<lambda>s. Inr (f s)) l) = Inr (map f l)"
  by (induction l) simp_all

lemma execNode_if_field:
  "execNode (Struct fs) vars (IfNode [FieldNode F] [TextNode s] []) =
     (case map_of fs F of
        Some v \<Rightarrow> Inr (if truth v then s else [])
      | None \<Rightarrow> Inl RenderError)"
  by (simp split: option.split)

lemma execNode_if_len:
  "map_of fs F = Some (VString s) \<Longrightarrow>
   execNode (Struct fs) vars
     (IfNode [IdentifierNode ''gt'', PipeNode [IdentifierNode ''len'', FieldNode F], NumberNode 0]
        [ActionNode [FieldNode F]] []) = Inr s"
  by (simp add: call_def)

lemma execNode_range_before:
  "map_of fs F = Some (VStrings l) \<Longrightarrow>
   execNode (Struct fs) vars
     (RangeNode x [FieldNode F] [TextNode t, ActionNode [VariableNode x]] []) =
     Inr (concat (map (\<lambda>s. t @ s) l))"
  by (simp add: collect_map_Inr)

lemma execNode_range_after:
  "map_of fs F = Some (VStrings l) \<Longrightarrow>
   execNode (Struct fs) vars
     (RangeNode x [FieldNode F] [ActionNode [VariableNode x], TextNode t] []) =
     Inr (concat (map (\<lambda>s. s @ t) l))"
  by (simp add: collect_map_Inr)

lemma execNode_if_not:
  "execNode (Struct fs) vars (IfNode [IdentifierNode ''not'', FieldNode F] t e) =
     (case map_of fs F of
        Some v \<Rightarrow> if truth v then execList (Struct fs) vars e else execList (Struct fs) vars t
      | None \<Rightarrow> Inl RenderError)"
  by (simp add: call_def split: option.split)

lemmas execNode_default = execNode_if_field execNode_if_len execNode_range_before
  execNode_range_after execNode_if_not

lemma CSPSourceOptions_Parse_default:
  "CSPSourceOptions_Parse cso TemplateSourceOption = Inr (sourceOptionText cso)"
  by (simp add: CSPSourceOptions_Parse_def Execute_def TemplateSourceOption_def
      sourceOptionText_def sourceOptionHead_def sourceOptionTail_def call_def execNode_default
      del: execNode.simps(3,4))

lemma SandboxOptions_Parse_default:
  "SandboxOptions_Parse so TemplateSandbox = Inr (sandboxText so)"
  by (simp add: SandboxOptions_Parse_def Execute_def TemplateSandbox_def sandboxText_def
      execNode_default del: execNode.simps(3,4))

lemma FrameAncestorOptions_Parse_default:
  "FrameAncestorOptions_Parse fao TemplateFrameAncestorOptions = Inr (frameAncestorsText fao)"
  by (simp add: FrameAncestorOptions_Parse_def Execute_def TemplateFrameAncestorOptions_def
      frameAncestorsText_def call_def execNode_default del: execNode.simps(3,4))

lemma UnquotedOptions_Parse_default:
  "UnquotedOptions_Parse uvs TemplateUnquotedOptions = Inr (unquotedOptionsText uvs)"
  by (simp add: UnquotedOptions_Parse_def Execute_def TemplateUnquotedOptions_def
      unquotedOptionsText_def execNode_default del: execNode.simps(3,4))

lemma UnquotedOption_Parse_default:
  "UnquotedOption_Parse uv TemplateUnquotedOption = Inr (Value uv)"
  by (simp add: UnquotedOption_Parse_def Execute_def TemplateUnquotedOption_def)

section \<open>Go maps and the order of iteration\<close>

lemma mset_remove_nth:
  assumes "i < length ys"
  shows "add_mset (ys ! i) (mset (take i ys @ drop (Suc i) ys)) = mset ys"
proof -
  have "mset ys = mset (take i ys @ ys ! i # drop (Suc i) ys)"
    using id_take_nth_drop[OF assms] by simp
  then show ?thesis by simp
qed

lemma mset_rangeOrder: "mset (rangeOrder cs xs) = mset xs"
proof (induction cs xs rule: rangeOrder.induct)
  case (3 c cs x xs)
  define i where "i = c mod length (x # xs)"
  have i: "i < length (x # xs)" unfolding i_def by simp
  have "mset (rangeOrder (c # cs) (x # xs)) =
        add_mset ((x # xs) ! i) (mset (rangeOrder cs (take i (x # xs) @ drop (Suc i) (x # xs))))"
    unfolding i_def by (simp add: Let_def)
  also have "\<dots> = add_mset ((x # xs) ! i) (mset (take i (x # xs) @ drop (Suc i) (x # xs)))"
    using "3.IH"[of i] unfolding i_def by simp
  also have "\<dots> = mset (x # xs)" by (rule mset_remove_nth[OF i])
  finally show ?case .
qed simp_all

lemma set_rangeOrder: "set (rangeOrder cs xs) = set xs"
  using mset_rangeOrder[of cs xs] by (metis set_mset_mset)

lemma rangeOrder_single: "rangeOrder cs [a] = [a]"
  by (cases cs) (simp_all add: Let_def)

lemma rangeOrder_pair: "rangeOrder cs [a, b] = [a, b] \<or> rangeOrder cs [a, b] = [b, a]"
proof (cases cs)
  case (Cons c cs')
  have "c mod Suc (Suc 0) < Suc (Suc 0)" by simp
  then consider "c mod Suc (Suc 0) = 0" | "c mod Suc (Suc 0) = Suc 0" by linarith
  then show ?thesis using Cons by cases (simp_all add: Let_def rangeOrder_single)
qed simp

lemma rangeOrder_reaches: "mset ys = mset xs \<Longrightarrow> \<exists>cs. rangeOrder cs xs = ys"
proof (induction ys arbitrary: xs)
  case Nil
  then show ?case by simp
next
  case (Cons y ys)
  then have "y \<in> set xs" by (metis list.set_intros(1) set_mset_mset)
  then obtain i where i: "i < length xs" "xs ! i = y" by (auto simp: in_set_conv_nth)
  let ?rest = "take i xs @ drop (Suc i) xs"
  have "mset xs = mset (take i xs @ xs ! i # drop (Suc i) xs)"
    using id_take_nth_drop[OF i(1)] by simp
  with Cons.prems i have "mset ys = mset ?rest" by simp
  from Cons.IH[OF this] obtain cs where cs: "rangeOrder cs ?rest = ys" by blast
  from i obtain x xs' where xs: "xs = x # xs'" by (cases xs) auto
  have "rangeOrder (i # cs) xs = y # ys"
    using i cs unfolding xs by (simp add: Let_def del: drop_Suc_Cons)
  then show ?case by blast
qed

lemma map_of_assign: "map_of (assign k v m) = (map_of m)(k \<mapsto> v)"
  by (induction m) (auto simp: fun_eq_iff)

lemma keys_assign: "keys (assign k v m) = insert k (keys m)"
  by (simp add: keys_def dom_map_of_conv_image_fst[symmetric] map_of_assign)

lemma distinct_assign: "distinct (map fst m) \<Longrightarrow> distinct (map fst (assign k v m))"
proof (induction m)
  case (Cons a m)
  then show ?case using keys_assign[of k v m] by (cases a) (auto simp: keys_def)
qed simp

lemma index_assign: "index (assign k v m) k' = (if k' = k then v else index m k')"
  by (simp add: index_def map_of_assign)

lemma flattenLoop_eq:
  "flattenLoop kvs acc = acc @ map (\<lambda>(k, v). Sprintf k v) (filter (\<lambda>(k, v). v \<noteq> []) kvs)"
  by (induction kvs arbitrary: acc) auto

lemma set_activeCSPs:
  "set (activeCSPs ord st dy) = (\<lambda>(k, v). Sprintf k v) ` {(k, v). (k, v) \<in> set st \<union> set dy \<and> v \<noteq> []}"
  by (auto simp: activeCSPs_def flattenLoop_eq set_rangeOrder)

lemma mset_activeCSPs:
  "mset (activeCSPs ord st dy) =
     image_mset (\<lambda>(k, v). Sprintf k v) (filter_mset (\<lambda>(k, v). v \<noteq> []) (mset st + mset dy))"
  by (simp add: activeCSPs_def flattenLoop_eq mset_rangeOrder)

lemma HasPrefix_iff: "HasPrefix s p \<longleftrightarrow> (\<exists>r. s = p @ r)"
  by (induction s p rule: HasPrefix.induct) auto

lemma Contains_iff: "Contains s sub \<longleftrightarrow> (\<exists>a b. s = a @ sub @ b)"
proof (induction s)
  case Nil
  then show ?case by auto
next
  case (Cons c s)
  show ?case
  proof
    assume "Contains (c # s) sub"
    then consider "HasPrefix (c # s) sub" | "Contains s sub" by (auto split: if_splits)
    then show "\<exists>a b. c # s = a @ sub @ b"
    proof cases
      case 1
      then obtain r where "c # s = sub @ r" by (auto simp: HasPrefix_iff)
      then have "c # s = [] @ sub @ r" by simp
      then show ?thesis by blast
    next
      case 2
      with Cons obtain a b where "s = a @ sub @ b" by blast
      then have "c # s = (c # a) @ sub @ b" by simp
      then show ?thesis by blast
    qed
  next
    assume "\<exists>a b. c # s = a @ sub @ b"
    then obtain a b where ab: "c # s = a @ sub @ b" by blast
    show "Contains (c # s) sub"
    proof (cases a)
      case Nil
      with ab have "HasPrefix (c # s) sub" by (auto simp: HasPrefix_iff)
      then show ?thesis by simp
    next
      case (Cons c' a')
      with ab have "s = a' @ sub @ b" by simp
      with Cons.IH have "Contains s sub" by blast
      then show ?thesis by simp
    qed
  qed
qed

lemma key_of_fragment:
  "CHR '' '' \<notin> set k \<Longrightarrow> CHR '' '' \<notin> set k' \<Longrightarrow> k @ CHR '' '' # r = k' @ CHR '' '' # r' \<Longrightarrow> k = k'"
proof (induction k arbitrary: k')
  case Nil
  then show ?case by (cases k') auto
next
  case (Cons c k)
  then show ?case by (cases k') auto
qed

lemma fragmentFor_Sprintf:
  "CHR '' '' \<notin> set k \<Longrightarrow> CHR '' '' \<notin> set k' \<Longrightarrow> fragmentFor k (Sprintf k' v) \<longleftrightarrow> k = k'"
  by (auto simp: fragmentFor_def Sprintf_def HasPrefix_iff dest: key_of_fragment)

lemma hasFragment_activeCSPs:
  assumes "CHR '' '' \<notin> set k" and "\<forall>k' \<in> keys st \<union> keys dy. CHR '' '' \<notin> set k'"
  shows "hasFragment k (activeCSPs ord st dy) \<longleftrightarrow> (\<exists>v. v \<noteq> [] \<and> (k, v) \<in> set st \<union> set dy)"
proof -
  have *: "fragmentFor k (Sprintf k' v) \<longleftrightarrow> k = k'" if "(k', v) \<in> set st \<union> set dy" for k' v
  proof -
    from that have "k' \<in> keys st \<union> keys dy" by (force simp: keys_def)
    with assms show ?thesis by (simp add: fragmentFor_Sprintf)
  qed
  show ?thesis
    unfolding hasFragment_def list_ex_iff set_activeCSPs
    using * by fastforce
qed

section \<open>The loops of Load\<close>

lemma fetchLoop_props:
  "fetchLoop tmpl kvs (st, dy) = Inr (st', dy') \<Longrightarrow> ''default-src'' \<notin> fst ` set kvs \<Longrightarrow>
   keys st' = keys st \<union> {k. \<exists>v. (k, v) \<in> set kvs \<and>
       CSPSourceOptions_Parse v tmpl \<noteq> Inr (index st ''default-src'') \<and> \<not> isDynamic v} \<and>
   keys dy' = keys dy \<union> {k. \<exists>v. (k, v) \<in> set kvs \<and>
       CSPSourceOptions_Parse v tmpl \<noteq> Inr (index st ''default-src'') \<and> isDynamic v} \<and>
   map_of st' ''default-src'' = map_of st ''default-src'' \<and>
   (distinct (map fst st) \<longrightarrow> distinct (map fst st')) \<and>
   (distinct (map fst dy) \<longrightarrow> distinct (map fst dy'))"
proof (induction kvs arbitrary: st dy)
  case Nil
  then show ?case by simp
next
  case (Cons kv kvs)
  obtain k v where kv: "kv = (k, v)" by (cases kv)
  from Cons.prems(2) kv have k: "k \<noteq> ''default-src''" and rest: "''default-src'' \<notin> fst ` set kvs"
    by auto
  from Cons.prems(1) kv obtain rendered where rendered: "CSPSourceOptions_Parse v tmpl = Inr rendered"
    by (auto split: sum.splits)
  let ?d = "index st ''default-src''"
  consider (skip) "?d = rendered"
    | (dynamic) "?d \<noteq> rendered" "isDynamic v"
    | (static) "?d \<noteq> rendered" "\<not> isDynamic v" by blast
  then show ?case
  proof cases
    case skip
    with Cons.prems(1) kv rendered have "fetchLoop tmpl kvs (st, dy) = Inr (st', dy')" by simp
    from Cons.IH[OF this rest] skip rendered kv show ?thesis by auto
  next
    case dynamic
    with Cons.prems(1) kv rendered
    have "fetchLoop tmpl kvs (st, assign k rendered dy) = Inr (st', dy')"
      by (simp add: isDynamic_def)
    from Cons.IH[OF this rest] dynamic rendered kv show ?thesis
      by (auto simp: keys_assign distinct_assign)
  next
    case static
    with Cons.prems(1) kv rendered
    have "fetchLoop tmpl kvs (assign k rendered st, dy) = Inr (st', dy')"
      by (simp add: isDynamic_def)
    from Cons.IH[OF this rest] static rendered kv k show ?thesis
      by (auto simp: keys_assign distinct_assign index_assign map_of_assign)
  qed
qed

lemma nonFetchLoop_props:
  "nonFetchLoop tmpl kvs (st, dy) = Inr (st', dy') \<Longrightarrow>
   keys st' = keys st \<union> {k. \<exists>v. (k, v) \<in> set kvs \<and> \<not> isDynamic v} \<and>
   keys dy' = keys dy \<union> {k. \<exists>v. (k, v) \<in> set kvs \<and> isDynamic v} \<and>
   (\<forall>k. k \<notin> fst ` set kvs \<longrightarrow> map_of st' k = map_of st k) \<and>
   (distinct (map fst st) \<longrightarrow> distinct (map fst st')) \<and>
   (distinct (map fst dy) \<longrightarrow> distinct (map fst dy'))"
proof (induction kvs arbitrary: st dy)
  case Nil
  then show ?case by simp
next
  case (Cons kv kvs)
  obtain k v where kv: "kv = (k, v)" by (cases kv)
  from Cons.prems(1) kv obtain rendered where rendered: "CSPSourceOptions_Parse v tmpl = Inr rendered"
    by (auto split: sum.splits if_splits)
  show ?case
  proof (cases "isDynamic v")
    case True
    with Cons.prems(1) kv rendered
    have "nonFetchLoop tmpl kvs (st, assign k rendered dy) = Inr (st', dy')"
      by (simp add: isDynamic_def)
    from Cons.IH[OF this] True kv show ?thesis
      by (auto simp: keys_assign distinct_assign)
  next
    case False
    with Cons.prems(1) kv rendered
    have "nonFetchLoop tmpl kvs (assign k rendered st, dy) = Inr (st', dy')"
      by (simp add: isDynamic_def)
    from Cons.IH[OF this] False kv show ?thesis
      by (auto simp: keys_assign distinct_assign map_of_assign)
  qed
qed

lemma fetchLoop_all_redundant:
  "\<forall>(k, v) \<in> set kvs. CSPSourceOptions_Parse v tmpl = Inr (index st ''default-src'') \<Longrightarrow>
   fetchLoop tmpl kvs (st, dy) = Inr (st, dy)"
  by (induction kvs) auto

section \<open>The directive maps\<close>

lemma fetch_keys_distinct: "distinct (map fst (sourceOptFetchDirectives pol))"
  by (simp add: sourceOptFetchDirectives_def)

lemma nonFetch_keys_distinct: "distinct (map fst (sourceOptNonFetchDirectives pol))"
  by (simp add: sourceOptNonFetchDirectives_def)

lemma fetch_key_props:
  "(k, v) \<in> set (sourceOptFetchDirectives pol) \<Longrightarrow>
   k \<noteq> ''default-src'' \<and> k \<notin> fst ` set (sourceOptNonFetchDirectives pol) \<and>
   k \<notin> otherNames \<and> CHR '' '' \<notin> set k"
  by (auto simp: sourceOptFetchDirectives_def sourceOptNonFetchDirectives_def otherNames_def)

lemma nonFetch_key_props:
  "(k, v) \<in> set (sourceOptNonFetchDirectives pol) \<Longrightarrow>
   k \<noteq> ''default-src'' \<and> k \<notin> fst ` set (sourceOptFetchDirectives pol) \<and>
   k \<notin> otherNames \<and> CHR '' '' \<notin> set k"
  by (auto simp: sourceOptFetchDirectives_def sourceOptNonFetchDirectives_def otherNames_def)

lemma otherNames_props:
  "k \<in> otherNames \<Longrightarrow> k \<noteq> ''default-src'' \<and> CHR '' '' \<notin> set k"
  by (auto simp: otherNames_def)

lemma loadDirectives_steps:
  assumes "loadDirectives ord t pol = Inr (st, dy)"
  obtains d st1 dy1 st2 sb fa ru rt where
    "CSPSourceOptions_Parse (DefaultSrc (CSP pol)) (SourceOptionTemplate t) = Inr d"
    "fetchLoop (SourceOptionTemplate t)
       (rangeOrder (fetchOrder ord) (sourceOptFetchDirectives pol))
       ([(''default-src'', d)], []) = Inr (st1, dy1)"
    "nonFetchLoop (SourceOptionTemplate t)
       (rangeOrder (nonFetchOrder ord) (sourceOptNonFetchDirectives pol)) (st1, dy1)
     = Inr (st2, dy)"
    "SandboxOptions_Parse (Sandbox (CSP pol)) (SandboxOptionTemplate t) = Inr sb"
    "FrameAncestorOptions_Parse (FrameAncestors (CSP pol)) (FrameAncestorOptionsTemplate t)
     = Inr fa"
    "UnquotedOptions_Parse (ReportURI (CSP pol)) (UnquotedOptionsTemplate t) = Inr ru"
    "UnquotedOption_Parse (ReportTo (CSP pol)) (UnquotedOptionTemplate t) = Inr rt"
    "st = (if UpgradeInsecureRequests (CSP pol)
           then assign ''upgrade-insecure-requests'' ''upgrade-insecure-requests''
           else id)
          (assign ''upgrade-insecure-requests'' []
            (assign ''report-to'' rt (assign ''report-uri'' ru
              (assign ''frame-ancestors'' fa (assign ''sandbox'' sb st2)))))"
  using assms
  by (auto simp: loadDirectives_def Let_def split: sum.splits prod.splits if_splits)



lemma loadDirectives_maps:
  assumes "loadDirectives ord t pol = Inr (st, dy)"
  obtains d where
    "CSPSourceOptions_Parse (DefaultSrc (CSP pol)) (SourceOptionTemplate t) = Inr d"
    "map_of st ''default-src'' = Some d" "''default-src'' \<notin> keys dy"
    "distinct (map fst st)" "distinct (map fst dy)"
    "keys st = {''default-src''} \<union>
       {k. \<exists>v. (k, v) \<in> set (sourceOptFetchDirectives pol) \<and>
            CSPSourceOptions_Parse v (SourceOptionTemplate t) \<noteq> Inr d \<and> \<not> isDynamic v} \<union>
       {k. \<exists>v. (k, v) \<in> set (sourceOptNonFetchDirectives pol) \<and> \<not> isDynamic v} \<union>
       otherNames"
    "keys dy =
       {k. \<exists>v. (k, v) \<in> set (sourceOptFetchDirectives pol) \<and>
            CSPSourceOptions_Parse v (SourceOptionTemplate t) \<noteq> Inr d \<and> isDynamic v} \<union>
       {k. \<exists>v. (k, v) \<in> set (sourceOptNonFetchDirectives pol) \<and> isDynamic v}"
proof -
  from assms obtain d st1 dy1 st2 sb fa ru rt where
    d: "CSPSourceOptions_Parse (DefaultSrc (CSP pol)) (SourceOptionTemplate t) = Inr d" and
    f: "fetchLoop (SourceOptionTemplate t)
       (rangeOrder (fetchOrder ord) (sourceOptFetchDirectives pol))
       ([(''default-src'', d)], []) = Inr (st1, dy1)" and
    n: "nonFetchLoop (SourceOptionTemplate t)
       (rangeOrder (nonFetchOrder ord) (sourceOptNonFetchDirectives pol)) (st1, dy1)
     = Inr (st2, dy)" and
    st: "st = (if UpgradeInsecureRequests (CSP pol)
           then assign ''upgrade-insecure-requests'' ''upgrade-insecure-requests''
           else id)
          (assign ''upgrade-insecure-requests'' []
            (assign ''report-to'' rt (assign ''report-uri'' ru
              (assign ''frame-ancestors'' fa (assign ''sandbox'' sb st2)))))"
    by (rule loadDirectives_steps)
  have nodef: "''default-src'' \<notin> fst ` set (rangeOrder (fetchOrder ord) (sourceOptFetchDirectives pol))"
    using fetch_key_props[of "''default-src''" _ pol] by (auto simp: set_rangeOrder)
  note F = fetchLoop_props[OF f nodef, unfolded set_rangeOrder]
  note N = nonFetchLoop_props[OF n, unfolded set_rangeOrder]
  have nodef2: "''default-src'' \<notin> fst ` set (sourceOptNonFetchDirectives pol)"
    using nonFetch_key_props[of "''default-src''" _ pol] by auto
  have 1: "map_of st2 ''default-src'' = Some d"
    using F N nodef2 by simp
  have 2: "map_of st ''default-src'' = Some d"
    unfolding st using 1 by (simp add: map_of_assign)
  have 3: "''default-src'' \<notin> keys dy"
    using F N fetch_key_props[of "''default-src''" _ pol] nonFetch_key_props[of "''default-src''" _ pol]
    by (auto simp: keys_def)
  have 4: "distinct (map fst st)" "distinct (map fst dy)"
    unfolding st using F N by (simp_all add: distinct_assign)
  have 5: "keys st2 = {''default-src''} \<union>
       {k. \<exists>v. (k, v) \<in> set (sourceOptFetchDirectives pol) \<and>
            CSPSourceOptions_Parse v (SourceOptionTemplate t) \<noteq> Inr d \<and> \<not> isDynamic v} \<union>
       {k. \<exists>v. (k, v) \<in> set (sourceOptNonFetchDirectives pol) \<and> \<not> isDynamic v}"
    using F N by (simp add: keys_def index_def)
  have 6: "keys st = keys st2 \<union> otherNames"
    unfolding st by (auto simp: keys_assign otherNames_def)
  have 8: "keys st = {''default-src''} \<union>
       {k. \<exists>v. (k, v) \<in> set (sourceOptFetchDirectives pol) \<and>
            CSPSourceOptions_Parse v (SourceOptionTemplate t) \<noteq> Inr d \<and> \<not> isDynamic v} \<union>
       {k. \<exists>v. (k, v) \<in> set (sourceOptNonFetchDirectives pol) \<and> \<not> isDynamic v} \<union>
       otherNames"
    unfolding 6 5 ..
  have 7: "keys dy =
       {k. \<exists>v. (k, v) \<in> set (sourceOptFetchDirectives pol) \<and>
            CSPSourceOptions_Parse v (SourceOptionTemplate t) \<noteq> Inr d \<and> isDynamic v} \<union>
       {k. \<exists>v. (k, v) \<in> set (sourceOptNonFetchDirectives pol) \<and> isDynamic v}"
    using F N by (simp add: keys_def index_def)
  from d 2 3 4 8 7 show ?thesis by (rule that)
qed


lemma key_in_unique:
  assumes "distinct (map fst xs)" and "(k, v) \<in> set xs"
  shows "(\<exists>v'. (k, v') \<in> set xs \<and> P v') \<longleftrightarrow> P v"
  using eq_key_imp_eq_value[OF assms(1) _ assms(2)] assms(2) by blast

lemma loadDirectives_fetch_key:
  assumes "loadDirectives ord t pol = Inr (st, dy)"
    and "CSPSourceOptions_Parse (DefaultSrc (CSP pol)) (SourceOptionTemplate t) = Inr d"
    and "(k, v) \<in> set (sourceOptFetchDirectives pol)"
  shows "(k \<in> keys st \<longleftrightarrow>
            CSPSourceOptions_Parse v (SourceOptionTemplate t) \<noteq> Inr d \<and> \<not> isDynamic v) \<and>
         (k \<in> keys dy \<longleftrightarrow>
            CSPSourceOptions_Parse v (SourceOptionTemplate t) \<noteq> Inr d \<and> isDynamic v)"
proof -
  note u = key_in_unique[OF fetch_keys_distinct assms(3)]
  from fetch_key_props[OF assms(3)] have other: "k \<noteq> ''default-src''" "k \<notin> otherNames"
    and "k \<notin> fst ` set (sourceOptNonFetchDirectives pol)" by simp_all
  then have no: "(k, v') \<in> set (sourceOptNonFetchDirectives pol) \<longleftrightarrow> False" for v'
    by (metis fst_conv image_eqI)
  from assms(1) obtain d' where
    d': "CSPSourceOptions_Parse (DefaultSrc (CSP pol)) (SourceOptionTemplate t) = Inr d'" and
    st: "keys st = {''default-src''} \<union>
       {k. \<exists>v. (k, v) \<in> set (sourceOptFetchDirectives pol) \<and>
            CSPSourceOptions_Parse v (SourceOptionTemplate t) \<noteq> Inr d' \<and> \<not> isDynamic v} \<union>
       {k. \<exists>v. (k, v) \<in> set (sourceOptNonFetchDirectives pol) \<and> \<not> isDynamic v} \<union>
       otherNames" and
    dy: "keys dy =
       {k. \<exists>v. (k, v) \<in> set (sourceOptFetchDirectives pol) \<and>
            CSPSourceOptions_Parse v (SourceOptionTemplate t) \<noteq> Inr d' \<and> isDynamic v} \<union>
       {k. \<exists>v. (k, v) \<in> set (sourceOptNonFetchDirectives pol) \<and> isDynamic v}"
    by (rule loadDirectives_maps)
  from d' assms(2) have "d' = d" by simp
  then show ?thesis by (simp add: st dy other no u)
qed

lemma loadDirectives_nonFetch_key:
  assumes "loadDirectives ord t pol = Inr (st, dy)"
    and "(k, v) \<in> set (sourceOptNonFetchDirectives pol)"
  shows "(k \<in> keys st \<longleftrightarrow> \<not> isDynamic v) \<and> (k \<in> keys dy \<longleftrightarrow> isDynamic v)"
proof -
  note u = key_in_unique[OF nonFetch_keys_distinct assms(2)]
  from nonFetch_key_props[OF assms(2)] have other: "k \<noteq> ''default-src''" "k \<notin> otherNames"
    and "k \<notin> fst ` set (sourceOptFetchDirectives pol)" by simp_all
  then have no: "(k, v') \<in> set (sourceOptFetchDirectives pol) \<longleftrightarrow> False" for v'
    by (metis fst_conv image_eqI)
  from assms(1) obtain d where
    st: "keys st = {''default-src''} \<union>
       {k. \<exists>v. (k, v) \<in> set (sourceOptFetchDirectives pol) \<and>
            CSPSourceOptions_Parse v (SourceOptionTemplate t) \<noteq> Inr d \<and> \<not> isDynamic v} \<union>
       {k. \<exists>v. (k, v) \<in> set (sourceOptNonFetchDirectives pol) \<and> \<not> isDynamic v} \<union>
       otherNames" and
    dy: "keys dy =
       {k. \<exists>v. (k, v) \<in> set (sourceOptFetchDirectives pol) \<and>
            CSPSourceOptions_Parse v (SourceOptionTemplate t) \<noteq> Inr d \<and> isDynamic v} \<union>
       {k. \<exists>v. (k, v) \<in> set (sourceOptNonFetchDirectives pol) \<and> isDynamic v}"
    by (rule loadDirectives_maps)
  show ?thesis by (simp add: st dy other no u)
qed


lemma loadDirectives_no_space:
  assumes "loadDirectives ord t pol = Inr (st, dy)"
  shows "\<forall>k \<in> keys st \<union> keys dy. CHR '' '' \<notin> set k"
proof -
  from assms obtain d where
    st: "keys st = {''default-src''} \<union>
       {k. \<exists>v. (k, v) \<in> set (sourceOptFetchDirectives pol) \<and>
            CSPSourceOptions_Parse v (SourceOptionTemplate t) \<noteq> Inr d \<and> \<not> isDynamic v} \<union>
       {k. \<exists>v. (k, v) \<in> set (sourceOptNonFetchDirectives pol) \<and> \<not> isDynamic v} \<union>
       otherNames" and
    dy: "keys dy =
       {k. \<exists>v. (k, v) \<in> set (sourceOptFetchDirectives pol) \<and>
            CSPSourceOptions_Parse v (SourceOptionTemplate t) \<noteq> Inr d \<and> isDynamic v} \<union>
       {k. \<exists>v. (k, v) \<in> set (sourceOptNonFetchDirectives pol) \<and> isDynamic v}"
    by (rule loadDirectives_maps)
  show ?thesis
    unfolding st dy
    using fetch_key_props[of _ _ pol] nonFetch_key_props[of _ _ pol] otherNames_props
    by auto
qed

lemma hasFragment_default_src:
  assumes "loadDirectives ord t pol = Inr (st, dy)"
    and "CSPSourceOptions_Parse (DefaultSrc (CSP pol)) (SourceOptionTemplate t) = Inr d"
  shows "map_of st ''default-src'' = Some d"
    and "hasFragment ''default-src'' (activeCSPs ord' st dy) \<longleftrightarrow> d \<noteq> []"
proof -
  from assms(1) obtain d' where
    d': "CSPSourceOptions_Parse (DefaultSrc (CSP pol)) (SourceOptionTemplate t) = Inr d'" and
    m': "map_of st ''default-src'' = Some d'" and nd: "''default-src'' \<notin> keys dy" and
    dist: "distinct (map fst st)"
    by (rule loadDirectives_maps)
  from d' assms(2) have "d' = d" by simp
  with m' show m: "map_of st ''default-src'' = Some d" by simp
  have "(''default-src'', v) \<in> set st \<longleftrightarrow> v = d" for v
    using m dist by (metis map_of_eq_Some_iff option.inject)
  moreover have "(''default-src'', v) \<notin> set dy" for v
    using nd by (force simp: keys_def)
  ultimately show "hasFragment ''default-src'' (activeCSPs ord' st dy) \<longleftrightarrow> d \<noteq> []"
    using hasFragment_activeCSPs[OF _ loadDirectives_no_space[OF assms(1)], of "''default-src''" ord']
    by auto
qed

lemma hasFragment_absent_key:
  assumes "loadDirectives ord t pol = Inr (st, dy)"
    and "CHR '' '' \<notin> set k" and "k \<notin> keys st" and "k \<notin> keys dy"
  shows "\<not> hasFragment k (activeCSPs ord' st dy)"
  using hasFragment_activeCSPs[OF assms(2) loadDirectives_no_space[OF assms(1)], of ord'] assms(3,4)
  by (force simp: keys_def)

section \<open>Load and its parts\<close>

lemma defaultTemplates_fields [simp]:
  "CSP (defaultTemplates pol) = CSP pol"
  "ReportTo_ReportTo (defaultTemplates pol) = ReportTo_ReportTo pol"
  by (simp_all add: defaultTemplates_def)

lemma defaultTemplates_uses [simp]:
  "sourceOptFetchDirectives (defaultTemplates pol) = sourceOptFetchDirectives pol"
  "sourceOptNonFetchDirectives (defaultTemplates pol) = sourceOptNonFetchDirectives pol"
  "compoundChecks (defaultTemplates pol) = compoundChecks pol"
  "cspTable (defaultTemplates pol) = cspTable pol"
  by (simp_all add: sourceOptFetchDirectives_def sourceOptNonFetchDirectives_def
      compoundChecks_def cspTable_def fun_eq_iff Let_def)

lemma defaultTemplates_idem [simp]: "defaultTemplates (defaultTemplates pol) = defaultTemplates pol"
  by (simp add: defaultTemplates_def TemplateTextSourceOption_def TemplateTextSandbox_def
      TemplateTextFrameAncestorOptions_def TemplateTextUnquotedOptions_def
      TemplateTextUnquotedOption_def)

lemma parseTemplates_Inr:
  assumes "parseTemplates pol = Inr t"
  shows "template_Parse (SourceOptionTemplateText pol) = Inr (SourceOptionTemplate t)"
    and "template_Parse (SandboxOptionTemplateText pol) = Inr (SandboxOptionTemplate t)"
    and "template_Parse (FrameAncestorOptionsTemplateText pol) =
           Inr (FrameAncestorOptionsTemplate t)"
    and "template_Parse (UnquotedOptionsTextTemplateText pol) = Inr (UnquotedOptionsTemplate t)"
    and "template_Parse (UnquotedOptionTextTemplateText pol) = Inr (UnquotedOptionTemplate t)"
  using assms by (auto simp: parseTemplates_def split: sum.splits)

lemma Load_fragments:
  "Load ord pol =
     (case fragments ord pol of
        Inl e \<Rightarrow> Inl e
      | Inr active \<Rightarrow> Inr (cspTable pol (Join active '' '')))"
  by (simp add: Load_def fragments_def directiveMaps_def Let_def split: sum.splits prod.splits)

lemma directiveMaps_Inr:
  assumes "directiveMaps ord pol = Inr (st, dy)"
  obtains t where
    "parseTemplates (defaultTemplates pol) = Inr t"
    "compoundChecks pol = Inr ()"
    "loadDirectives ord t (defaultTemplates pol) = Inr (st, dy)"
    "\<And>v. renderedSourceOption pol v = CSPSourceOptions_Parse v (SourceOptionTemplate t)"
proof -
  from assms obtain t where
    t: "parseTemplates (defaultTemplates pol) = Inr t" and
    c: "compoundChecks pol = Inr ()" and
    l: "loadDirectives ord t (defaultTemplates pol) = Inr (st, dy)"
    by (auto simp: directiveMaps_def Let_def split: sum.splits)
  have "renderedSourceOption pol v = CSPSourceOptions_Parse v (SourceOptionTemplate t)" for v
    by (simp add: renderedSourceOption_def renderSourceOption_def parseTemplates_Inr(1)[OF t])
  with t c l show ?thesis by (rule that)
qed

lemma Load_Inr:
  assumes "Load ord pol = Inr table"
  obtains st dy where
    "directiveMaps ord pol = Inr (st, dy)"
    "fragments ord pol = Inr (activeCSPs ord st dy)"
    "table = cspTable pol (Join (activeCSPs ord st dy) '' '')"
  using assms
  by (auto simp: Load_fragments fragments_def split: sum.splits prod.splits)

lemma cspTable_lookup:
  "cspTable pol csp ''Content-Security-Policy'' = Some csp"
  "cspTable pol csp ''Report-To'' =
     (if ReportTo_ReportTo pol = [] then None else Some (ReportTo_ReportTo pol))"
  "dom (cspTable pol csp) =
     (if ReportTo_ReportTo pol = [] then {''Content-Security-Policy''}
      else {''Content-Security-Policy'', ''Report-To''})"
  by (auto simp: cspTable_def Let_def)

section \<open>Load and the template texts in use\<close>

lemma fetchLoop_succeeds:
  "(\<exists>r. fetchLoop tmpl kvs sd = Inr r) \<longleftrightarrow>
   (\<forall>(k, v) \<in> set kvs. \<exists>x. CSPSourceOptions_Parse v tmpl = Inr x)"
proof (induction kvs arbitrary: sd)
  case Nil
  show ?case by (cases sd) simp
next
  case (Cons kv kvs)
  obtain k v where kv: "kv = (k, v)" by (cases kv)
  obtain st dy where sd: "sd = (st, dy)" by (cases sd)
  show ?case
  proof (cases "CSPSourceOptions_Parse v tmpl")
    case (Inl e)
    then show ?thesis by (auto simp: kv sd)
  next
    case (Inr x)
    then show ?thesis using Cons.IH by (simp add: kv sd)
  qed
qed

lemma nonFetchLoop_succeeds:
  "(\<exists>r. nonFetchLoop tmpl kvs sd = Inr r) \<longleftrightarrow>
   (\<forall>(k, v) \<in> set kvs. \<exists>x. CSPSourceOptions_Parse v tmpl = Inr x)"
proof (induction kvs arbitrary: sd)
  case Nil
  show ?case by (cases sd) simp
next
  case (Cons kv kvs)
  obtain k v where kv: "kv = (k, v)" by (cases kv)
  obtain st dy where sd: "sd = (st, dy)" by (cases sd)
  show ?case
  proof (cases "CSPSourceOptions_Parse v tmpl")
    case (Inl e)
    then show ?thesis by (auto simp: kv sd)
  next
    case (Inr x)
    then show ?thesis using Cons.IH by (simp add: kv sd)
  qed
qed

lemma fetchLoop_entries:
  "fetchLoop tmpl kvs (st, dy) = Inr (st', dy') \<Longrightarrow> (k, x) \<in> set st' \<union> set dy' \<Longrightarrow>
   (k, x) \<in> set st \<union> set dy \<or> (\<exists>v. (k, v) \<in> set kvs \<and> CSPSourceOptions_Parse v tmpl = Inr x)"
proof (induction kvs arbitrary: st dy)
  case Nil
  then show ?case by simp
next
  case (Cons kv kvs)
  obtain k0 v0 where kv: "kv = (k0, v0)" by (cases kv)
  from Cons.prems(1) kv obtain r where r: "CSPSourceOptions_Parse v0 tmpl = Inr r"
    by (auto split: sum.splits)
  have a: "(k, x) \<in> set (assign k0 r m) \<Longrightarrow> (k, x) \<in> set m \<or> (k = k0 \<and> x = r)" for m
    by (induction m) (auto split: if_splits)
  from Cons.prems(1) kv r consider
      "fetchLoop tmpl kvs (st, dy) = Inr (st', dy')"
    | "fetchLoop tmpl kvs (st, assign k0 r dy) = Inr (st', dy')"
    | "fetchLoop tmpl kvs (assign k0 r st, dy) = Inr (st', dy')"
    by (auto split: if_splits)
  then show ?case
  proof cases
    case 1
    from Cons.IH[OF 1 Cons.prems(2)] show ?thesis by (auto simp: kv)
  next
    case 2
    from Cons.IH[OF 2 Cons.prems(2)] a r show ?thesis by (auto simp: kv)
  next
    case 3
    from Cons.IH[OF 3 Cons.prems(2)] a r show ?thesis by (auto simp: kv)
  qed
qed

lemma nonFetchLoop_entries:
  "nonFetchLoop tmpl kvs (st, dy) = Inr (st', dy') \<Longrightarrow> (k, x) \<in> set st' \<union> set dy' \<Longrightarrow>
   (k, x) \<in> set st \<union> set dy \<or> (\<exists>v. (k, v) \<in> set kvs \<and> CSPSourceOptions_Parse v tmpl = Inr x)"
proof (induction kvs arbitrary: st dy)
  case Nil
  then show ?case by simp
next
  case (Cons kv kvs)
  obtain k0 v0 where kv: "kv = (k0, v0)" by (cases kv)
  from Cons.prems(1) kv obtain r where r: "CSPSourceOptions_Parse v0 tmpl = Inr r"
    by (auto split: sum.splits if_splits)
  have a: "(k, x) \<in> set (assign k0 r m) \<Longrightarrow> (k, x) \<in> set m \<or> (k = k0 \<and> x = r)" for m
    by (induction m) (auto split: if_splits)
  from Cons.prems(1) kv r consider
      "nonFetchLoop tmpl kvs (st, assign k0 r dy) = Inr (st', dy')"
    | "nonFetchLoop tmpl kvs (assign k0 r st, dy) = Inr (st', dy')"
    by (auto split: if_splits)
  then show ?case
  proof cases
    case 1
    from Cons.IH[OF 1 Cons.prems(2)] a r show ?thesis by (auto simp: kv)
  next
    case 2
    from Cons.IH[OF 2 Cons.prems(2)] a r show ?thesis by (auto simp: kv)
  qed
qed

lemma loadDirectives_succeeds:
  "(\<exists>r. loadDirectives ord t pol = Inr r) \<longleftrightarrow>
     (\<exists>d. CSPSourceOptions_Parse (DefaultSrc (CSP pol)) (SourceOptionTemplate t) = Inr d) \<and>
     (\<forall>(k, v) \<in> set (sourceOptFetchDirectives pol).
        \<exists>x. CSPSourceOptions_Parse v (SourceOptionTemplate t) = Inr x) \<and>
     (\<forall>(k, v) \<in> set (sourceOptNonFetchDirectives pol).
        \<exists>x. CSPSourceOptions_Parse v (SourceOptionTemplate t) = Inr x) \<and>
     (\<exists>x. SandboxOptions_Parse (Sandbox (CSP pol)) (SandboxOptionTemplate t) = Inr x) \<and>
     (\<exists>x. FrameAncestorOptions_Parse (FrameAncestors (CSP pol))
            (FrameAncestorOptionsTemplate t) = Inr x) \<and>
     (\<exists>x. UnquotedOptions_Parse (ReportURI (CSP pol)) (UnquotedOptionsTemplate t) = Inr x) \<and>
     (\<exists>x. UnquotedOption_Parse (ReportTo (CSP pol)) (UnquotedOptionTemplate t) = Inr x)"
  (is "?L \<longleftrightarrow> ?D \<and> ?F \<and> ?N \<and> ?S \<and> ?A \<and> ?U \<and> ?R")
proof -
  let ?T = "SourceOptionTemplate t"
  have F: "(\<exists>r. fetchLoop ?T (rangeOrder (fetchOrder ord) (sourceOptFetchDirectives pol)) sd
            = Inr r) \<longleftrightarrow> ?F" for sd
    unfolding fetchLoop_succeeds set_rangeOrder ..
  have N: "(\<exists>r. nonFetchLoop ?T (rangeOrder (nonFetchOrder ord) (sourceOptNonFetchDirectives pol))
            sd = Inr r) \<longleftrightarrow> ?N" for sd
    unfolding nonFetchLoop_succeeds set_rangeOrder ..
  show ?thesis
  proof
    assume ?L
    then obtain st dy where l: "loadDirectives ord t pol = Inr (st, dy)" by auto
    from l obtain d st1 dy1 st2 sb fa ru rt where
      "CSPSourceOptions_Parse (DefaultSrc (CSP pol)) ?T = Inr d"
      "fetchLoop ?T (rangeOrder (fetchOrder ord) (sourceOptFetchDirectives pol))
         ([(''default-src'', d)], []) = Inr (st1, dy1)"
      "nonFetchLoop ?T (rangeOrder (nonFetchOrder ord) (sourceOptNonFetchDirectives pol))
         (st1, dy1) = Inr (st2, dy)"
      "SandboxOptions_Parse (Sandbox (CSP pol)) (SandboxOptionTemplate t) = Inr sb"
      "FrameAncestorOptions_Parse (FrameAncestors (CSP pol)) (FrameAncestorOptionsTemplate t)
       = Inr fa"
      "UnquotedOptions_Parse (ReportURI (CSP pol)) (UnquotedOptionsTemplate t) = Inr ru"
      "UnquotedOption_Parse (ReportTo (CSP pol)) (UnquotedOptionTemplate t) = Inr rt"
      by (rule loadDirectives_steps)
    then show "?D \<and> ?F \<and> ?N \<and> ?S \<and> ?A \<and> ?U \<and> ?R"
      using F N by blast
  next
    assume r: "?D \<and> ?F \<and> ?N \<and> ?S \<and> ?A \<and> ?U \<and> ?R"
    then obtain d sb fa ru rt where
      d: "CSPSourceOptions_Parse (DefaultSrc (CSP pol)) ?T = Inr d" and
      sb: "SandboxOptions_Parse (Sandbox (CSP pol)) (SandboxOptionTemplate t) = Inr sb" and
      fa: "FrameAncestorOptions_Parse (FrameAncestors (CSP pol)) (FrameAncestorOptionsTemplate t)
       = Inr fa" and
      ru: "UnquotedOptions_Parse (ReportURI (CSP pol)) (UnquotedOptionsTemplate t) = Inr ru" and
      rt: "UnquotedOption_Parse (ReportTo (CSP pol)) (UnquotedOptionTemplate t) = Inr rt"
      by blast
    from r F obtain sd1 where
      f: "fetchLoop ?T (rangeOrder (fetchOrder ord) (sourceOptFetchDirectives pol))
         ([(''default-src'', d)], []) = Inr sd1" by blast
    from r N obtain sd2 where
      n: "nonFetchLoop ?T (rangeOrder (nonFetchOrder ord) (sourceOptNonFetchDirectives pol))
         sd1 = Inr sd2" by blast
    obtain st2 dy2 where sd2: "sd2 = (st2, dy2)" by (cases sd2)
    show ?L
      unfolding loadDirectives_def by (simp add: d f n sd2 sb fa ru rt Let_def)
  qed
qed

lemma assign_entries:
  "(k, x) \<in> set (assign k0 r m) \<Longrightarrow> (k, x) \<in> set m \<or> (k = k0 \<and> x = r)"
  by (induction m) (auto split: if_splits)

lemma loadDirectives_source_values:
  assumes l: "loadDirectives ord t pol = Inr (st, dy)"
    and kv: "(k, v) \<in> set (sourceOptFetchDirectives pol) \<union> set (sourceOptNonFetchDirectives pol)"
    and e: "(k, x) \<in> set st \<union> set dy"
  shows "CSPSourceOptions_Parse v (SourceOptionTemplate t) = Inr x"
proof -
  let ?T = "SourceOptionTemplate t"
  from l obtain d st1 dy1 st2 sb fa ru rt where
    f: "fetchLoop ?T (rangeOrder (fetchOrder ord) (sourceOptFetchDirectives pol))
         ([(''default-src'', d)], []) = Inr (st1, dy1)" and
    n: "nonFetchLoop ?T (rangeOrder (nonFetchOrder ord) (sourceOptNonFetchDirectives pol))
         (st1, dy1) = Inr (st2, dy)" and
    st: "st = (if UpgradeInsecureRequests (CSP pol)
           then assign ''upgrade-insecure-requests'' ''upgrade-insecure-requests''
           else id)
          (assign ''upgrade-insecure-requests'' []
            (assign ''report-to'' rt (assign ''report-uri'' ru
              (assign ''frame-ancestors'' fa (assign ''sandbox'' sb st2)))))"
    by (rule loadDirectives_steps)
  from kv have k: "k \<noteq> ''default-src''" "k \<notin> otherNames"
    using fetch_key_props[of k v pol] nonFetch_key_props[of k v pol] by auto
  have "(k, x) \<in> set st \<Longrightarrow> (k, x) \<in> set st2"
    unfolding st using k(2) by (auto simp: otherNames_def dest!: assign_entries split: if_splits)
  with e have "(k, x) \<in> set st2 \<union> set dy" by blast
  from nonFetchLoop_entries[OF n this] consider
      "(k, x) \<in> set st1 \<union> set dy1"
    | v' where "(k, v') \<in> set (sourceOptNonFetchDirectives pol)"
        "CSPSourceOptions_Parse v' ?T = Inr x"
    by (auto simp: set_rangeOrder)
  then show ?thesis
  proof cases
    case 1
    from fetchLoop_entries[OF f 1] k(1) obtain v' where
      v': "(k, v') \<in> set (sourceOptFetchDirectives pol)" "CSPSourceOptions_Parse v' ?T = Inr x"
      by (auto simp: set_rangeOrder)
    from v'(1) kv have "(k, v) \<in> set (sourceOptFetchDirectives pol)"
      using fetch_key_props[OF v'(1)] by (force)
    with v'(1) have "v' = v"
      using eq_key_imp_eq_value[OF fetch_keys_distinct] by blast
    with v'(2) show ?thesis by simp
  next
    case 2
    from 2(1) kv have "(k, v) \<in> set (sourceOptNonFetchDirectives pol)"
      using nonFetch_key_props[OF 2(1)] by (force)
    with 2(1) have "v' = v"
      using eq_key_imp_eq_value[OF nonFetch_keys_distinct] by blast
    with 2(2) show ?thesis by simp
  qed
qed

lemma loadDirectives_other_values:
  assumes l: "loadDirectives ord t pol = Inr (st, dy)"
  obtains sb fa ru rt where
    "SandboxOptions_Parse (Sandbox (CSP pol)) (SandboxOptionTemplate t) = Inr sb"
    "FrameAncestorOptions_Parse (FrameAncestors (CSP pol)) (FrameAncestorOptionsTemplate t)
       = Inr fa"
    "UnquotedOptions_Parse (ReportURI (CSP pol)) (UnquotedOptionsTemplate t) = Inr ru"
    "UnquotedOption_Parse (ReportTo (CSP pol)) (UnquotedOptionTemplate t) = Inr rt"
    "map_of st ''sandbox'' = Some sb" "map_of st ''frame-ancestors'' = Some fa"
    "map_of st ''report-uri'' = Some ru" "map_of st ''report-to'' = Some rt"
    "map_of st ''upgrade-insecure-requests'' =
       Some (if UpgradeInsecureRequests (CSP pol) then ''upgrade-insecure-requests'' else [])"
proof -
  from l obtain d st1 dy1 st2 sb fa ru rt where
    r: "SandboxOptions_Parse (Sandbox (CSP pol)) (SandboxOptionTemplate t) = Inr sb"
    "FrameAncestorOptions_Parse (FrameAncestors (CSP pol)) (FrameAncestorOptionsTemplate t)
       = Inr fa"
    "UnquotedOptions_Parse (ReportURI (CSP pol)) (UnquotedOptionsTemplate t) = Inr ru"
    "UnquotedOption_Parse (ReportTo (CSP pol)) (UnquotedOptionTemplate t) = Inr rt" and
    st: "st = (if UpgradeInsecureRequests (CSP pol)
           then assign ''upgrade-insecure-requests'' ''upgrade-insecure-requests''
           else id)
          (assign ''upgrade-insecure-requests'' []
            (assign ''report-to'' rt (assign ''report-uri'' ru
              (assign ''frame-ancestors'' fa (assign ''sandbox'' sb st2)))))"
    by (rule loadDirectives_steps)
  have "map_of st ''sandbox'' = Some sb" "map_of st ''frame-ancestors'' = Some fa"
    "map_of st ''report-uri'' = Some ru" "map_of st ''report-to'' = Some rt"
    "map_of st ''upgrade-insecure-requests'' =
       Some (if UpgradeInsecureRequests (CSP pol) then ''upgrade-insecure-requests'' else [])"
    unfolding st by (simp_all add: map_of_assign)
  with r show ?thesis by (rule that)
qed

lemma filter_fragmentFor_map:
  assumes "CHR '' '' \<notin> set k" "\<forall>k' \<in> fst ` set xs. CHR '' '' \<notin> set k'" "distinct (map fst xs)"
  shows "filter (fragmentFor k) (map (\<lambda>(k, v). Sprintf k v) (filter (\<lambda>(k, v). v \<noteq> []) xs)) =
     (case map_of xs k of None \<Rightarrow> [] | Some v \<Rightarrow> if v = [] then [] else [Sprintf k v])"
  using assms
proof (induction xs)
  case Nil
  then show ?case by simp
next
  case (Cons a xs)
  obtain k' v' where a: "a = (k', v')" by (cases a)
  from Cons.prems a have sp: "CHR '' '' \<notin> set k'" and d: "k' \<notin> fst ` set xs" by auto
  from Cons have IH: "filter (fragmentFor k) (map (\<lambda>(k, v). Sprintf k v) (filter (\<lambda>(k, v). v \<noteq> []) xs)) =
     (case map_of xs k of None \<Rightarrow> [] | Some v \<Rightarrow> if v = [] then [] else [Sprintf k v])" by simp
  show ?case
  proof (cases "k' = k")
    case True
    with d have "map_of xs k = None" by (simp add: map_of_eq_None_iff)
    with IH True a Cons.prems(1) show ?thesis by (simp add: fragmentFor_Sprintf)
  next
    case False
    with IH a Cons.prems(1) sp show ?thesis by (simp add: fragmentFor_Sprintf)
  qed
qed

lemma rangeOrder_distinct_keys:
  "distinct (map fst (rangeOrder cs xs)) \<longleftrightarrow> distinct (map fst xs)"
proof -
  have "mset (map fst (rangeOrder cs xs)) = mset (map fst xs)"
    using arg_cong[OF mset_rangeOrder[of cs xs], of "image_mset fst"] by simp
  then show ?thesis by (rule mset_eq_imp_distinct_iff)
qed

lemma map_of_rangeOrder:
  "distinct (map fst xs) \<Longrightarrow> map_of (rangeOrder cs xs) = map_of xs"
  by (simp add: map_of_inject_set rangeOrder_distinct_keys set_rangeOrder)

lemma filter_fragmentFor_activeCSPs:
  assumes "CHR '' '' \<notin> set k" and "\<forall>k' \<in> keys st \<union> keys dy. CHR '' '' \<notin> set k'"
    and "distinct (map fst st)" and "distinct (map fst dy)"
  shows "filter (fragmentFor k) (activeCSPs ord st dy) =
     (case map_of st k of None \<Rightarrow> [] | Some v \<Rightarrow> if v = [] then [] else [Sprintf k v]) @
     (case map_of dy k of None \<Rightarrow> [] | Some v \<Rightarrow> if v = [] then [] else [Sprintf k v])"
proof -
  have s: "\<forall>k' \<in> fst ` set (rangeOrder (staticOrder ord) st). CHR '' '' \<notin> set k'"
    and d: "\<forall>k' \<in> fst ` set (rangeOrder (dynamicOrder ord) dy). CHR '' '' \<notin> set k'"
    using assms(2) by (auto simp: set_rangeOrder keys_def)
  show ?thesis
    unfolding activeCSPs_def flattenLoop_eq
    using filter_fragmentFor_map[OF assms(1) s] filter_fragmentFor_map[OF assms(1) d] assms(3,4)
    by (simp add: rangeOrder_distinct_keys map_of_rangeOrder)
qed

lemma defaultTemplates_inUse:
  "SourceOptionTemplateText (defaultTemplates pol) =
     templateTextInUse (SourceOptionTemplateText pol) TemplateTextSourceOption"
  "SandboxOptionTemplateText (defaultTemplates pol) =
     templateTextInUse (SandboxOptionTemplateText pol) TemplateTextSandbox"
  "FrameAncestorOptionsTemplateText (defaultTemplates pol) =
     templateTextInUse (FrameAncestorOptionsTemplateText pol) TemplateTextFrameAncestorOptions"
  "UnquotedOptionsTextTemplateText (defaultTemplates pol) =
     templateTextInUse (UnquotedOptionsTextTemplateText pol) TemplateTextUnquotedOptions"
  "UnquotedOptionTextTemplateText (defaultTemplates pol) =
     templateTextInUse (UnquotedOptionTextTemplateText pol) TemplateTextUnquotedOption"
  by (simp_all add: defaultTemplates_def templateTextInUse_def)

lemma templateTexts_nonempty:
  "TemplateTextSourceOption \<noteq> []" "TemplateTextSandbox \<noteq> []"
  "TemplateTextFrameAncestorOptions \<noteq> []" "TemplateTextUnquotedOptions \<noteq> []"
  "TemplateTextUnquotedOption \<noteq> []"
  by (simp_all add: TemplateTextSourceOption_def TemplateTextSandbox_def
      TemplateTextFrameAncestorOptions_def TemplateTextUnquotedOptions_def
      TemplateTextUnquotedOption_def)

lemma parseTemplates_iff:
  "parseTemplates pol = Inr t \<longleftrightarrow>
     template_Parse (SourceOptionTemplateText pol) = Inr (SourceOptionTemplate t) \<and>
     template_Parse (SandboxOptionTemplateText pol) = Inr (SandboxOptionTemplate t) \<and>
     template_Parse (FrameAncestorOptionsTemplateText pol) = Inr (FrameAncestorOptionsTemplate t) \<and>
     template_Parse (UnquotedOptionsTextTemplateText pol) = Inr (UnquotedOptionsTemplate t) \<and>
     template_Parse (UnquotedOptionTextTemplateText pol) = Inr (UnquotedOptionTemplate t)"
  by (cases t) (auto simp: parseTemplates_def split: sum.splits)

lemma render_parsed:
  "template_Parse text = Inr T \<Longrightarrow> renderSourceOption text cso = CSPSourceOptions_Parse cso T"
  "template_Parse text = Inr T \<Longrightarrow> renderSandbox text so = SandboxOptions_Parse so T"
  "template_Parse text = Inr T \<Longrightarrow> renderFrameAncestors text fao = FrameAncestorOptions_Parse fao T"
  "template_Parse text = Inr T \<Longrightarrow> renderUnquotedOptions text uvs = UnquotedOptions_Parse uvs T"
  "template_Parse text = Inr T \<Longrightarrow> renderUnquotedOption text uv = UnquotedOption_Parse uv T"
  by (simp_all add: renderSourceOption_def renderSandbox_def renderFrameAncestors_def
      renderUnquotedOptions_def renderUnquotedOption_def)

lemma render_Inr_parsed:
  "renderSourceOption text cso = Inr x \<Longrightarrow> \<exists>T. template_Parse text = Inr T"
  "renderSandbox text so = Inr x \<Longrightarrow> \<exists>T. template_Parse text = Inr T"
  "renderFrameAncestors text fao = Inr x \<Longrightarrow> \<exists>T. template_Parse text = Inr T"
  "renderUnquotedOptions text uvs = Inr x \<Longrightarrow> \<exists>T. template_Parse text = Inr T"
  "renderUnquotedOption text uv = Inr x \<Longrightarrow> \<exists>T. template_Parse text = Inr T"
  by (auto simp: renderSourceOption_def renderSandbox_def renderFrameAncestors_def
      renderUnquotedOptions_def renderUnquotedOption_def split: sum.splits)

lemma Load_succeeds_parts:
  "(\<exists>table. Load ord pol = Inr table) \<longleftrightarrow>
   (\<exists>t. parseTemplates (defaultTemplates pol) = Inr t \<and> compoundChecks pol = Inr () \<and>
        (\<exists>r. loadDirectives ord t (defaultTemplates pol) = Inr r))"
  by (auto simp: Load_def Let_def split: sum.splits prod.splits)

text \<open>
  \<open>Load\<close> succeeds exactly when the pre-flight check passes and every option value
  renders under the template text in use for its kind.
\<close>

lemma Load_succeeds_iff:
  "(\<exists>table. Load ord pol = Inr table) \<longleftrightarrow>
     compoundChecks pol = Inr () \<and>
     (\<exists>x. renderSourceOption
            (templateTextInUse (SourceOptionTemplateText pol) TemplateTextSourceOption)
            (DefaultSrc (CSP pol)) = Inr x) \<and>
     (\<forall>(k, v) \<in> set (sourceOptFetchDirectives pol).
        \<exists>x. renderSourceOption
              (templateTextInUse (SourceOptionTemplateText pol) TemplateTextSourceOption) v
             = Inr x) \<and>
     (\<forall>(k, v) \<in> set (sourceOptNonFetchDirectives pol).
        \<exists>x. renderSourceOption
              (templateTextInUse (SourceOptionTemplateText pol) TemplateTextSourceOption) v
             = Inr x) \<and>
     (\<exists>x. renderSandbox
            (templateTextInUse (SandboxOptionTemplateText pol) TemplateTextSandbox)
            (Sandbox (CSP pol)) = Inr x) \<and>
     (\<exists>x. renderFrameAncestors
            (templateTextInUse (FrameAncestorOptionsTemplateText pol)
               TemplateTextFrameAncestorOptions)
            (FrameAncestors (CSP pol)) = Inr x) \<and>
     (\<exists>x. renderUnquotedOptions
            (templateTextInUse (UnquotedOptionsTextTemplateText pol) TemplateTextUnquotedOptions)
            (ReportURI (CSP pol)) = Inr x) \<and>
     (\<exists>x. renderUnquotedOption
            (templateTextInUse (UnquotedOptionTextTemplateText pol) TemplateTextUnquotedOption)
            (ReportTo (CSP pol)) = Inr x)"
  (is "?L \<longleftrightarrow> ?R")
proof
  assume ?L
  then obtain t r where
    t: "parseTemplates (defaultTemplates pol) = Inr t" and c: "compoundChecks pol = Inr ()" and
    l: "\<exists>r. loadDirectives ord t (defaultTemplates pol) = Inr r"
    unfolding Load_succeeds_parts by blast
  note p = t[unfolded parseTemplates_iff defaultTemplates_inUse]
  from l[unfolded loadDirectives_succeeds] c show ?R
    by (simp add: p[THEN conjunct1, THEN render_parsed(1)]
        p[THEN conjunct2, THEN conjunct1, THEN render_parsed(2)]
        p[THEN conjunct2, THEN conjunct2, THEN conjunct1, THEN render_parsed(3)]
        p[THEN conjunct2, THEN conjunct2, THEN conjunct2, THEN conjunct1, THEN render_parsed(4)]
        p[THEN conjunct2, THEN conjunct2, THEN conjunct2, THEN conjunct2, THEN render_parsed(5)])
next
  assume r: ?R
  then obtain so sb fa uos uo where
    p: "template_Parse (templateTextInUse (SourceOptionTemplateText pol) TemplateTextSourceOption)
          = Inr so"
       "template_Parse (templateTextInUse (SandboxOptionTemplateText pol) TemplateTextSandbox)
          = Inr sb"
       "template_Parse (templateTextInUse (FrameAncestorOptionsTemplateText pol)
          TemplateTextFrameAncestorOptions) = Inr fa"
       "template_Parse (templateTextInUse (UnquotedOptionsTextTemplateText pol)
          TemplateTextUnquotedOptions) = Inr uos"
       "template_Parse (templateTextInUse (UnquotedOptionTextTemplateText pol)
          TemplateTextUnquotedOption) = Inr uo"
    by (meson render_Inr_parsed)
  let ?t = "\<lparr> SourceOptionTemplate = so, SandboxOptionTemplate = sb,
              FrameAncestorOptionsTemplate = fa, UnquotedOptionsTemplate = uos,
              UnquotedOptionTemplate = uo \<rparr>"
  have t: "parseTemplates (defaultTemplates pol) = Inr ?t"
    by (simp add: parseTemplates_iff defaultTemplates_inUse p)
  from r have "\<exists>r. loadDirectives ord ?t (defaultTemplates pol) = Inr r"
    unfolding loadDirectives_succeeds
    by (simp add: p(1)[THEN render_parsed(1)] p(2)[THEN render_parsed(2)]
        p(3)[THEN render_parsed(3)] p(4)[THEN render_parsed(4)] p(5)[THEN render_parsed(5)])
  with t r show ?L unfolding Load_succeeds_parts by blast
qed

lemma map_of_keys:
  "distinct (map fst m) \<Longrightarrow> (k, x) \<in> set m \<Longrightarrow> map_of m k = Some x"
  "k \<notin> keys m \<Longrightarrow> map_of m k = None"
  by (auto simp: keys_def map_of_eq_None_iff)

lemma loadDirectives_source_maps:
  assumes l: "loadDirectives ord t pol = Inr (st, dy)"
    and kv: "(k, v) \<in> set (sourceOptFetchDirectives pol) \<union> set (sourceOptNonFetchDirectives pol)"
    and x: "CSPSourceOptions_Parse v (SourceOptionTemplate t) = Inr x"
  shows "map_of st k = (if k \<in> keys st then Some x else None)"
    and "map_of dy k = (if k \<in> keys dy then Some x else None)"
proof -
  from l obtain d where dist: "distinct (map fst st)" "distinct (map fst dy)"
    by (rule loadDirectives_maps)
  have v: "(k, x') \<in> set st \<union> set dy \<Longrightarrow> x' = x" for x'
    using loadDirectives_source_values[OF l kv] x by simp
  show "map_of st k = (if k \<in> keys st then Some x else None)"
  proof (cases "k \<in> keys st")
    case True
    then obtain x' where "(k, x') \<in> set st" by (auto simp: keys_def)
    with v[of x'] dist(1) True show ?thesis by (simp add: map_of_keys(1))
  next
    case False
    then show ?thesis by (simp add: map_of_keys(2))
  qed
  show "map_of dy k = (if k \<in> keys dy then Some x else None)"
  proof (cases "k \<in> keys dy")
    case True
    then obtain x' where "(k, x') \<in> set dy" by (auto simp: keys_def)
    with v[of x'] dist(2) True show ?thesis by (simp add: map_of_keys(1))
  next
    case False
    then show ?thesis by (simp add: map_of_keys(2))
  qed
qed

text \<open>
  The fragments of each directive after the directives have been rendered, in terms of
  the templates that \<open>Load\<close> has parsed.
\<close>

lemma loadDirectives_fragments:
  assumes l: "loadDirectives ord t pol = Inr (st, dy)"
  obtains d sb fa ru rt where
    "CSPSourceOptions_Parse (DefaultSrc (CSP pol)) (SourceOptionTemplate t) = Inr d"
    "SandboxOptions_Parse (Sandbox (CSP pol)) (SandboxOptionTemplate t) = Inr sb"
    "FrameAncestorOptions_Parse (FrameAncestors (CSP pol)) (FrameAncestorOptionsTemplate t)
       = Inr fa"
    "UnquotedOptions_Parse (ReportURI (CSP pol)) (UnquotedOptionsTemplate t) = Inr ru"
    "UnquotedOption_Parse (ReportTo (CSP pol)) (UnquotedOptionTemplate t) = Inr rt"
    "filter (fragmentFor ''default-src'') (activeCSPs ord' st dy) =
       (if d = [] then [] else [Sprintf ''default-src'' d])"
    "filter (fragmentFor ''sandbox'') (activeCSPs ord' st dy) =
       (if sb = [] then [] else [Sprintf ''sandbox'' sb])"
    "filter (fragmentFor ''frame-ancestors'') (activeCSPs ord' st dy) =
       (if fa = [] then [] else [Sprintf ''frame-ancestors'' fa])"
    "filter (fragmentFor ''report-uri'') (activeCSPs ord' st dy) =
       (if ru = [] then [] else [Sprintf ''report-uri'' ru])"
    "filter (fragmentFor ''report-to'') (activeCSPs ord' st dy) =
       (if rt = [] then [] else [Sprintf ''report-to'' rt])"
    "filter (fragmentFor ''upgrade-insecure-requests'') (activeCSPs ord' st dy) =
       (if UpgradeInsecureRequests (CSP pol)
        then [Sprintf ''upgrade-insecure-requests'' ''upgrade-insecure-requests''] else [])"
    "\<And>k v. (k, v) \<in> set (sourceOptFetchDirectives pol) \<Longrightarrow>
       \<exists>x. CSPSourceOptions_Parse v (SourceOptionTemplate t) = Inr x \<and>
           filter (fragmentFor k) (activeCSPs ord' st dy) =
             (if x = [] \<or> x = d then [] else [Sprintf k x])"
    "\<And>k v. (k, v) \<in> set (sourceOptNonFetchDirectives pol) \<Longrightarrow>
       \<exists>x. CSPSourceOptions_Parse v (SourceOptionTemplate t) = Inr x \<and>
           filter (fragmentFor k) (activeCSPs ord' st dy) =
             (if x = [] then [] else [Sprintf k x])"
proof -
  let ?T = "SourceOptionTemplate t"
  from l obtain d where
    d: "CSPSourceOptions_Parse (DefaultSrc (CSP pol)) ?T = Inr d" and
    md: "map_of st ''default-src'' = Some d" and nd: "''default-src'' \<notin> keys dy" and
    dist: "distinct (map fst st)" "distinct (map fst dy)" and
    kdy: "keys dy =
       {k. \<exists>v. (k, v) \<in> set (sourceOptFetchDirectives pol) \<and>
            CSPSourceOptions_Parse v ?T \<noteq> Inr d \<and> isDynamic v} \<union>
       {k. \<exists>v. (k, v) \<in> set (sourceOptNonFetchDirectives pol) \<and> isDynamic v}"
    by (rule loadDirectives_maps)
  from l obtain sb fa ru rt where
    r: "SandboxOptions_Parse (Sandbox (CSP pol)) (SandboxOptionTemplate t) = Inr sb"
      "FrameAncestorOptions_Parse (FrameAncestors (CSP pol)) (FrameAncestorOptionsTemplate t)
         = Inr fa"
      "UnquotedOptions_Parse (ReportURI (CSP pol)) (UnquotedOptionsTemplate t) = Inr ru"
      "UnquotedOption_Parse (ReportTo (CSP pol)) (UnquotedOptionTemplate t) = Inr rt" and
    mo: "map_of st ''sandbox'' = Some sb" "map_of st ''frame-ancestors'' = Some fa"
      "map_of st ''report-uri'' = Some ru" "map_of st ''report-to'' = Some rt"
      "map_of st ''upgrade-insecure-requests'' =
         Some (if UpgradeInsecureRequests (CSP pol) then ''upgrade-insecure-requests'' else [])"
    by (rule loadDirectives_other_values)
  note nosp = loadDirectives_no_space[OF l]
  note FF = filter_fragmentFor_activeCSPs[OF _ nosp dist, of _ ord']
  have other: "k \<in> otherNames \<Longrightarrow> map_of dy k = None" for k
    unfolding kdy
    using fetch_key_props[of k _ pol] nonFetch_key_props[of k _ pol]
    by (intro map_of_keys(2)) (auto simp: kdy)
  have o: "map_of dy ''sandbox'' = None" "map_of dy ''frame-ancestors'' = None"
    "map_of dy ''report-uri'' = None" "map_of dy ''report-to'' = None"
    "map_of dy ''upgrade-insecure-requests'' = None"
    by (simp_all add: other otherNames_def)
  have 1: "filter (fragmentFor ''default-src'') (activeCSPs ord' st dy) =
       (if d = [] then [] else [Sprintf ''default-src'' d])"
    by (simp add: FF md map_of_keys(2)[OF nd])
  have 2: "filter (fragmentFor ''sandbox'') (activeCSPs ord' st dy) =
       (if sb = [] then [] else [Sprintf ''sandbox'' sb])"
    "filter (fragmentFor ''frame-ancestors'') (activeCSPs ord' st dy) =
       (if fa = [] then [] else [Sprintf ''frame-ancestors'' fa])"
    "filter (fragmentFor ''report-uri'') (activeCSPs ord' st dy) =
       (if ru = [] then [] else [Sprintf ''report-uri'' ru])"
    "filter (fragmentFor ''report-to'') (activeCSPs ord' st dy) =
       (if rt = [] then [] else [Sprintf ''report-to'' rt])"
    "filter (fragmentFor ''upgrade-insecure-requests'') (activeCSPs ord' st dy) =
       (if UpgradeInsecureRequests (CSP pol)
        then [Sprintf ''upgrade-insecure-requests'' ''upgrade-insecure-requests''] else [])"
    by (simp_all add: FF mo o)
  from l have ok: "\<exists>r. loadDirectives ord t pol = Inr r" by blast
  note s = ok[unfolded loadDirectives_succeeds]
  have 3: "\<exists>x. CSPSourceOptions_Parse v ?T = Inr x \<and>
           filter (fragmentFor k) (activeCSPs ord' st dy) =
             (if x = [] \<or> x = d then [] else [Sprintf k x])"
    if kv: "(k, v) \<in> set (sourceOptFetchDirectives pol)" for k v
  proof -
    from s kv obtain x where x: "CSPSourceOptions_Parse v ?T = Inr x" by blast
    from kv have kv': "(k, v) \<in> set (sourceOptFetchDirectives pol) \<union>
        set (sourceOptNonFetchDirectives pol)" by simp
    note m = loadDirectives_source_maps[OF l kv' x]
    note ks = loadDirectives_fetch_key[OF l d kv]
    from fetch_key_props[OF kv] have sp: "CHR '' '' \<notin> set k" by simp
    have "filter (fragmentFor k) (activeCSPs ord' st dy) =
             (if x = [] \<or> x = d then [] else [Sprintf k x])"
      unfolding FF[OF sp] m using ks x by auto
    with x show ?thesis by blast
  qed
  have 4: "\<exists>x. CSPSourceOptions_Parse v ?T = Inr x \<and>
           filter (fragmentFor k) (activeCSPs ord' st dy) =
             (if x = [] then [] else [Sprintf k x])"
    if kv: "(k, v) \<in> set (sourceOptNonFetchDirectives pol)" for k v
  proof -
    from s kv obtain x where x: "CSPSourceOptions_Parse v ?T = Inr x" by blast
    from kv have kv': "(k, v) \<in> set (sourceOptFetchDirectives pol) \<union>
        set (sourceOptNonFetchDirectives pol)" by simp
    note m = loadDirectives_source_maps[OF l kv' x]
    note ks = loadDirectives_nonFetch_key[OF l kv]
    from nonFetch_key_props[OF kv] have sp: "CHR '' '' \<notin> set k" by simp
    have "filter (fragmentFor k) (activeCSPs ord' st dy) =
             (if x = [] then [] else [Sprintf k x])"
      unfolding FF[OF sp] m using ks x by auto
    with x show ?thesis by blast
  qed
  from d r 1 2 3 4 show ?thesis by (rule that)
qed

section \<open>Load at concrete policies\<close>

lemma rangeOrder_Nil: "rangeOrder [] xs = xs"
  by (cases xs) simp_all

lemma parseTemplates_default:
  assumes "SourceOptionTemplateText pol = []" "SandboxOptionTemplateText pol = []"
    "FrameAncestorOptionsTemplateText pol = []" "UnquotedOptionsTextTemplateText pol = []"
    "UnquotedOptionTextTemplateText pol = []"
  shows "parseTemplates (defaultTemplates pol) =
     Inr \<lparr> SourceOptionTemplate = TemplateSourceOption, SandboxOptionTemplate = TemplateSandbox,
           FrameAncestorOptionsTemplate = TemplateFrameAncestorOptions,
           UnquotedOptionsTemplate = TemplateUnquotedOptions,
           UnquotedOptionTemplate = TemplateUnquotedOption \<rparr>"
  using assms
  by (simp add: parseTemplates_def defaultTemplates_def template_Parse_SourceOption
      template_Parse_Sandbox template_Parse_FrameAncestorOptions template_Parse_UnquotedOptions
      template_Parse_UnquotedOption)

lemmas Parse_default = CSPSourceOptions_Parse_default SandboxOptions_Parse_default
  FrameAncestorOptions_Parse_default UnquotedOptions_Parse_default UnquotedOption_Parse_default

lemmas text_defs = sourceOptionText_def sourceOptionHead_def sourceOptionTail_def sandboxText_def
  frameAncestorsText_def unquotedOptionsText_def quoted_def

lemmas zero_defs = zero_Policy_def zero_CSP_def zero_CSPSourceOptions_def zero_SandboxOptions_def
  zero_FrameAncestorOptions_def

lemmas example_defs = policyDefaultAllowOnly_def policySameAllowOnly_def policySharedNonce_def
  policyScriptNonce_def policyReportToMissing_def policyReportToOther_def policyPayloadOnly_def
  SecurityOptionsReactJS_def

lemmas eval_defs = compoundChecks_def loadDirectives_def sourceOptFetchDirectives_def
  sourceOptNonFetchDirectives_def index_def activeCSPs_def Sprintf_def cspTable_def
  insertionOrder_def rangeOrder_Nil Let_def Parse_default text_defs zero_defs example_defs

lemmas fragment_eval = hasFragment_def fragmentFor_def activeCSPs_def insertionOrder_def
  rangeOrder_Nil Sprintf_def quoted_def

lemma sourceOptionText_empty_iff:
  "sourceOptionText v = [] \<longleftrightarrow>
     Allow v \<and> \<not> AllowSelf v \<and> Values v = [] \<and> \<not> UnsafeEval v \<and> \<not> WasmUnsafeEval v \<and>
     \<not> UnsafeHashes v \<and> \<not> UnsafeInline v \<and> NonceBase64Value v = [] \<and>
     HashAlgorithmBase64Value v = [] \<and> \<not> StrictDynamic v \<and> \<not> ReportSample v"
  by (cases "Values v")
     (auto simp: sourceOptionText_def sourceOptionHead_def sourceOptionTail_def quoted_def)

lemma renderedSourceOption_default:
  "SourceOptionTemplateText pol = [] \<Longrightarrow> renderedSourceOption pol v = Inr (sourceOptionText v)"
  by (simp add: renderedSourceOption_def renderSourceOption_def defaultTemplates_def
      template_Parse_SourceOption CSPSourceOptions_Parse_default)

lemma Load_checks:
  "compoundChecks pol = Inl e \<Longrightarrow> \<exists>e'. Load ord pol = Inl e'"
  by (simp add: Load_def Let_def split: sum.splits)

lemma Load_checks_parsed:
  "parseTemplates (defaultTemplates pol) = Inr t \<Longrightarrow> compoundChecks pol = Inl e \<Longrightarrow>
   Load ord pol = Inl e"
  by (simp add: Load_def Let_def)

lemma Load_of_maps:
  "directiveMaps ord pol = Inr (st, dy) \<Longrightarrow>
   Load ord pol = Inr (cspTable pol (Join (activeCSPs ord st dy) '' ''))"
  by (simp add: Load_fragments fragments_def)

lemma fragments_of_maps:
  "directiveMaps ord pol = Inr (st, dy) \<Longrightarrow> fragments ord pol = Inr (activeCSPs ord st dy)"
  by (simp add: fragments_def)

lemma Load_table_of_maps:
  assumes "directiveMaps ord pol = Inr (st, dy)"
  shows "\<exists>table. Load ord pol = Inr table \<and>
           table ''Content-Security-Policy'' = Some (Join (activeCSPs ord st dy) '' '')"
  using Load_of_maps[OF assms] by (simp add: cspTable_lookup)

lemma zero_templates:
  "SourceOptionTemplateText zero_Policy = []" "SandboxOptionTemplateText zero_Policy = []"
  "FrameAncestorOptionsTemplateText zero_Policy = []"
  "UnquotedOptionsTextTemplateText zero_Policy = []"
  "UnquotedOptionTextTemplateText zero_Policy = []"
  by (simp_all add: zero_Policy_def)

lemma zero_fields:
  "CSP zero_Policy = zero_CSP" "ReportTo_ReportTo zero_Policy = []"
  "DefaultSrc zero_CSP = zero_CSPSourceOptions" "Sandbox zero_CSP = zero_SandboxOptions"
  "FrameAncestors zero_CSP = zero_FrameAncestorOptions"
  "ReportURI zero_CSP = \<lparr> UO_Values = [] \<rparr>" "ReportTo zero_CSP = \<lparr> Value = [] \<rparr>"
  "UpgradeInsecureRequests zero_CSP = False"
  by (simp_all add: zero_Policy_def zero_CSP_def)

lemma mset_flatten:
  "mset (activeCSPs ord st []) =
     image_mset (\<lambda>(k, v). Sprintf k v) (filter_mset (\<lambda>(k, v). v \<noteq> []) (mset st))"
  by (simp add: mset_activeCSPs)

text \<open>
  The zero policy under any order of iteration: every fetch directive is redundant, and
  only the order of \<open>base-uri\<close> and \<open>form-action\<close> in the static map depends on the
  order of the second loop.
\<close>

lemma directiveMaps_zero:
  "\<exists>st. directiveMaps ord zero_Policy = Inr (st, []) \<and>
     mset st = mset [(''default-src'', quoted ''none''), (''base-uri'', quoted ''none''),
       (''form-action'', quoted ''none''), (''sandbox'', []),
       (''frame-ancestors'', quoted ''none''), (''report-uri'', []), (''report-to'', []),
       (''upgrade-insecure-requests'', [])]"
proof -
  let ?t = "\<lparr> SourceOptionTemplate = TemplateSourceOption, SandboxOptionTemplate = TemplateSandbox,
           FrameAncestorOptionsTemplate = TemplateFrameAncestorOptions,
           UnquotedOptionsTemplate = TemplateUnquotedOptions,
           UnquotedOptionTemplate = TemplateUnquotedOption \<rparr>"
  let ?pol = "defaultTemplates zero_Policy"
  let ?none = "quoted ''none''"
  have t: "parseTemplates ?pol = Inr ?t"
    by (rule parseTemplates_default) (rule zero_templates)+
  have c: "compoundChecks zero_Policy = Inr ()"
    by (simp add: compoundChecks_def zero_fields)
  have z: "CSPSourceOptions_Parse zero_CSPSourceOptions TemplateSourceOption = Inr ?none"
    by (simp add: Parse_default sourceOptionText_def zero_CSPSourceOptions_def)
  have "\<forall>(k, v) \<in> set (sourceOptFetchDirectives zero_Policy). v = zero_CSPSourceOptions"
    by (simp add: sourceOptFetchDirectives_def zero_Policy_def zero_CSP_def)
  then have f: "fetchLoop TemplateSourceOption
      (rangeOrder (fetchOrder ord) (sourceOptFetchDirectives zero_Policy))
      ([(''default-src'', ?none)], []) = Inr ([(''default-src'', ?none)], [])"
    by (intro fetchLoop_all_redundant) (auto simp: set_rangeOrder z index_def)
  let ?bu = "(''base-uri'', zero_CSPSourceOptions)"
  let ?fa = "(''form-action'', zero_CSPSourceOptions)"
  have nf: "sourceOptNonFetchDirectives zero_Policy = [?bu, ?fa]"
    by (simp add: sourceOptNonFetchDirectives_def zero_Policy_def zero_CSP_def)
  have dyn: "NonceBase64Value zero_CSPSourceOptions = []"
    "HashAlgorithmBase64Value zero_CSPSourceOptions = []"
    by (simp_all add: zero_CSPSourceOptions_def)
  from rangeOrder_pair[of "nonFetchOrder ord" ?bu ?fa]
  consider "rangeOrder (nonFetchOrder ord) [?bu, ?fa] = [?bu, ?fa]"
    | "rangeOrder (nonFetchOrder ord) [?bu, ?fa] = [?fa, ?bu]" by blast
  then show ?thesis
  proof cases
    case 1
    have "directiveMaps ord zero_Policy =
      Inr ([(''default-src'', ?none), (''base-uri'', ?none), (''form-action'', ?none),
            (''sandbox'', []), (''frame-ancestors'', ?none), (''report-uri'', []),
            (''report-to'', []), (''upgrade-insecure-requests'', [])], [])"
      unfolding directiveMaps_def Let_def t
      by (simp add: c loadDirectives_def z f nf 1 dyn SandboxOptions_Parse_default
          FrameAncestorOptions_Parse_default UnquotedOptions_Parse_default
          UnquotedOption_Parse_default sandboxText_def frameAncestorsText_def
          unquotedOptionsText_def zero_fields zero_SandboxOptions_def
          zero_FrameAncestorOptions_def)
    then show ?thesis by simp
  next
    case 2
    have "directiveMaps ord zero_Policy =
      Inr ([(''default-src'', ?none), (''form-action'', ?none), (''base-uri'', ?none),
            (''sandbox'', []), (''frame-ancestors'', ?none), (''report-uri'', []),
            (''report-to'', []), (''upgrade-insecure-requests'', [])], [])"
      unfolding directiveMaps_def Let_def t
      by (simp add: c loadDirectives_def z f nf 2 dyn SandboxOptions_Parse_default
          FrameAncestorOptions_Parse_default UnquotedOptions_Parse_default
          UnquotedOption_Parse_default sandboxText_def frameAncestorsText_def
          unquotedOptionsText_def zero_fields zero_SandboxOptions_def
          zero_FrameAncestorOptions_def)
    then show ?thesis by simp
  qed
qed

text \<open>The example policies, with every \<open>range\<close> in the order of insertion.\<close>

lemma example_templates:
  "p \<in> {zero_Policy, SecurityOptionsReactJS, policyDefaultAllowOnly, policySameAllowOnly,
        policySharedNonce, policyScriptNonce, policyReportToMissing, policyReportToOther,
        policyPayloadOnly} \<Longrightarrow>
   parseTemplates (defaultTemplates p) =
     Inr \<lparr> SourceOptionTemplate = TemplateSourceOption, SandboxOptionTemplate = TemplateSandbox,
           FrameAncestorOptionsTemplate = TemplateFrameAncestorOptions,
           UnquotedOptionsTemplate = TemplateUnquotedOptions,
           UnquotedOptionTemplate = TemplateUnquotedOption \<rparr>"
  by (rule parseTemplates_default) (auto simp: example_defs zero_Policy_def)

lemma maps_DefaultAllowOnly:
  "directiveMaps insertionOrder policyDefaultAllowOnly =
     Inr ([(''default-src'', []), (''child-src'', quoted ''none''),
           (''connect-src'', quoted ''none''), (''font-src'', quoted ''none''),
           (''frame-src'', quoted ''none''), (''img-src'', quoted ''none''),
           (''manifest-src'', quoted ''none''), (''media-src'', quoted ''none''),
           (''object-src'', quoted ''none''), (''prefetch-src'', quoted ''none''),
           (''script-src'', quoted ''none''), (''script-src-elem'', quoted ''none''),
           (''script-src-attr'', quoted ''none''), (''style-src'', quoted ''none''),
           (''style-src-elem'', quoted ''none''), (''style-src-attr'', quoted ''none''),
           (''worker-src'', quoted ''none''), (''base-uri'', quoted ''none''),
           (''form-action'', quoted ''none''), (''sandbox'', []),
           (''frame-ancestors'', quoted ''none''), (''report-uri'', []), (''report-to'', []),
           (''upgrade-insecure-requests'', [])], [])"
  unfolding directiveMaps_def Let_def
  by (simp add: example_templates) (simp add: eval_defs)

lemma maps_SameAllowOnly:
  "directiveMaps insertionOrder policySameAllowOnly =
     Inr ([(''default-src'', []), (''child-src'', quoted ''none''),
           (''connect-src'', quoted ''none''), (''font-src'', quoted ''none''),
           (''frame-src'', quoted ''none''), (''img-src'', quoted ''none''),
           (''manifest-src'', quoted ''none''), (''media-src'', quoted ''none''),
           (''object-src'', quoted ''none''), (''prefetch-src'', quoted ''none''),
           (''script-src-elem'', quoted ''none''),
           (''script-src-attr'', quoted ''none''), (''style-src'', quoted ''none''),
           (''style-src-elem'', quoted ''none''), (''style-src-attr'', quoted ''none''),
           (''worker-src'', quoted ''none''), (''base-uri'', quoted ''none''),
           (''form-action'', quoted ''none''), (''sandbox'', []),
           (''frame-ancestors'', quoted ''none''), (''report-uri'', []), (''report-to'', []),
           (''upgrade-insecure-requests'', [])], [])"
  unfolding directiveMaps_def Let_def
  by (simp add: example_templates) (simp add: eval_defs)

lemma maps_SharedNonce:
  "directiveMaps insertionOrder policySharedNonce =
     Inr ([(''default-src'', quoted ''self'' @ quoted ''nonce-abc''),
           (''child-src'', quoted ''none''),
           (''connect-src'', quoted ''none''), (''font-src'', quoted ''none''),
           (''frame-src'', quoted ''none''), (''img-src'', quoted ''none''),
           (''manifest-src'', quoted ''none''), (''media-src'', quoted ''none''),
           (''object-src'', quoted ''none''), (''prefetch-src'', quoted ''none''),
           (''script-src-elem'', quoted ''none''),
           (''script-src-attr'', quoted ''none''), (''style-src'', quoted ''none''),
           (''style-src-elem'', quoted ''none''), (''style-src-attr'', quoted ''none''),
           (''worker-src'', quoted ''none''), (''base-uri'', quoted ''none''),
           (''form-action'', quoted ''none''), (''sandbox'', []),
           (''frame-ancestors'', quoted ''none''), (''report-uri'', []), (''report-to'', []),
           (''upgrade-insecure-requests'', [])], [])"
  unfolding directiveMaps_def Let_def
  by (simp add: example_templates) (simp add: eval_defs)

lemma maps_ScriptNonce:
  "directiveMaps insertionOrder policyScriptNonce =
     Inr ([(''default-src'', quoted ''none''), (''base-uri'', quoted ''none''),
           (''sandbox'', []), (''frame-ancestors'', quoted ''none''), (''report-uri'', []),
           (''report-to'', []), (''upgrade-insecure-requests'', [])],
          [(''script-src'', quoted ''self'' @ quoted ''nonce-abc''),
           (''form-action'', quoted ''sha256-xyz'')])"
  unfolding directiveMaps_def Let_def
  by (simp add: example_templates) (simp add: eval_defs)

lemma maps_zero_insertion:
  "directiveMaps insertionOrder zero_Policy =
     Inr ([(''default-src'', quoted ''none''), (''base-uri'', quoted ''none''),
           (''form-action'', quoted ''none''), (''sandbox'', []),
           (''frame-ancestors'', quoted ''none''), (''report-uri'', []),
           (''report-to'', []), (''upgrade-insecure-requests'', [])], [])"
  unfolding directiveMaps_def Let_def
  by (simp add: example_templates) (simp add: eval_defs)

lemma maps_ReactJS:
  "directiveMaps insertionOrder SecurityOptionsReactJS =
     Inr ([(''default-src'', quoted ''none''), (''script-src'', quoted ''self''),
           (''style-src-attr'', quoted ''self'' @ '' '' @ quoted ''unsafe-inline''),
           (''base-uri'', quoted ''none''), (''form-action'', quoted ''self''),
           (''sandbox'', []), (''frame-ancestors'', quoted ''none''), (''report-uri'', []),
           (''report-to'', ''default''), (''upgrade-insecure-requests'', [])], [])"
  unfolding directiveMaps_def Let_def
  by (simp add: example_templates) (simp add: eval_defs)

text \<open>The two headers of the preset.\<close>

lemma Load_ReactJS:
  \<open>Load insertionOrder SecurityOptionsReactJS =
     Inr [''Content-Security-Policy'' \<mapsto>
            ''default-src 'none'; script-src 'self'; style-src-attr 'self' 'unsafe-inline'; base-uri 'none'; form-action 'self'; frame-ancestors 'none'; report-to default;'',
          ''Report-To'' \<mapsto>
            ''{"group":"default","max_age": 86400, "endpoints": [{"url":"/_/csp-reports" }]}'']\<close>
  unfolding Load_def Let_def
  by (simp add: example_templates) (simp add: eval_defs)

text \<open>The policy with template texts of its own.\<close>

lemma template_Parse_custom:
  "template_Parse customTextSourceOption = Inr customSourceOption"
  "template_Parse customTextSandbox = Inr customSandbox"
  by (simp_all add: template_Parse_def parser_defs quoted_def customTextSourceOption_def
      customTextSandbox_def customSourceOption_def customSandbox_def)

lemma custom_nonempty: "customTextSourceOption \<noteq> []" "customTextSandbox \<noteq> []"
  by (simp_all add: customTextSourceOption_def customTextSandbox_def)

lemma custom_fields:
  "SourceOptionTemplateText policyCustomTemplates = customTextSourceOption"
  "SandboxOptionTemplateText policyCustomTemplates = customTextSandbox"
  "FrameAncestorOptionsTemplateText policyCustomTemplates = []"
  "UnquotedOptionsTextTemplateText policyCustomTemplates = []"
  "UnquotedOptionTextTemplateText policyCustomTemplates = []"
  "CSP policyCustomTemplates = zero_CSP \<lparr> ScriptSrc := zero_CSPSourceOptions \<lparr> Allow := True \<rparr> \<rparr>"
  "ReportTo_ReportTo policyCustomTemplates = []"
  by (simp_all add: policyCustomTemplates_def zero_Policy_def)

lemma custom_templates:
  "parseTemplates (defaultTemplates policyCustomTemplates) =
     Inr \<lparr> SourceOptionTemplate = customSourceOption, SandboxOptionTemplate = customSandbox,
           FrameAncestorOptionsTemplate = TemplateFrameAncestorOptions,
           UnquotedOptionsTemplate = TemplateUnquotedOptions,
           UnquotedOptionTemplate = TemplateUnquotedOption \<rparr>"
  unfolding parseTemplates_iff defaultTemplates_inUse custom_fields
  by (simp add: templateTextInUse_def template_Parse_custom template_Parse_FrameAncestorOptions
      template_Parse_UnquotedOptions template_Parse_UnquotedOption custom_nonempty)

lemma custom_render:
  "CSPSourceOptions_Parse v customSourceOption = Inr (if Allow v then ''*'' else quoted ''none'')"
  "SandboxOptions_Parse s customSandbox =
     Inr (if AllowForms s then ''allow-forms'' else ''allow-scripts'')"
  by (simp_all add: CSPSourceOptions_Parse_def SandboxOptions_Parse_def Execute_def
      customSourceOption_def customSandbox_def)

lemma maps_CustomTemplates:
  "directiveMaps insertionOrder policyCustomTemplates =
     Inr ([(''default-src'', quoted ''none''), (''script-src'', ''*''),
           (''base-uri'', quoted ''none''), (''form-action'', quoted ''none''),
           (''sandbox'', ''allow-scripts''), (''frame-ancestors'', quoted ''none''),
           (''report-uri'', []), (''report-to'', []), (''upgrade-insecure-requests'', [])], [])"
  unfolding directiveMaps_def Let_def
  by (simp add: custom_templates)
     (simp add: compoundChecks_def loadDirectives_def sourceOptFetchDirectives_def
        sourceOptNonFetchDirectives_def index_def insertionOrder_def rangeOrder_Nil Let_def
        custom_render custom_fields FrameAncestorOptions_Parse_default
        UnquotedOptions_Parse_default UnquotedOption_Parse_default text_defs zero_CSP_def
        zero_CSPSourceOptions_def zero_SandboxOptions_def zero_FrameAncestorOptions_def)

lemma maps_CustomTemplates_defaults:
  "directiveMaps insertionOrder
     (policyCustomTemplates \<lparr> SourceOptionTemplateText := [], SandboxOptionTemplateText := [] \<rparr>) =
     Inr ([(''default-src'', quoted ''none''), (''script-src'', []),
           (''base-uri'', quoted ''none''), (''form-action'', quoted ''none''),
           (''sandbox'', []), (''frame-ancestors'', quoted ''none''),
           (''report-uri'', []), (''report-to'', []), (''upgrade-insecure-requests'', [])], [])"
  unfolding directiveMaps_def Let_def
  by (simp add: parseTemplates_default custom_fields)
     (simp add: compoundChecks_def loadDirectives_def sourceOptFetchDirectives_def
        sourceOptNonFetchDirectives_def index_def insertionOrder_def rangeOrder_Nil Let_def
        custom_fields Parse_default text_defs zero_CSP_def
        zero_CSPSourceOptions_def zero_SandboxOptions_def zero_FrameAncestorOptions_def)

section \<open>The claims\<close>

subsection \<open>Rendering\<close>

text \<open>
  C1. A source-option value with \<open>Allow = false\<close> renders to exactly \<open>'none'\<close> under
  the default source-option template, whatever its other fields hold.
\<close>

theorem default_disallow_renders_none:
  "\<not> Allow cso \<Longrightarrow> renderSourceOption TemplateTextSourceOption cso = Inr (quoted ''none'')"
  by (simp add: renderSourceOption_def template_Parse_SourceOption
      CSPSourceOptions_Parse_default sourceOptionText_def)

theorem default_disallow_renders_none_witness:
  "\<not> Allow \<lparr> Allow = False, AllowSelf = True, Values = [''https://example.com''],
       UnsafeEval = True, WasmUnsafeEval = False, UnsafeHashes = False, UnsafeInline = True,
       NonceBase64Value = ''abc'', HashAlgorithmBase64Value = ''sha256-xyz'',
       StrictDynamic = True, ReportSample = True \<rparr> \<and>
   renderSourceOption TemplateTextSourceOption
     \<lparr> Allow = False, AllowSelf = True, Values = [''https://example.com''],
       UnsafeEval = True, WasmUnsafeEval = False, UnsafeHashes = False, UnsafeInline = True,
       NonceBase64Value = ''abc'', HashAlgorithmBase64Value = ''sha256-xyz'',
       StrictDynamic = True, ReportSample = True \<rparr> = Inr (quoted ''none'')"
  using default_disallow_renders_none
    [of "\<lparr> Allow = False, AllowSelf = True, Values = [''https://example.com''],
       UnsafeEval = True, WasmUnsafeEval = False, UnsafeHashes = False, UnsafeInline = True,
       NonceBase64Value = ''abc'', HashAlgorithmBase64Value = ''sha256-xyz'',
       StrictDynamic = True, ReportSample = True \<rparr>"]
  by simp

text \<open>
  C6 as stated: the sandbox value with only \<open>AllowForms\<close> and \<open>AllowScripts\<close> set
  renders to \<open>allow-forms allow-scripts\<close> with no leading space. It does not: the
  template writes a space before every token but \<open>allow-downloads\<close>.
\<close>

theorem sandbox_forms_scripts_counterexample:
  "renderSandbox TemplateTextSandbox
     (zero_SandboxOptions \<lparr> AllowForms := True, AllowScripts := True \<rparr>)
   \<noteq> Inr ''allow-forms allow-scripts''"
  by (simp add: renderSandbox_def template_Parse_Sandbox SandboxOptions_Parse_default
      sandboxText_def zero_SandboxOptions_def)

text \<open>
  C6 amended: the sandbox value with only \<open>AllowForms\<close> and \<open>AllowScripts\<close> set
  renders to \<open>allow-forms allow-scripts\<close> after one leading space: the tokens in the
  order of the template, one space before each, none at the end.
\<close>

theorem sandbox_forms_scripts:
  "renderSandbox TemplateTextSandbox
     (zero_SandboxOptions \<lparr> AllowForms := True, AllowScripts := True \<rparr>)
   = Inr '' allow-forms allow-scripts''"
  by (simp add: renderSandbox_def template_Parse_Sandbox SandboxOptions_Parse_default
      sandboxText_def zero_SandboxOptions_def)

text \<open>
  C7 as stated: under every default template the rendering never ends with a space, the
  unquoted-multi template included. That template writes a space after every value.
\<close>

theorem default_template_whitespace_counterexample:
  "renderUnquotedOptions TemplateTextUnquotedOptions
     \<lparr> UO_Values = [''https://a.example/csp''] \<rparr> = Inr ''https://a.example/csp '' \<and>
   last ''https://a.example/csp '' = CHR '' ''"
  by (simp add: renderUnquotedOptions_def template_Parse_UnquotedOptions
      UnquotedOptions_Parse_default unquotedOptionsText_def)

text \<open>
  C7 amended: the rendering is a function of the template text and the option value, and
  under the default templates its text is exactly this. A source-option value without a
  nonce and a hash value renders to \<open>'none'\<close> when \<open>Allow\<close> is false, and otherwise to
  \<open>'self'\<close> (if set), every value and every set keyword, each of these after exactly one
  space. The sandbox and the frame-ancestors values render likewise: one space before
  every token but the first of the template (\<open>allow-downloads\<close>, \<open>'self'\<close>). The
  unquoted-multi value renders to its values, each followed by one space; the
  unquoted-single value renders to its value unchanged.
\<close>

theorem default_template_whitespace:
  "(NonceBase64Value cso = [] \<and> HashAlgorithmBase64Value cso = [] \<longrightarrow>
      renderSourceOption TemplateTextSourceOption cso =
        Inr (if Allow cso then sourceOptionHead cso @ sourceOptionTail cso
             else quoted ''none'')) \<and>
   renderSandbox TemplateTextSandbox so = Inr (sandboxText so) \<and>
   renderFrameAncestors TemplateTextFrameAncestorOptions fao = Inr (frameAncestorsText fao) \<and>
   renderUnquotedOptions TemplateTextUnquotedOptions uvs = Inr (unquotedOptionsText uvs) \<and>
   renderUnquotedOption TemplateTextUnquotedOption uv = Inr (Value uv)"
  by (simp add: renderSourceOption_def renderSandbox_def renderFrameAncestors_def
      renderUnquotedOptions_def renderUnquotedOption_def template_Parse_SourceOption
      template_Parse_Sandbox template_Parse_FrameAncestorOptions template_Parse_UnquotedOptions
      template_Parse_UnquotedOption Parse_default sourceOptionText_def)

theorem default_template_whitespace_witness:
  "renderSourceOption TemplateTextSourceOption
     \<lparr> Allow = True, AllowSelf = True, Values = [''https://a.example'', ''data:''],
       UnsafeEval = True, WasmUnsafeEval = False, UnsafeHashes = False, UnsafeInline = False,
       NonceBase64Value = [], HashAlgorithmBase64Value = [], StrictDynamic = True,
       ReportSample = True \<rparr>
   = Inr (quoted ''self'' @ '' https://a.example data: '' @ quoted ''unsafe-eval'' @ '' '' @
          quoted ''strict-dynamic'' @ '' '' @ quoted ''report-sample'')"
  using default_template_whitespace
    [of "\<lparr> Allow = True, AllowSelf = True, Values = [''https://a.example'', ''data:''],
       UnsafeEval = True, WasmUnsafeEval = False, UnsafeHashes = False, UnsafeInline = False,
       NonceBase64Value = [], HashAlgorithmBase64Value = [], StrictDynamic = True,
       ReportSample = True \<rparr>"]
  by (simp add: sourceOptionHead_def sourceOptionTail_def)

subsection \<open>Load\<close>

text \<open>
  C2 as stated: whenever \<open>ScriptSrc\<close> equals \<open>DefaultSrc\<close>, \<open>Load\<close> succeeds and the
  header value has a \<open>default-src\<close> fragment. With both allowed and otherwise empty,
  \<open>default-src\<close> renders to the empty text and the flattening drops it.
\<close>

theorem redundant_fetch_directive_omitted_counterexample:
  "ScriptSrc (CSP policySameAllowOnly) = DefaultSrc (CSP policySameAllowOnly) \<and>
   (\<exists>table active.
      Load insertionOrder policySameAllowOnly = Inr table \<and>
      fragments insertionOrder policySameAllowOnly = Inr active \<and>
      table ''Content-Security-Policy'' = Some (Join active '' '') \<and>
      \<not> hasFragment ''default-src'' active)"
proof -
  have same: "ScriptSrc (CSP policySameAllowOnly) = DefaultSrc (CSP policySameAllowOnly)"
    by (simp add: policySameAllowOnly_def)
  obtain st dy where
    m: "directiveMaps insertionOrder policySameAllowOnly = Inr (st, dy)" and
    h: "\<not> hasFragment ''default-src'' (activeCSPs insertionOrder st dy)"
    using maps_SameAllowOnly by (simp add: fragment_eval)
  from same Load_table_of_maps[OF m] fragments_of_maps[OF m] h show ?thesis by blast
qed

text \<open>
  C2 amended: whenever \<open>Load\<close> succeeds, the header value is the join of the fragments,
  no fetch directive whose rendered text equals the rendered text of \<open>default-src\<close> has a
  fragment, and \<open>default-src\<close> has a fragment exactly when its rendered text is not
  empty.
\<close>

theorem redundant_fetch_directive_omitted:
  assumes "Load ord pol = Inr table"
  shows "\<exists>active d.
     fragments ord pol = Inr active \<and>
     table ''Content-Security-Policy'' = Some (Join active '' '') \<and>
     renderedSourceOption pol (DefaultSrc (CSP pol)) = Inr d \<and>
     (hasFragment ''default-src'' active \<longleftrightarrow> d \<noteq> []) \<and>
     (\<forall>(k, v) \<in> set (sourceOptFetchDirectives pol).
        renderedSourceOption pol v = Inr d \<longrightarrow> \<not> hasFragment k active)"
proof -
  from assms obtain st dy where
    m: "directiveMaps ord pol = Inr (st, dy)" and
    f: "fragments ord pol = Inr (activeCSPs ord st dy)" and
    tb: "table = cspTable pol (Join (activeCSPs ord st dy) '' '')"
    by (rule Load_Inr)
  from m obtain t where
    l: "loadDirectives ord t (defaultTemplates pol) = Inr (st, dy)" and
    r: "\<And>v. renderedSourceOption pol v = CSPSourceOptions_Parse v (SourceOptionTemplate t)"
    by (rule directiveMaps_Inr) blast
  from l obtain d where
    d: "CSPSourceOptions_Parse (DefaultSrc (CSP (defaultTemplates pol))) (SourceOptionTemplate t)
        = Inr d"
    by (rule loadDirectives_maps)
  have frag: "hasFragment ''default-src'' (activeCSPs ord st dy) \<longleftrightarrow> d \<noteq> []"
    by (rule hasFragment_default_src(2)[OF l d])
  have "\<not> hasFragment k (activeCSPs ord st dy)"
    if kv: "(k, v) \<in> set (sourceOptFetchDirectives pol)"
      and same: "renderedSourceOption pol v = Inr d" for k v
  proof -
    from kv have kv': "(k, v) \<in> set (sourceOptFetchDirectives (defaultTemplates pol))" by simp
    from loadDirectives_fetch_key[OF l d kv'] same r
    have "k \<notin> keys st" "k \<notin> keys dy" by simp_all
    moreover from fetch_key_props[OF kv] have "CHR '' '' \<notin> set k" by simp
    ultimately show ?thesis using hasFragment_absent_key[OF l] by blast
  qed
  with f tb d r frag show ?thesis
    by (auto simp: cspTable_lookup)
qed

theorem redundant_fetch_directive_omitted_witness:
  "ScriptSrc (CSP zero_Policy) = DefaultSrc (CSP zero_Policy) \<and>
   (\<exists>active.
      fragments insertionOrder zero_Policy = Inr active \<and>
      hasFragment ''default-src'' active \<and> \<not> hasFragment ''script-src'' active)"
proof -
  note l = Load_of_maps[OF maps_zero_insertion]
  from redundant_fetch_directive_omitted[OF l] obtain active d where
    f: "fragments insertionOrder zero_Policy = Inr active" and
    d: "renderedSourceOption zero_Policy (DefaultSrc (CSP zero_Policy)) = Inr d" and
    h: "hasFragment ''default-src'' active \<longleftrightarrow> d \<noteq> []" and
    r: "\<forall>(k, v) \<in> set (sourceOptFetchDirectives zero_Policy).
          renderedSourceOption zero_Policy v = Inr d \<longrightarrow> \<not> hasFragment k active"
    by blast
  have same: "ScriptSrc (CSP zero_Policy) = DefaultSrc (CSP zero_Policy)"
    by (simp add: zero_Policy_def zero_CSP_def)
  have "d = quoted ''none''"
    using d by (simp add: renderedSourceOption_default zero_templates zero_fields
        sourceOptionText_def zero_CSPSourceOptions_def)
  with h have 1: "hasFragment ''default-src'' active" by (simp add: quoted_def)
  have "(''script-src'', ScriptSrc (CSP zero_Policy)) \<in> set (sourceOptFetchDirectives zero_Policy)"
    by (simp add: sourceOptFetchDirectives_def)
  with r d same have 2: "\<not> hasFragment ''script-src'' active" by fastforce
  from same f 1 2 show ?thesis by blast
qed

text \<open>
  C3. With a non-empty group name in \<open>CSP.ReportTo.Value\<close>, the check fails, and \<open>Load\<close>
  returns an error, when the payload \<open>ReportTo.ReportTo\<close> is empty (\<open>ReportToMissing\<close> once
  the templates have compiled) and when the group name is not a substring of the payload
  (\<open>ReportToMismatch\<close>); otherwise the check passes. With an empty group name the check
  passes whatever the payload.
\<close>

theorem report_to_validation:
  "(Value (ReportTo (CSP pol)) \<noteq> [] \<and> ReportTo_ReportTo pol = [] \<longrightarrow>
      compoundChecks pol = Inl ReportToMissing \<and> (\<exists>e. Load ord pol = Inl e) \<and>
      (\<forall>t. parseTemplates (defaultTemplates pol) = Inr t \<longrightarrow> Load ord pol = Inl ReportToMissing)) \<and>
   (Value (ReportTo (CSP pol)) \<noteq> [] \<and> ReportTo_ReportTo pol \<noteq> [] \<and>
    (\<nexists>a b. ReportTo_ReportTo pol = a @ Value (ReportTo (CSP pol)) @ b) \<longrightarrow>
      compoundChecks pol = Inl ReportToMismatch \<and> (\<exists>e. Load ord pol = Inl e) \<and>
      (\<forall>t. parseTemplates (defaultTemplates pol) = Inr t \<longrightarrow> Load ord pol = Inl ReportToMismatch)) \<and>
   (Value (ReportTo (CSP pol)) \<noteq> [] \<and> ReportTo_ReportTo pol \<noteq> [] \<and>
    (\<exists>a b. ReportTo_ReportTo pol = a @ Value (ReportTo (CSP pol)) @ b) \<longrightarrow>
      compoundChecks pol = Inr ()) \<and>
   (Value (ReportTo (CSP pol)) = [] \<longrightarrow> compoundChecks pol = Inr ())"
proof -
  have c: "compoundChecks pol =
     (if Value (ReportTo (CSP pol)) = [] then Inr ()
      else if ReportTo_ReportTo pol = [] then Inl ReportToMissing
      else if (\<exists>a b. ReportTo_ReportTo pol = a @ Value (ReportTo (CSP pol)) @ b) then Inr ()
      else Inl ReportToMismatch)"
    by (simp add: compoundChecks_def Contains_iff)
  show ?thesis
    using Load_checks[of pol _ ord] Load_checks_parsed[of pol _ _ ord]
    by (simp add: c)
qed

theorem report_to_validation_witness:
  "Load insertionOrder policyReportToMissing = Inl ReportToMissing \<and>
   Load insertionOrder policyReportToOther = Inl ReportToMismatch \<and>
   compoundChecks SecurityOptionsReactJS = Inr () \<and>
   (\<exists>table. Load insertionOrder SecurityOptionsReactJS = Inr table) \<and>
   compoundChecks policyPayloadOnly = Inr ()"
proof -
  have group: "Value (ReportTo (CSP policyReportToMissing)) = ''default''"
    "Value (ReportTo (CSP policyReportToOther)) = ''default''"
    "Value (ReportTo (CSP SecurityOptionsReactJS)) = ''default''"
    "Value (ReportTo (CSP policyPayloadOnly)) = []"
    by (simp_all add: example_defs zero_Policy_def zero_CSP_def)
  have payload: "ReportTo_ReportTo policyReportToMissing = []"
    "ReportTo_ReportTo policyReportToOther \<noteq> []"
    "ReportTo_ReportTo SecurityOptionsReactJS \<noteq> []"
    by (simp_all add: example_defs)
  have other: "\<nexists>a b. ReportTo_ReportTo policyReportToOther = a @ ''default'' @ b"
    unfolding Contains_iff[symmetric] by (simp add: example_defs)
  have react: "\<exists>a b. ReportTo_ReportTo SecurityOptionsReactJS = a @ ''default'' @ b"
    unfolding Contains_iff[symmetric] by (simp add: example_defs)
  have 1: "Load insertionOrder policyReportToMissing = Inl ReportToMissing"
    using report_to_validation[of policyReportToMissing insertionOrder] group(1) payload(1)
      example_templates[of policyReportToMissing]
    by simp
  have 2: "Load insertionOrder policyReportToOther = Inl ReportToMismatch"
    using report_to_validation[of policyReportToOther insertionOrder] group(2) payload(2) other
      example_templates[of policyReportToOther]
    by simp
  have 3: "compoundChecks SecurityOptionsReactJS = Inr ()"
    using report_to_validation[of SecurityOptionsReactJS insertionOrder] group(3) payload(3) react
    by simp
  have 4: "compoundChecks policyPayloadOnly = Inr ()"
    using report_to_validation[of policyPayloadOnly insertionOrder] group(4) by simp
  have 5: "\<exists>table. Load insertionOrder SecurityOptionsReactJS = Inr table"
    using Load_of_maps[OF maps_ReactJS] by blast
  from 1 2 3 4 5 show ?thesis by blast
qed

text \<open>
  C4 as stated: after a successful \<open>Load\<close> every source-option directive with a nonce is
  in the dynamic map. \<open>default-src\<close> is stored in the static map whatever it holds, and
  a fetch directive that renders like \<open>default-src\<close> is dropped before the partition.
\<close>

theorem source_option_partition_counterexample:
  "NonceBase64Value (ScriptSrc (CSP policySharedNonce)) \<noteq> [] \<and>
   NonceBase64Value (DefaultSrc (CSP policySharedNonce)) \<noteq> [] \<and>
   (\<exists>table static dynamic.
      Load insertionOrder policySharedNonce = Inr table \<and>
      directiveMaps insertionOrder policySharedNonce = Inr (static, dynamic) \<and>
      ''script-src'' \<notin> keys dynamic \<and>
      ''default-src'' \<notin> keys dynamic \<and> ''default-src'' \<in> keys static)"
proof -
  have n: "NonceBase64Value (ScriptSrc (CSP policySharedNonce)) \<noteq> []"
    "NonceBase64Value (DefaultSrc (CSP policySharedNonce)) \<noteq> []"
    by (simp_all add: policySharedNonce_def quoted_def)
  obtain st dy where
    m: "directiveMaps insertionOrder policySharedNonce = Inr (st, dy)" and
    k: "''script-src'' \<notin> keys dy" "''default-src'' \<notin> keys dy" "''default-src'' \<in> keys st"
    using maps_SharedNonce by (simp add: keys_def)
  from n Load_table_of_maps[OF m] m k show ?thesis by blast
qed

text \<open>
  C4 amended: after a successful \<open>Load\<close>, \<open>default-src\<close> is in the static map and not in
  the dynamic map; a fetch directive is in the dynamic map exactly when its rendered text
  differs from that of \<open>default-src\<close> and it has a nonce or a hash value, and in the
  static map exactly when its rendered text differs and it has neither; \<open>base-uri\<close> and
  \<open>form-action\<close> are in the dynamic map exactly when they have a nonce or a hash value,
  and in the static map exactly when they have neither.
\<close>

theorem source_option_partition:
  assumes "Load ord pol = Inr table"
  shows "\<exists>static dynamic d.
     directiveMaps ord pol = Inr (static, dynamic) \<and>
     renderedSourceOption pol (DefaultSrc (CSP pol)) = Inr d \<and>
     ''default-src'' \<in> keys static \<and> ''default-src'' \<notin> keys dynamic \<and>
     (\<forall>(k, v) \<in> set (sourceOptFetchDirectives pol).
        (k \<in> keys dynamic \<longleftrightarrow> renderedSourceOption pol v \<noteq> Inr d \<and> isDynamic v) \<and>
        (k \<in> keys static \<longleftrightarrow> renderedSourceOption pol v \<noteq> Inr d \<and> \<not> isDynamic v)) \<and>
     (\<forall>(k, v) \<in> set (sourceOptNonFetchDirectives pol).
        (k \<in> keys dynamic \<longleftrightarrow> isDynamic v) \<and> (k \<in> keys static \<longleftrightarrow> \<not> isDynamic v))"
proof -
  from assms obtain st dy where m: "directiveMaps ord pol = Inr (st, dy)"
    by (rule Load_Inr)
  from m obtain t where
    l: "loadDirectives ord t (defaultTemplates pol) = Inr (st, dy)" and
    r: "\<And>v. renderedSourceOption pol v = CSPSourceOptions_Parse v (SourceOptionTemplate t)"
    by (rule directiveMaps_Inr) blast
  from l obtain d where
    d: "CSPSourceOptions_Parse (DefaultSrc (CSP (defaultTemplates pol))) (SourceOptionTemplate t)
        = Inr d" and
    nd: "''default-src'' \<notin> keys dy"
    by (rule loadDirectives_maps)
  have "map_of st ''default-src'' = Some d" by (rule hasFragment_default_src(1)[OF l d])
  then have ds: "''default-src'' \<in> keys st"
    by (auto simp: keys_def dest: map_of_SomeD intro: rev_image_eqI)
  have fetch: "(k \<in> keys dy \<longleftrightarrow> renderedSourceOption pol v \<noteq> Inr d \<and> isDynamic v) \<and>
        (k \<in> keys st \<longleftrightarrow> renderedSourceOption pol v \<noteq> Inr d \<and> \<not> isDynamic v)"
    if "(k, v) \<in> set (sourceOptFetchDirectives pol)" for k v
    using loadDirectives_fetch_key[OF l d, of k v] that by (simp add: r)
  have nonFetch: "(k \<in> keys dy \<longleftrightarrow> isDynamic v) \<and> (k \<in> keys st \<longleftrightarrow> \<not> isDynamic v)"
    if "(k, v) \<in> set (sourceOptNonFetchDirectives pol)" for k v
    using loadDirectives_nonFetch_key[OF l, of k v] that by simp
  from m d r ds nd fetch nonFetch show ?thesis by auto
qed

theorem source_option_partition_witness:
  "\<exists>static dynamic.
      directiveMaps insertionOrder policyScriptNonce = Inr (static, dynamic) \<and>
      isDynamic (ScriptSrc (CSP policyScriptNonce)) \<and>
      ''script-src'' \<in> keys dynamic \<and> ''script-src'' \<notin> keys static \<and>
      isDynamic (FormAction (CSP policyScriptNonce)) \<and>
      ''form-action'' \<in> keys dynamic \<and> ''form-action'' \<notin> keys static \<and>
      \<not> isDynamic (BaseURI (CSP policyScriptNonce)) \<and>
      ''base-uri'' \<in> keys static \<and> ''base-uri'' \<notin> keys dynamic \<and>
      ''style-src'' \<notin> keys static \<and> ''style-src'' \<notin> keys dynamic"
proof -
  note l = Load_of_maps[OF maps_ScriptNonce]
  from source_option_partition[OF l] obtain static dynamic d where
    m: "directiveMaps insertionOrder policyScriptNonce = Inr (static, dynamic)" and
    d: "renderedSourceOption policyScriptNonce (DefaultSrc (CSP policyScriptNonce)) = Inr d" and
    f: "\<forall>(k, v) \<in> set (sourceOptFetchDirectives policyScriptNonce).
        (k \<in> keys dynamic \<longleftrightarrow> renderedSourceOption policyScriptNonce v \<noteq> Inr d \<and> isDynamic v) \<and>
        (k \<in> keys static \<longleftrightarrow> renderedSourceOption policyScriptNonce v \<noteq> Inr d \<and> \<not> isDynamic v)" and
    n: "\<forall>(k, v) \<in> set (sourceOptNonFetchDirectives policyScriptNonce).
        (k \<in> keys dynamic \<longleftrightarrow> isDynamic v) \<and> (k \<in> keys static \<longleftrightarrow> \<not> isDynamic v)"
    by blast
  have t: "SourceOptionTemplateText policyScriptNonce = []"
    by (simp add: policyScriptNonce_def zero_Policy_def)
  have fields: "CSP policyScriptNonce = zero_CSP
       \<lparr> ScriptSrc := zero_CSPSourceOptions
           \<lparr> Allow := True, AllowSelf := True, NonceBase64Value := quoted ''nonce-abc'' \<rparr>,
         FormAction := zero_CSPSourceOptions
           \<lparr> Allow := True, HashAlgorithmBase64Value := quoted ''sha256-xyz'' \<rparr> \<rparr>"
    by (simp add: policyScriptNonce_def zero_Policy_def)
  have "d = quoted ''none''"
    using d by (simp add: renderedSourceOption_default[OF t] fields zero_CSP_def
        sourceOptionText_def zero_CSPSourceOptions_def)
  with f have f': "\<forall>(k, v) \<in> set (sourceOptFetchDirectives policyScriptNonce).
        (k \<in> keys dynamic \<longleftrightarrow> sourceOptionText v \<noteq> quoted ''none'' \<and> isDynamic v) \<and>
        (k \<in> keys static \<longleftrightarrow> sourceOptionText v \<noteq> quoted ''none'' \<and> \<not> isDynamic v)"
    by (simp add: renderedSourceOption_default[OF t])
  from f' n have
    "isDynamic (ScriptSrc (CSP policyScriptNonce)) \<and>
      ''script-src'' \<in> keys dynamic \<and> ''script-src'' \<notin> keys static \<and>
      isDynamic (FormAction (CSP policyScriptNonce)) \<and>
      ''form-action'' \<in> keys dynamic \<and> ''form-action'' \<notin> keys static \<and>
      \<not> isDynamic (BaseURI (CSP policyScriptNonce)) \<and>
      ''base-uri'' \<in> keys static \<and> ''base-uri'' \<notin> keys dynamic \<and>
      ''style-src'' \<notin> keys static \<and> ''style-src'' \<notin> keys dynamic"
    by (simp add: sourceOptFetchDirectives_def sourceOptNonFetchDirectives_def fields zero_CSP_def
        zero_CSPSourceOptions_def isDynamic_def text_defs)
  with m show ?thesis by blast
qed

text \<open>
  C5 as stated: whenever \<open>Load\<close> succeeds the header value has a \<open>default-src\<close> fragment,
  also for \<open>Allow = true\<close> with every other field empty. For that value the rendered
  text is empty and the flattening drops the entry.
\<close>

theorem default_src_emitted_unless_empty_counterexample:
  "Allow (DefaultSrc (CSP policyDefaultAllowOnly)) \<and>
   (\<exists>table active.
      Load insertionOrder policyDefaultAllowOnly = Inr table \<and>
      fragments insertionOrder policyDefaultAllowOnly = Inr active \<and>
      table ''Content-Security-Policy'' = Some (Join active '' '') \<and>
      \<not> hasFragment ''default-src'' active)"
proof -
  have a: "Allow (DefaultSrc (CSP policyDefaultAllowOnly))"
    by (simp add: policyDefaultAllowOnly_def)
  obtain st dy where
    m: "directiveMaps insertionOrder policyDefaultAllowOnly = Inr (st, dy)" and
    h: "\<not> hasFragment ''default-src'' (activeCSPs insertionOrder st dy)"
    using maps_DefaultAllowOnly by (simp add: fragment_eval)
  from a Load_table_of_maps[OF m] fragments_of_maps[OF m] h show ?thesis by blast
qed

text \<open>
  C5 amended: whenever \<open>Load\<close> succeeds, the rendered text of \<open>default-src\<close> is in the
  static map (the redundancy filter never removes it), and the header value has a
  \<open>default-src\<close> fragment exactly when that text is not empty; under the default template
  the text is empty exactly when \<open>Allow\<close> is true and every other field is false or
  empty.
\<close>

theorem default_src_emitted_unless_empty:
  assumes "Load ord pol = Inr table"
  shows "\<exists>static dynamic active d.
     directiveMaps ord pol = Inr (static, dynamic) \<and>
     fragments ord pol = Inr active \<and>
     table ''Content-Security-Policy'' = Some (Join active '' '') \<and>
     renderedSourceOption pol (DefaultSrc (CSP pol)) = Inr d \<and>
     map_of static ''default-src'' = Some d \<and>
     (hasFragment ''default-src'' active \<longleftrightarrow> d \<noteq> []) \<and>
     (if SourceOptionTemplateText pol = []
      then d = [] \<longleftrightarrow>
        Allow (DefaultSrc (CSP pol)) \<and> \<not> AllowSelf (DefaultSrc (CSP pol)) \<and>
        Values (DefaultSrc (CSP pol)) = [] \<and> \<not> UnsafeEval (DefaultSrc (CSP pol)) \<and>
        \<not> WasmUnsafeEval (DefaultSrc (CSP pol)) \<and> \<not> UnsafeHashes (DefaultSrc (CSP pol)) \<and>
        \<not> UnsafeInline (DefaultSrc (CSP pol)) \<and>
        NonceBase64Value (DefaultSrc (CSP pol)) = [] \<and>
        HashAlgorithmBase64Value (DefaultSrc (CSP pol)) = [] \<and>
        \<not> StrictDynamic (DefaultSrc (CSP pol)) \<and> \<not> ReportSample (DefaultSrc (CSP pol))
      else True)"
proof -
  from assms obtain st dy where
    m: "directiveMaps ord pol = Inr (st, dy)" and
    f: "fragments ord pol = Inr (activeCSPs ord st dy)" and
    tb: "table = cspTable pol (Join (activeCSPs ord st dy) '' '')"
    by (rule Load_Inr)
  from m obtain t where
    l: "loadDirectives ord t (defaultTemplates pol) = Inr (st, dy)" and
    r: "\<And>v. renderedSourceOption pol v = CSPSourceOptions_Parse v (SourceOptionTemplate t)"
    by (rule directiveMaps_Inr) blast
  from l obtain d where
    d: "CSPSourceOptions_Parse (DefaultSrc (CSP (defaultTemplates pol))) (SourceOptionTemplate t)
        = Inr d"
    by (rule loadDirectives_maps)
  note hasFragment_default_src(1)[OF l d] hasFragment_default_src(2)[OF l d, of ord]
  moreover have "d = sourceOptionText (DefaultSrc (CSP pol))" if "SourceOptionTemplateText pol = []"
    using renderedSourceOption_default[OF that, of "DefaultSrc (CSP pol)"] d r by simp
  ultimately show ?thesis using m f tb d r
    by (auto simp: cspTable_lookup sourceOptionText_empty_iff)
qed

theorem default_src_emitted_unless_empty_witness:
  "\<exists>static dynamic active.
     directiveMaps insertionOrder SecurityOptionsReactJS = Inr (static, dynamic) \<and>
     fragments insertionOrder SecurityOptionsReactJS = Inr active \<and>
     map_of static ''default-src'' = Some (quoted ''none'') \<and>
     hasFragment ''default-src'' active"
proof -
  note l = Load_of_maps[OF maps_ReactJS]
  from default_src_emitted_unless_empty[OF l] obtain static dynamic active d where
    m: "directiveMaps insertionOrder SecurityOptionsReactJS = Inr (static, dynamic)" and
    f: "fragments insertionOrder SecurityOptionsReactJS = Inr active" and
    s: "map_of static ''default-src'' = Some d" and
    h: "hasFragment ''default-src'' active \<longleftrightarrow> d \<noteq> []"
    by blast
  from m s have "d = quoted ''none''"
    by (auto simp: maps_ReactJS)
  with s h have "map_of static ''default-src'' = Some (quoted ''none'')"
    "hasFragment ''default-src'' active" by (simp_all add: quoted_def)
  with m f show ?thesis by blast
qed

text \<open>
  C8. Whenever \<open>Load\<close> succeeds, the returned map has the key
  \<open>Content-Security-Policy\<close>, it has the key \<open>Report-To\<close> exactly when
  \<open>ReportTo.ReportTo\<close> is not empty, the value under \<open>Report-To\<close> is that string
  unchanged, and the map has no other key.
\<close>

theorem report_to_header_passthrough:
  assumes "Load ord pol = Inr table"
  shows "table ''Content-Security-Policy'' \<noteq> None \<and>
     (''Report-To'' \<in> dom table \<longleftrightarrow> ReportTo_ReportTo pol \<noteq> []) \<and>
     (if ReportTo_ReportTo pol = [] then table ''Report-To'' = None
      else table ''Report-To'' = Some (ReportTo_ReportTo pol)) \<and>
     dom table \<subseteq> {''Content-Security-Policy'', ''Report-To''}"
proof -
  from assms obtain st dy where
    "table = cspTable pol (Join (activeCSPs ord st dy) '' '')"
    by (rule Load_Inr)
  then show ?thesis by (auto simp: cspTable_lookup split: if_splits)
qed

theorem report_to_header_passthrough_witness:
  "(\<exists>table. Load insertionOrder SecurityOptionsReactJS = Inr table \<and>
      table ''Content-Security-Policy'' \<noteq> None \<and> ''Report-To'' \<in> dom table \<and>
      table ''Report-To'' = Some (ReportTo_ReportTo SecurityOptionsReactJS)) \<and>
   (\<exists>table. Load insertionOrder zero_Policy = Inr table \<and>
      table ''Content-Security-Policy'' \<noteq> None \<and> ''Report-To'' \<notin> dom table)"
proof -
  have p: "ReportTo_ReportTo SecurityOptionsReactJS \<noteq> []" "ReportTo_ReportTo zero_Policy = []"
    by (simp_all add: SecurityOptionsReactJS_def zero_Policy_def)
  obtain t1 where l1: "Load insertionOrder SecurityOptionsReactJS = Inr t1"
    using Load_of_maps[OF maps_ReactJS] by blast
  obtain t2 where l2: "Load insertionOrder zero_Policy = Inr t2"
    using Load_of_maps[OF maps_zero_insertion] by blast
  from report_to_header_passthrough[OF l1] p(1) have
    "t1 ''Content-Security-Policy'' \<noteq> None \<and> ''Report-To'' \<in> dom t1 \<and>
      t1 ''Report-To'' = Some (ReportTo_ReportTo SecurityOptionsReactJS)" by simp
  moreover from report_to_header_passthrough[OF l2] p(2) have
    "t2 ''Content-Security-Policy'' \<noteq> None \<and> ''Report-To'' \<notin> dom t2" by simp
  ultimately show ?thesis using l1 l2 by blast
qed

text \<open>
  C9. For the zero policy, whatever the order of iteration, \<open>Load\<close> succeeds with the
  single key \<open>Content-Security-Policy\<close>, and its value is the join by single spaces of
  the four fragments for \<open>default-src\<close>, \<open>base-uri\<close>, \<open>form-action\<close> and
  \<open>frame-ancestors\<close>, each with the text \<open>'none'\<close>, in some order.
\<close>

theorem zero_policy_headers:
  "\<exists>fs. mset fs = mset [''default-src 'none';'', ''base-uri 'none';'',
                        ''form-action 'none';'', ''frame-ancestors 'none';''] \<and>
        fragments ord zero_Policy = Inr fs \<and>
        Load ord zero_Policy = Inr [''Content-Security-Policy'' \<mapsto> Join fs '' '']"
proof -
  from directiveMaps_zero[of ord] obtain st where
    m: "directiveMaps ord zero_Policy = Inr (st, [])" and
    st: "mset st = mset [(''default-src'', quoted ''none''), (''base-uri'', quoted ''none''),
       (''form-action'', quoted ''none''), (''sandbox'', []),
       (''frame-ancestors'', quoted ''none''), (''report-uri'', []), (''report-to'', []),
       (''upgrade-insecure-requests'', [])]"
    by blast
  let ?fs = "activeCSPs ord st []"
  have "mset ?fs = mset [''default-src 'none';'', ''base-uri 'none';'',
                        ''form-action 'none';'', ''frame-ancestors 'none';'']"
    unfolding mset_flatten st by (simp add: quoted_def Sprintf_def)
  moreover have "fragments ord zero_Policy = Inr ?fs"
    by (simp add: fragments_def m)
  moreover have "Load ord zero_Policy = Inr [''Content-Security-Policy'' \<mapsto> Join ?fs '' '']"
    by (simp add: Load_fragments fragments_def m cspTable_def zero_fields)
  ultimately show ?thesis by blast
qed

text \<open>
  C10. For each of the five template texts, \<open>Load\<close> works with the text that the
  caller supplied when it is not empty and with the built-in text of that kind when it is
  empty: the text in use is never empty; a policy with an empty text gives the same
  result as the policy with the built-in text in its place; \<open>Load\<close> succeeds exactly
  when the pre-flight check passes and every option value renders under the text in use
  for its kind; and when it succeeds, the header value is the join of the fragments, in
  which every directive has the fragment of its rendering under the text in use and no
  other (none when the rendering is empty, or when a fetch directive renders like
  \<open>default-src\<close>).
\<close>

theorem empty_template_text_is_default:
  "(let so = templateTextInUse (SourceOptionTemplateText pol) TemplateTextSourceOption;
        sb = templateTextInUse (SandboxOptionTemplateText pol) TemplateTextSandbox;
        fa = templateTextInUse (FrameAncestorOptionsTemplateText pol)
               TemplateTextFrameAncestorOptions;
        uos = templateTextInUse (UnquotedOptionsTextTemplateText pol) TemplateTextUnquotedOptions;
        uo = templateTextInUse (UnquotedOptionTextTemplateText pol) TemplateTextUnquotedOption
    in
      SourceOptionTemplateText (defaultTemplates pol) = so \<and>
      SandboxOptionTemplateText (defaultTemplates pol) = sb \<and>
      FrameAncestorOptionsTemplateText (defaultTemplates pol) = fa \<and>
      UnquotedOptionsTextTemplateText (defaultTemplates pol) = uos \<and>
      UnquotedOptionTextTemplateText (defaultTemplates pol) = uo \<and>
      so \<noteq> [] \<and> sb \<noteq> [] \<and> fa \<noteq> [] \<and> uos \<noteq> [] \<and> uo \<noteq> [] \<and>
      Load ord pol = Load ord (defaultTemplates pol) \<and>
      Load ord (pol \<lparr> SourceOptionTemplateText := [] \<rparr>) =
        Load ord (pol \<lparr> SourceOptionTemplateText := TemplateTextSourceOption \<rparr>) \<and>
      Load ord (pol \<lparr> SandboxOptionTemplateText := [] \<rparr>) =
        Load ord (pol \<lparr> SandboxOptionTemplateText := TemplateTextSandbox \<rparr>) \<and>
      Load ord (pol \<lparr> FrameAncestorOptionsTemplateText := [] \<rparr>) =
        Load ord (pol \<lparr> FrameAncestorOptionsTemplateText := TemplateTextFrameAncestorOptions \<rparr>) \<and>
      Load ord (pol \<lparr> UnquotedOptionsTextTemplateText := [] \<rparr>) =
        Load ord (pol \<lparr> UnquotedOptionsTextTemplateText := TemplateTextUnquotedOptions \<rparr>) \<and>
      Load ord (pol \<lparr> UnquotedOptionTextTemplateText := [] \<rparr>) =
        Load ord (pol \<lparr> UnquotedOptionTextTemplateText := TemplateTextUnquotedOption \<rparr>) \<and>
      ((\<exists>table. Load ord pol = Inr table) \<longleftrightarrow>
         compoundChecks pol = Inr () \<and>
         (\<exists>x. renderSourceOption so (DefaultSrc (CSP pol)) = Inr x) \<and>
         (\<forall>(k, v) \<in> set (sourceOptFetchDirectives pol). \<exists>x. renderSourceOption so v = Inr x) \<and>
         (\<forall>(k, v) \<in> set (sourceOptNonFetchDirectives pol). \<exists>x. renderSourceOption so v = Inr x) \<and>
         (\<exists>x. renderSandbox sb (Sandbox (CSP pol)) = Inr x) \<and>
         (\<exists>x. renderFrameAncestors fa (FrameAncestors (CSP pol)) = Inr x) \<and>
         (\<exists>x. renderUnquotedOptions uos (ReportURI (CSP pol)) = Inr x) \<and>
         (\<exists>x. renderUnquotedOption uo (ReportTo (CSP pol)) = Inr x)) \<and>
      (\<forall>table. Load ord pol = Inr table \<longrightarrow>
         (\<exists>fs d sbx fra ru rt.
            fragments ord pol = Inr fs \<and>
            table = cspTable pol (Join fs '' '') \<and>
            renderSourceOption so (DefaultSrc (CSP pol)) = Inr d \<and>
            renderSandbox sb (Sandbox (CSP pol)) = Inr sbx \<and>
            renderFrameAncestors fa (FrameAncestors (CSP pol)) = Inr fra \<and>
            renderUnquotedOptions uos (ReportURI (CSP pol)) = Inr ru \<and>
            renderUnquotedOption uo (ReportTo (CSP pol)) = Inr rt \<and>
            filter (fragmentFor ''default-src'') fs =
              (if d = [] then [] else [Sprintf ''default-src'' d]) \<and>
            filter (fragmentFor ''sandbox'') fs =
              (if sbx = [] then [] else [Sprintf ''sandbox'' sbx]) \<and>
            filter (fragmentFor ''frame-ancestors'') fs =
              (if fra = [] then [] else [Sprintf ''frame-ancestors'' fra]) \<and>
            filter (fragmentFor ''report-uri'') fs =
              (if ru = [] then [] else [Sprintf ''report-uri'' ru]) \<and>
            filter (fragmentFor ''report-to'') fs =
              (if rt = [] then [] else [Sprintf ''report-to'' rt]) \<and>
            (\<forall>(k, v) \<in> set (sourceOptFetchDirectives pol).
               \<exists>x. renderSourceOption so v = Inr x \<and>
                   filter (fragmentFor k) fs = (if x = [] \<or> x = d then [] else [Sprintf k x])) \<and>
            (\<forall>(k, v) \<in> set (sourceOptNonFetchDirectives pol).
               \<exists>x. renderSourceOption so v = Inr x \<and>
                   filter (fragmentFor k) fs = (if x = [] then [] else [Sprintf k x])))))"
proof -
  let ?so = "templateTextInUse (SourceOptionTemplateText pol) TemplateTextSourceOption"
  let ?sb = "templateTextInUse (SandboxOptionTemplateText pol) TemplateTextSandbox"
  let ?fa = "templateTextInUse (FrameAncestorOptionsTemplateText pol)
               TemplateTextFrameAncestorOptions"
  let ?uos = "templateTextInUse (UnquotedOptionsTextTemplateText pol) TemplateTextUnquotedOptions"
  let ?uo = "templateTextInUse (UnquotedOptionTextTemplateText pol) TemplateTextUnquotedOption"
  have nonempty: "?so \<noteq> []" "?sb \<noteq> []" "?fa \<noteq> []" "?uos \<noteq> []" "?uo \<noteq> []"
    by (simp_all add: templateTextInUse_def templateTexts_nonempty)
  have same: "Load ord p = Load ord q" if "defaultTemplates p = defaultTemplates q" for p q
    using that by (simp add: Load_def)
  have eqs: "Load ord pol = Load ord (defaultTemplates pol)"
    "Load ord (pol \<lparr> SourceOptionTemplateText := [] \<rparr>) =
        Load ord (pol \<lparr> SourceOptionTemplateText := TemplateTextSourceOption \<rparr>)"
    "Load ord (pol \<lparr> SandboxOptionTemplateText := [] \<rparr>) =
        Load ord (pol \<lparr> SandboxOptionTemplateText := TemplateTextSandbox \<rparr>)"
    "Load ord (pol \<lparr> FrameAncestorOptionsTemplateText := [] \<rparr>) =
        Load ord (pol \<lparr> FrameAncestorOptionsTemplateText := TemplateTextFrameAncestorOptions \<rparr>)"
    "Load ord (pol \<lparr> UnquotedOptionsTextTemplateText := [] \<rparr>) =
        Load ord (pol \<lparr> UnquotedOptionsTextTemplateText := TemplateTextUnquotedOptions \<rparr>)"
    "Load ord (pol \<lparr> UnquotedOptionTextTemplateText := [] \<rparr>) =
        Load ord (pol \<lparr> UnquotedOptionTextTemplateText := TemplateTextUnquotedOption \<rparr>)"
    using templateTexts_nonempty by (auto simp: defaultTemplates_def intro!: same)
  have content: "\<exists>fs d sbx fra ru rt.
            fragments ord pol = Inr fs \<and>
            table = cspTable pol (Join fs '' '') \<and>
            renderSourceOption ?so (DefaultSrc (CSP pol)) = Inr d \<and>
            renderSandbox ?sb (Sandbox (CSP pol)) = Inr sbx \<and>
            renderFrameAncestors ?fa (FrameAncestors (CSP pol)) = Inr fra \<and>
            renderUnquotedOptions ?uos (ReportURI (CSP pol)) = Inr ru \<and>
            renderUnquotedOption ?uo (ReportTo (CSP pol)) = Inr rt \<and>
            filter (fragmentFor ''default-src'') fs =
              (if d = [] then [] else [Sprintf ''default-src'' d]) \<and>
            filter (fragmentFor ''sandbox'') fs =
              (if sbx = [] then [] else [Sprintf ''sandbox'' sbx]) \<and>
            filter (fragmentFor ''frame-ancestors'') fs =
              (if fra = [] then [] else [Sprintf ''frame-ancestors'' fra]) \<and>
            filter (fragmentFor ''report-uri'') fs =
              (if ru = [] then [] else [Sprintf ''report-uri'' ru]) \<and>
            filter (fragmentFor ''report-to'') fs =
              (if rt = [] then [] else [Sprintf ''report-to'' rt]) \<and>
            (\<forall>(k, v) \<in> set (sourceOptFetchDirectives pol).
               \<exists>x. renderSourceOption ?so v = Inr x \<and>
                   filter (fragmentFor k) fs = (if x = [] \<or> x = d then [] else [Sprintf k x])) \<and>
            (\<forall>(k, v) \<in> set (sourceOptNonFetchDirectives pol).
               \<exists>x. renderSourceOption ?so v = Inr x \<and>
                   filter (fragmentFor k) fs = (if x = [] then [] else [Sprintf k x]))"
    if l: "Load ord pol = Inr table" for table
  proof -
    from l obtain st dy where
      m: "directiveMaps ord pol = Inr (st, dy)" and
      f: "fragments ord pol = Inr (activeCSPs ord st dy)" and
      tb: "table = cspTable pol (Join (activeCSPs ord st dy) '' '')"
      by (rule Load_Inr)
    from m obtain t where
      t: "parseTemplates (defaultTemplates pol) = Inr t" and
      ld: "loadDirectives ord t (defaultTemplates pol) = Inr (st, dy)"
      by (rule directiveMaps_Inr) blast
    note p = t[unfolded parseTemplates_iff defaultTemplates_inUse]
    note r = p[THEN conjunct1, THEN render_parsed(1)]
        p[THEN conjunct2, THEN conjunct1, THEN render_parsed(2)]
        p[THEN conjunct2, THEN conjunct2, THEN conjunct1, THEN render_parsed(3)]
        p[THEN conjunct2, THEN conjunct2, THEN conjunct2, THEN conjunct1, THEN render_parsed(4)]
        p[THEN conjunct2, THEN conjunct2, THEN conjunct2, THEN conjunct2, THEN render_parsed(5)]
    show ?thesis
    proof (rule loadDirectives_fragments[OF ld, where ord' = ord], goal_cases)
      case (1 d sbx fra ru rt)
      have F: "\<forall>(k, v) \<in> set (sourceOptFetchDirectives pol).
          \<exists>x. renderSourceOption ?so v = Inr x \<and>
              filter (fragmentFor k) (activeCSPs ord st dy) =
                (if x = [] \<or> x = d then [] else [Sprintf k x])"
        using 1(12) by (simp add: r split_beta)
      have N: "\<forall>(k, v) \<in> set (sourceOptNonFetchDirectives pol).
          \<exists>x. renderSourceOption ?so v = Inr x \<and>
              filter (fragmentFor k) (activeCSPs ord st dy) =
                (if x = [] then [] else [Sprintf k x])"
        using 1(13) by (simp add: r split_beta)
      have R: "renderSourceOption ?so (DefaultSrc (CSP pol)) = Inr d"
        "renderSandbox ?sb (Sandbox (CSP pol)) = Inr sbx"
        "renderFrameAncestors ?fa (FrameAncestors (CSP pol)) = Inr fra"
        "renderUnquotedOptions ?uos (ReportURI (CSP pol)) = Inr ru"
        "renderUnquotedOption ?uo (ReportTo (CSP pol)) = Inr rt"
        using 1(1-5) by (simp_all add: r)
      from f tb R 1(6-10) F N show ?case by blast
    qed
  qed
  show ?thesis
    unfolding Let_def
    using nonempty eqs Load_succeeds_iff[of ord pol] content
    by (simp add: defaultTemplates_inUse)
qed

theorem empty_template_text_is_default_witness:
  "Load insertionOrder policyCustomTemplates =
     Inr [''Content-Security-Policy'' \<mapsto>
            ''default-src 'none'; script-src *; base-uri 'none'; form-action 'none'; sandbox allow-scripts; frame-ancestors 'none';''] \<and>
   Load insertionOrder
     (policyCustomTemplates \<lparr> SourceOptionTemplateText := [], SandboxOptionTemplateText := [] \<rparr>) =
     Inr [''Content-Security-Policy'' \<mapsto>
            ''default-src 'none'; base-uri 'none'; form-action 'none'; frame-ancestors 'none';''] \<and>
   (\<exists>fs. fragments insertionOrder policyCustomTemplates = Inr fs \<and>
      filter (fragmentFor ''default-src'') fs = [''default-src 'none';''] \<and>
      filter (fragmentFor ''script-src'') fs = [''script-src *;''] \<and>
      filter (fragmentFor ''sandbox'') fs = [''sandbox allow-scripts;''])"
proof -
  let ?p = policyCustomTemplates
  have l1: "Load insertionOrder ?p =
     Inr [''Content-Security-Policy'' \<mapsto>
            ''default-src 'none'; script-src *; base-uri 'none'; form-action 'none'; sandbox allow-scripts; frame-ancestors 'none';'']"
    unfolding Load_of_maps[OF maps_CustomTemplates]
    by (simp add: cspTable_def custom_fields activeCSPs_def insertionOrder_def rangeOrder_Nil
        Sprintf_def quoted_def)
  have l2: "Load insertionOrder
     (?p \<lparr> SourceOptionTemplateText := [], SandboxOptionTemplateText := [] \<rparr>) =
     Inr [''Content-Security-Policy'' \<mapsto>
            ''default-src 'none'; base-uri 'none'; form-action 'none'; frame-ancestors 'none';'']"
    unfolding Load_of_maps[OF maps_CustomTemplates_defaults]
    by (simp add: cspTable_def custom_fields activeCSPs_def insertionOrder_def rangeOrder_Nil
        Sprintf_def quoted_def)
  have so: "templateTextInUse (SourceOptionTemplateText ?p) TemplateTextSourceOption =
      customTextSourceOption"
    and sb: "templateTextInUse (SandboxOptionTemplateText ?p) TemplateTextSandbox =
      customTextSandbox"
    by (simp_all add: templateTextInUse_def custom_fields custom_nonempty)
  have r: "renderSourceOption customTextSourceOption v =
      Inr (if Allow v then ''*'' else quoted ''none'')"
    "renderSandbox customTextSandbox s =
      Inr (if AllowForms s then ''allow-forms'' else ''allow-scripts'')" for v s
    by (simp_all add: render_parsed[OF template_Parse_custom(1)]
        render_parsed[OF template_Parse_custom(2)] custom_render)
  have k: "(''script-src'', zero_CSPSourceOptions \<lparr> Allow := True \<rparr>)
      \<in> set (sourceOptFetchDirectives ?p)"
    by (simp add: sourceOptFetchDirectives_def custom_fields zero_CSP_def)
  from empty_template_text_is_default[of ?p insertionOrder, unfolded Let_def so sb] l1
  obtain fs d sbx where
    f: "fragments insertionOrder ?p = Inr fs" and
    d: "renderSourceOption customTextSourceOption (DefaultSrc (CSP ?p)) = Inr d" and
    s: "renderSandbox customTextSandbox (Sandbox (CSP ?p)) = Inr sbx" and
    fd: "filter (fragmentFor ''default-src'') fs =
           (if d = [] then [] else [Sprintf ''default-src'' d])" and
    fs: "filter (fragmentFor ''sandbox'') fs = (if sbx = [] then [] else [Sprintf ''sandbox'' sbx])" and
    ff: "\<forall>(k, v) \<in> set (sourceOptFetchDirectives ?p).
           \<exists>x. renderSourceOption customTextSourceOption v = Inr x \<and>
               filter (fragmentFor k) fs = (if x = [] \<or> x = d then [] else [Sprintf k x])"
    by blast
  from d have d': "d = quoted ''none''"
    by (simp add: r custom_fields zero_CSP_def zero_CSPSourceOptions_def)
  from s have s': "sbx = ''allow-scripts''"
    by (simp add: r custom_fields zero_CSP_def zero_SandboxOptions_def)
  from ff k have "\<exists>x. renderSourceOption customTextSourceOption
        (zero_CSPSourceOptions \<lparr> Allow := True \<rparr>) = Inr x \<and>
      filter (fragmentFor ''script-src'') fs = (if x = [] \<or> x = d then [] else [Sprintf ''script-src'' x])"
    by blast
  then have fk: "filter (fragmentFor ''script-src'') fs = [Sprintf ''script-src'' ''*'']"
    by (auto simp: r d' quoted_def)
  from fd fs fk have
    "filter (fragmentFor ''default-src'') fs = [''default-src 'none';'']"
    "filter (fragmentFor ''script-src'') fs = [''script-src *;'']"
    "filter (fragmentFor ''sandbox'') fs = [''sandbox allow-scripts;'']"
    by (simp_all add: d' s' Sprintf_def quoted_def)
  with f l1 l2 show ?thesis by blast
qed

end
